(* ===== verification/Prelude.thy ===== *)
theory Prelude
  imports Main "HOL-Library.List_Lexorder" "HOL-Library.Char_ord"
begin

text \<open>
  Shared vocabulary of the development: the types that name the model's values
  (keys of the realtime store, money), the decimal rendering and parsing of numbers
  that the application does with \<open>String(n)\<close>, \<open>padStart\<close> and \<open>Number(s)\<close>,
  association lists updated in place the way a JSON object is, and the
  \<open>Array.reduce\<close> sums. The lemmas here are the generic facts the component theories
  share; they are declared into the collections \<open>digit_simps\<close> and \<open>alist_simps\<close>.
\<close>

named_theorems digit_simps "rendering and parsing of decimal numbers"
named_theorems alist_simps "association lists updated in place"

type_synonym key = string

text \<open>
  Money is kept in integer cents. The source computes with JavaScript doubles; the
  model computes exactly (see the header of \<open>Spec2Isabelle\<close>).
\<close>

type_synonym money = int

text \<open>JavaScript's nullish coalescing \<open>x ?? d\<close>, with \<open>undefined\<close> as \<open>None\<close>.\<close>

definition coalesce :: "'a option \<Rightarrow> 'a \<Rightarrow> 'a" where
  "coalesce x d = (case x of None \<Rightarrow> d | Some v \<Rightarrow> v)"

lemma coalesce_simps [simp]: "coalesce None d = d" "coalesce (Some v) d = v"
  by (simp_all add: coalesce_def)

section \<open>Decimal numbers as strings\<close>

text \<open>\<open>String(n)\<close> for a non-negative integer: its decimal digits, most significant first.\<close>

definition digit_char :: "nat \<Rightarrow> char" where
  "digit_char d = char_of (48 + d)"

fun show_nat :: "nat \<Rightarrow> string" where
  "show_nat n = (if n < 10 then [digit_char n] else show_nat (n div 10) @ [digit_char (n mod 10)])"

declare show_nat.simps [simp del]

text \<open>Template literals \<open>`${y}`\<close> on an integer: a minus sign, then the digits.\<close>

definition show_int :: "int \<Rightarrow> string" where
  "show_int i = (if i < 0 then CHR ''-'' # show_nat (nat (- i)) else show_nat (nat i))"

text \<open>\<open>s.padStart(w, c)\<close> with a one-character pad: pad on the left up to width \<open>w\<close>.\<close>

definition pad_start :: "nat \<Rightarrow> char \<Rightarrow> string \<Rightarrow> string" where
  "pad_start w c s = replicate (w - length s) c @ s"

definition is_digit :: "char \<Rightarrow> bool" where
  "is_digit c \<longleftrightarrow> 48 \<le> (of_char c :: nat) \<and> (of_char c :: nat) \<le> 57"

definition digit_val :: "char \<Rightarrow> nat" where
  "digit_val c = of_char c - 48"

fun digits_val :: "nat \<Rightarrow> string \<Rightarrow> nat" where
  "digits_val acc [] = acc"
| "digits_val acc (c # cs) = digits_val (10 * acc + digit_val c) cs"

text \<open>\<open>Number(s)\<close> on a string that matched \<open>\d+\<close>; anything else is not a decimal.\<close>

definition parse_nat :: "string \<Rightarrow> nat option" where
  "parse_nat s = (if s \<noteq> [] \<and> list_all is_digit s then Some (digits_val 0 s) else None)"

text \<open>\<open>s.trim()\<close>, on the ASCII white space characters.\<close>

definition is_space :: "char \<Rightarrow> bool" where
  "is_space c \<longleftrightarrow> c \<in> {CHR '' '', CHR 0x09, CHR 0x0A, CHR 0x0B, CHR 0x0C, CHR 0x0D}"

definition js_trim :: "string \<Rightarrow> string" where
  "js_trim s = rev (dropWhile is_space (rev (dropWhile is_space s)))"

text \<open>\<open>xs.join(sep)\<close> on strings.\<close>

fun js_join :: "string \<Rightarrow> string list \<Rightarrow> string" where
  "js_join sep [] = []"
| "js_join sep [x] = x"
| "js_join sep (x # y # zs) = x @ sep @ js_join sep (y # zs)"

section \<open>Association lists updated in place\<close>

text \<open>
  A JSON object of the store, or a JavaScript \<open>Map\<close>: writing a key that is present
  replaces its value where it stands, a new key is appended. \<open>aupd k f d\<close> applies
  \<open>f\<close> to the value at \<open>k\<close>, or to the default \<open>d\<close> when \<open>k\<close> is new.
\<close>

fun aupd :: "'k \<Rightarrow> ('v \<Rightarrow> 'v) \<Rightarrow> 'v \<Rightarrow> ('k \<times> 'v) list \<Rightarrow> ('k \<times> 'v) list" where
  "aupd k f d [] = [(k, f d)]"
| "aupd k f d (p # ps) = (if fst p = k then (k, f (snd p)) # ps else p # aupd k f d ps)"

abbreviation aset :: "'k \<Rightarrow> 'v \<Rightarrow> ('k \<times> 'v) list \<Rightarrow> ('k \<times> 'v) list" where
  "aset k v \<equiv> aupd k (\<lambda>_. v) v"

text \<open>\<open>Object.fromEntries\<close>: where a key repeats, the last entry wins.\<close>

definition lookup_last :: "('k \<times> 'v) list \<Rightarrow> 'k \<Rightarrow> 'v option" where
  "lookup_last ps k = map_of (rev ps) k"

section \<open>Lemmas on digits\<close>

lemma digit_char_is_digit [digit_simps]: "d < 10 \<Longrightarrow> is_digit (digit_char d)"
  by (simp add: digit_char_def is_digit_def)

lemma digit_val_digit_char [digit_simps]: "d < 10 \<Longrightarrow> digit_val (digit_char d) = d"
  by (simp add: digit_char_def digit_val_def)

lemma show_nat_unfold:
  "show_nat n = (if n < 10 then [digit_char n] else show_nat (n div 10) @ [digit_char (n mod 10)])"
  by (rule show_nat.simps)

lemma show_nat_digits [digit_simps]: "list_all is_digit (show_nat n)"
proof (induction n rule: show_nat.induct)
  case (1 n)
  then show ?case
    by (subst show_nat_unfold) (simp add: digit_char_is_digit)
qed

lemma show_nat_not_Nil [digit_simps]: "show_nat n \<noteq> []"
  by (subst show_nat_unfold) simp

lemma digits_val_append [digit_simps]:
  "digits_val acc (xs @ ys) = digits_val (digits_val acc xs) ys"
  by (induction xs arbitrary: acc) simp_all

lemma digits_val_show_nat [digit_simps]: "digits_val 0 (show_nat n) = n"
proof (induction n rule: show_nat.induct)
  case (1 n)
  show ?case
  proof (cases "n < 10")
    case True
    then show ?thesis by (subst show_nat_unfold) (simp add: digit_val_digit_char)
  next
    case False
    with "1.IH" have "digits_val 0 (show_nat (n div 10)) = n div 10" by simp
    with False show ?thesis
      by (subst show_nat_unfold) (simp add: digits_val_append digit_val_digit_char)
  qed
qed

lemma digits_val_zeros [digit_simps]: "digits_val 0 (replicate k CHR ''0'' @ s) = digits_val 0 s"
proof -
  have "digits_val 0 (replicate k CHR ''0'') = 0"
    by (induction k) (simp_all add: digit_val_def)
  then show ?thesis by (simp add: digits_val_append)
qed

lemma parse_nat_show_nat [digit_simps]: "parse_nat (show_nat n) = Some n"
  by (simp add: parse_nat_def show_nat_not_Nil show_nat_digits digits_val_show_nat)

lemma parse_nat_pad_start [digit_simps]:
  "parse_nat (pad_start w CHR ''0'' (show_nat n)) = Some n"
proof -
  have "is_digit CHR ''0''" by (simp add: is_digit_def)
  moreover have "\<forall>c \<in> set (show_nat n). is_digit c"
    using show_nat_digits [of n] by (simp add: list_all_iff)
  ultimately show ?thesis
    by (auto simp: parse_nat_def pad_start_def show_nat_not_Nil
        digits_val_zeros digits_val_show_nat list_all_iff)
qed

lemma show_nat_inj [digit_simps]: "show_nat m = show_nat n \<longleftrightarrow> m = n"
  by (metis option.inject parse_nat_show_nat)

section \<open>Lemmas on association lists\<close>

lemma map_of_aupd [alist_simps]:
  "map_of (aupd k f d ps) =
     (map_of ps)(k \<mapsto> f (case map_of ps k of None \<Rightarrow> d | Some v \<Rightarrow> v))"
  by (induction ps) (auto simp: fun_eq_iff)

lemma keys_aupd [alist_simps]: "fst ` set (aupd k f d ps) = insert k (fst ` set ps)"
  by (induction ps) auto

lemma distinct_aupd [alist_simps]:
  "distinct (map fst ps) \<Longrightarrow> distinct (map fst (aupd k f d ps))"
  by (induction ps) (auto simp: keys_aupd)

lemma aupd_present [alist_simps]:
  "k \<in> set (map fst ps) \<Longrightarrow> map fst (aupd k f d ps) = map fst ps"
  by (induction ps) auto

lemma aupd_absent [alist_simps]:
  "k \<notin> set (map fst ps) \<Longrightarrow> aupd k f d ps = ps @ [(k, f d)]"
  by (induction ps) auto

lemma set_aupd_other [alist_simps]:
  "k' \<noteq> k \<Longrightarrow> (k', v) \<in> set (aupd k f d ps) \<longleftrightarrow> (k', v) \<in> set ps"
  by (induction ps) auto

lemma set_aupd_sub [alist_simps]:
  "set (aupd k f d ps) \<subseteq> insert (k, f (case map_of ps k of None \<Rightarrow> d | Some v \<Rightarrow> v)) (set ps)"
  by (induction ps) auto

lemma in_set_aupd [alist_simps]:
  "(k, f (case map_of ps k of None \<Rightarrow> d | Some v \<Rightarrow> v)) \<in> set (aupd k f d ps)"
  by (induction ps) auto

text \<open>Sums over a list bound the values at two of its distinct elements.\<close>

lemma sum_list_two_elems:
  "x \<in> set xs \<Longrightarrow> y \<in> set xs \<Longrightarrow> x \<noteq> y \<Longrightarrow> f x + f y \<le> (\<Sum>z\<leftarrow>xs. f z)"
  for f :: "'a \<Rightarrow> nat"
proof (induction xs)
  case (Cons z xs)
  have one: "u \<in> set xs \<Longrightarrow> f u \<le> (\<Sum>z\<leftarrow>xs. f z)" for u
    using member_le_sum_list [of "f u" "map f xs"] by simp
  show ?case
    using Cons one [of x] one [of y] by auto
qed simp

lemma count_list_concat: "count_list (concat xss) x = (\<Sum>xs\<leftarrow>xss. count_list xs x)"
  by (induction xss) simp_all

section \<open>Sums computed by \<open>reduce\<close>\<close>

text \<open>\<open>xs.reduce((s, x) => s + f(x), a)\<close> is a left fold; over exact numbers it is a sum.\<close>

lemma foldl_add_sum_list:
  "foldl (\<lambda>s x. s + f x) a xs = a + sum_list (map f xs)"
  for a :: "'a::comm_monoid_add"
  by (induction xs arbitrary: a) (simp_all add: add.assoc)

end
