(* ===== verification/Store.thy ===== *)
theory Store
  imports Prelude
begin

text \<open>
  The realtime store and the client's view of it. The application keeps its data in a
  Firebase Realtime Database under \<open>rms/\<close>: the collections \<open>users\<close>, \<open>items\<close>,
  \<open>orders\<close> and \<open>loanCustomers\<close>, each a JSON object from a key to a record whose
  fields may be missing. The store itself is a collaborator (not in the repository);
  it is modelled from the specification: a record of four association lists
  (\<open>db\<close>) and the write primitives the code calls (\<open>store_write\<close>, \<open>apply_write\<close>).
  The client side is code of \<open>src/unnamed/part_000\<close>: the record types of the
  client (\<open>user\<close>, \<open>item\<close>, \<open>order\<close>, \<open>loan_customer\<close>) and the
  \<open>onValue\<close> handlers that turn a snapshot into them (\<open>read_order\<close> and its
  siblings, \<open>read_db\<close>). A field that can be absent in the store is an \<open>option\<close>,
  and every \<open>??\<close> of a handler is a \<open>coalesce\<close>.
\<close>

section \<open>Errors\<close>

text \<open>
  A handler that rejects its input shows an error banner and writes nothing: the
  banner's message is the value of the error.
\<close>

datatype error = ValidationError string

section \<open>Stored records\<close>

record loan_entry =
  le_id :: string
  le_orderId :: string
  le_amount :: money
  le_date :: "string option"
  le_servedBy :: "string option"

record stored_user =
  su_id :: "string option"
  su_name :: "string option"
  su_role :: "string option"
  su_phone :: "string option"
  su_pin :: "string option"

record stored_item =
  si_name :: "string option"
  si_price :: "money option"
  si_stock :: "int option"

text \<open>
  An order as \<open>handleCreateOrder\<close> writes it: the items are an object from item id
  to \<open>{qty}\<close>; the waiter is stored under \<open>waiter_id\<close>, older data under
  \<open>waiterId\<close>.
\<close>

record stored_order =
  so_id :: "string option"
  so_waiterId :: "string option"
  so_waiter_id :: "string option"
  so_time :: "string option"
  so_status :: "string option"
  so_collector :: "string option"
  so_items :: "(key \<times> int option) list"

record stored_customer =
  sc_id :: "string option"
  sc_name :: "string option"
  sc_phone :: "string option"
  sc_registeredBy :: "string option"
  sc_loans :: "(key \<times> loan_entry) list"

record db =
  db_users :: "(key \<times> stored_user) list"
  db_items :: "(key \<times> stored_item) list"
  db_orders :: "(key \<times> stored_order) list"
  db_customers :: "(key \<times> stored_customer) list"

text \<open>A node that a multi-field \<open>update\<close> creates where nothing was stored.\<close>

definition no_order :: stored_order where
  "no_order = \<lparr>so_id = None, so_waiterId = None, so_waiter_id = None, so_time = None,
     so_status = None, so_collector = None, so_items = []\<rparr>"

definition no_item :: stored_item where
  "no_item = \<lparr>si_name = None, si_price = None, si_stock = None\<rparr>"

definition no_customer :: stored_customer where
  "no_customer = \<lparr>sc_id = None, sc_name = None, sc_phone = None, sc_registeredBy = None,
     sc_loans = []\<rparr>"

section \<open>The client's records\<close>

record user =
  u_id :: string
  u_dbId :: "string option"
  u_name :: "string option"
  u_role :: string
  u_phone :: "string option"
  u_pin :: "string option"

record item =
  i_id :: string
  i_name :: "string option"
  i_price :: money
  i_stock :: int

record order_item =
  oi_itemId :: string
  oi_qty :: int

record order =
  o_id :: string
  o_waiterId :: "string option"
  o_time :: "string option"
  o_items :: "order_item list"
  o_status :: string
  o_collector :: string

record loan_customer =
  lc_id :: string
  lc_dbId :: "string option"
  lc_name :: "string option"
  lc_phone :: "string option"
  lc_loans :: "(key \<times> loan_entry) list"

section \<open>The snapshot handlers\<close>

definition read_user :: "key \<times> stored_user \<Rightarrow> user" where
  "read_user p = (case p of (k, u) \<Rightarrow>
     \<lparr>u_id = coalesce (su_id u) k, u_dbId = Some k, u_name = su_name u,
      u_role = coalesce (su_role u) ''waiter'', u_phone = su_phone u, u_pin = su_pin u\<rparr>)"

definition read_item :: "key \<times> stored_item \<Rightarrow> item" where
  "read_item p = (case p of (k, i) \<Rightarrow>
     \<lparr>i_id = k, i_name = si_name i, i_price = coalesce (si_price i) 0,
      i_stock = coalesce (si_stock i) 0\<rparr>)"

definition read_order :: "key \<times> stored_order \<Rightarrow> order" where
  "read_order p = (case p of (k, so) \<Rightarrow>
     \<lparr>o_id = coalesce (so_id so) k,
      o_waiterId = (case so_waiterId so of None \<Rightarrow> so_waiter_id so | Some w \<Rightarrow> Some w),
      o_time = so_time so,
      o_items = map (\<lambda>(i, q). \<lparr>oi_itemId = i, oi_qty = coalesce q 0\<rparr>) (so_items so),
      o_status = coalesce (so_status so) ''pending'',
      o_collector = coalesce (so_collector so) ''''\<rparr>)"

definition read_customer :: "key \<times> stored_customer \<Rightarrow> loan_customer" where
  "read_customer p = (case p of (k, c) \<Rightarrow>
     \<lparr>lc_id = coalesce (sc_id c) k, lc_dbId = Some k, lc_name = sc_name c,
      lc_phone = sc_phone c, lc_loans = sc_loans c\<rparr>)"

text \<open>
  What a client holds after the four handlers have run on the current snapshot. The
  orders handler also sorts its list by time; that order is not modelled, and every
  property below that reads the order list is stated so that it does not depend on it
  (the report is invariant under permutation, see \<open>Reports\<close>).
\<close>

record view =
  v_users :: "user list"
  v_items :: "item list"
  v_orders :: "order list"
  v_customers :: "loan_customer list"

definition read_db :: "db \<Rightarrow> view" where
  "read_db s = \<lparr>v_users = map read_user (db_users s), v_items = map read_item (db_items s),
     v_orders = map read_order (db_orders s), v_customers = map read_customer (db_customers s)\<rparr>"

section \<open>Writes\<close>

text \<open>
  The writes the handlers issue, one constructor per call site kind:
  \<open>set(ref, order)\<close> after \<open>push\<close>, \<open>update(orders/id, {status, collector})\<close>,
  \<open>set\<close>/\<open>update\<close> of a whole loan entry under \<open>loanCustomers/c/loans/e\<close>,
  \<open>update(items/id, {name, price, stock})\<close> and \<open>set\<close> of a loan customer.
\<close>

datatype store_write =
    SetOrder key stored_order
  | UpdateOrder key string string
  | SetLoan key key loan_entry
  | UpdateItem key string money int
  | SetCustomer key stored_customer

text \<open>
  The store's semantics of each write: \<open>set\<close> replaces the node, \<open>update\<close> merges
  the given fields and creates the node when the path is empty. A value holding
  \<open>undefined\<close> is refused by the client library (it throws) and changes nothing.
\<close>

fun apply_write :: "db \<Rightarrow> store_write \<Rightarrow> db" where
  "apply_write s (SetOrder k so) = s\<lparr>db_orders := aset k so (db_orders s)\<rparr>"
| "apply_write s (UpdateOrder k st c) =
     s\<lparr>db_orders := aupd k (\<lambda>so. so\<lparr>so_status := Some st, so_collector := Some c\<rparr>) no_order
                     (db_orders s)\<rparr>"
| "apply_write s (SetLoan c e le) =
     (if le_date le = None \<or> le_servedBy le = None then s
      else s\<lparr>db_customers := aupd c (\<lambda>sc. sc\<lparr>sc_loans := aset e le (sc_loans sc)\<rparr>) no_customer
                               (db_customers s)\<rparr>)"
| "apply_write s (UpdateItem k n p st) =
     s\<lparr>db_items := aupd k (\<lambda>i. i\<lparr>si_name := Some n, si_price := Some p, si_stock := Some st\<rparr>)
                    no_item (db_items s)\<rparr>"
| "apply_write s (SetCustomer k c) = s\<lparr>db_customers := aset k c (db_customers s)\<rparr>"

definition apply_writes :: "db \<Rightarrow> store_write list \<Rightarrow> db" where
  "apply_writes s ws = foldl apply_write s ws"

lemma apply_writes_simps [simp]:
  "apply_writes s [] = s"
  "apply_writes s (w # ws) = apply_writes (apply_write s w) ws"
  "apply_writes s (ws @ ws') = apply_writes (apply_writes s ws) ws'"
  by (simp_all add: apply_writes_def)

section \<open>Frame lemmas\<close>

text \<open>Each write touches one collection only.\<close>

lemma apply_write_users [simp]: "db_users (apply_write s w) = db_users s"
  by (cases w) simp_all

lemma apply_write_orders_frame:
  "(\<And>k so. w \<noteq> SetOrder k so) \<Longrightarrow> (\<And>k st c. w \<noteq> UpdateOrder k st c) \<Longrightarrow>
   db_orders (apply_write s w) = db_orders s"
  by (cases w) auto

lemma apply_write_customers_frame:
  "(\<And>c e le. w \<noteq> SetLoan c e le) \<Longrightarrow> (\<And>k c. w \<noteq> SetCustomer k c) \<Longrightarrow>
   db_customers (apply_write s w) = db_customers s"
  by (cases w) auto

lemma apply_write_items_frame:
  "(\<And>k n p st. w \<noteq> UpdateItem k n p st) \<Longrightarrow> db_items (apply_write s w) = db_items s"
  by (cases w) auto

lemma read_db_simps [simp]:
  "v_users (read_db s) = map read_user (db_users s)"
  "v_items (read_db s) = map read_item (db_items s)"
  "v_orders (read_db s) = map read_order (db_orders s)"
  "v_customers (read_db s) = map read_customer (db_customers s)"
  by (simp_all add: read_db_def)

end
