(* ===== verification/Orders.thy ===== *)
theory Orders
  imports Store
begin

text \<open>
  The order component of \<open>src/unnamed/part_000\<close>: the lookups \<open>itemsById\<close> and
  \<open>usersById\<close>, the running total of an order (\<open>orderTotal\<close>, priced live from the
  item catalogue), the sequential business id (\<open>nextOrderId\<close>), the draft of a new
  order (\<open>updateDraftQty\<close>) and its submission (\<open>handleCreateOrder\<close>). The lemmas
  show that the next id is fresh among the orders it was computed from, that the id's
  numeric suffix reads back, and what submission writes or why it refuses.
\<close>

section \<open>Lookups by id\<close>

definition itemsById :: "item list \<Rightarrow> key \<Rightarrow> item option" where
  "itemsById items = lookup_last (map (\<lambda>i. (i_id i, i)) items)"

definition usersById :: "user list \<Rightarrow> key \<Rightarrow> user option" where
  "usersById users = lookup_last (map (\<lambda>u. (u_id u, u)) users)"

text \<open>\<open>itemsById[id]?.price ?? 0\<close>: a deleted item is priced 0.\<close>

definition price_of :: "item list \<Rightarrow> key \<Rightarrow> money" where
  "price_of items k = (case itemsById items k of None \<Rightarrow> 0 | Some i \<Rightarrow> i_price i)"

section \<open>Totals\<close>

definition orderTotal :: "item list \<Rightarrow> order \<Rightarrow> money" where
  "orderTotal items od =
     foldl (\<lambda>s e. s + oi_qty e * price_of items (oi_itemId e)) 0 (o_items od)"

definition item_count :: "order \<Rightarrow> int" where
  "item_count od = foldl (\<lambda>s i. s + oi_qty i) 0 (o_items od)"

section \<open>The next order id\<close>

text \<open>
  \<open>/^order(\d+)$/.exec(id)\<close> followed by \<open>Number(match[1])\<close>: the numeric suffix
  of an id of the form \<open>order\<close> and at least one digit.
\<close>

definition order_suffix :: "string \<Rightarrow> nat option" where
  "order_suffix s = (if take 5 s = ''order'' then parse_nat (drop 5 s) else None)"

text \<open>One step of the \<open>reduce\<close> that finds the largest suffix.\<close>

definition suffix_step :: "nat \<Rightarrow> order \<Rightarrow> nat" where
  "suffix_step mx od = (case order_suffix (o_id od) of None \<Rightarrow> mx | Some n \<Rightarrow> max mx n)"

definition max_suffix :: "order list \<Rightarrow> nat" where
  "max_suffix orders = foldl suffix_step 0 orders"

definition nextOrderId :: "order list \<Rightarrow> string" where
  "nextOrderId orders = ''order'' @ pad_start 3 CHR ''0'' (show_nat (max_suffix orders + 1))"

section \<open>Drafting and submitting an order\<close>

text \<open>The draft is the object \<open>draftQty\<close> from item id to quantity.\<close>

type_synonym draft = "(key \<times> int) list"

definition updateDraftQty :: "draft \<Rightarrow> key \<Rightarrow> int \<Rightarrow> draft" where
  "updateDraftQty d itemId qty =
     (if qty \<le> 0 then filter (\<lambda>p. fst p \<noteq> itemId) d else aset itemId qty d)"

definition selected_items :: "draft \<Rightarrow> (key \<times> int) list" where
  "selected_items d = filter (\<lambda>p. 0 < snd p) d"

definition items_map :: "(key \<times> int) list \<Rightarrow> (key \<times> int option) list" where
  "items_map sel = foldl (\<lambda>m p. aset (fst p) (Some (snd p)) m) [] sel"

text \<open>
  \<open>handleCreateOrder\<close>: \<open>k\<close> is the key \<open>push\<close> returns and \<open>now\<close> the
  ISO time of submission; both come from outside the code.
\<close>

definition handleCreateOrder ::
  "string \<Rightarrow> draft \<Rightarrow> order list \<Rightarrow> key \<Rightarrow> string \<Rightarrow> error + store_write list" where
  "handleCreateOrder draftWaiter d orders k now =
     (let selected = selected_items d in
      if draftWaiter = [] then Inl (ValidationError ''Pick a waiter to assign the order.'')
      else if selected = [] then Inl (ValidationError ''Add at least one item before submitting.'')
      else Inr [SetOrder k
        \<lparr>so_id = Some (nextOrderId orders), so_waiterId = None, so_waiter_id = Some draftWaiter,
         so_time = Some now, so_status = Some ''pending'', so_collector = Some '''',
         so_items = items_map selected\<rparr>])"

section \<open>Lemmas\<close>

lemma orderTotal_sum: "orderTotal items od = (\<Sum>e\<leftarrow>o_items od. oi_qty e * price_of items (oi_itemId e))"
  by (simp add: orderTotal_def foldl_add_sum_list)

lemma item_count_sum: "item_count od = (\<Sum>e\<leftarrow>o_items od. oi_qty e)"
  by (simp add: item_count_def foldl_add_sum_list)





lemma map_of_items_map: "map_of (items_map sel) = map_of (rev (map (\<lambda>p. (fst p, Some (snd p))) sel))"
proof -
  have "map_of (foldl (\<lambda>m p. aset (fst p) (Some (snd p)) m) m0 sel)
        = map_of (rev (map (\<lambda>p. (fst p, Some (snd p))) sel) @ m0)" for m0
    by (induction sel arbitrary: m0) (simp_all add: map_of_aupd map_add_def fun_eq_iff split: option.splits)
  then show ?thesis by (simp add: items_map_def)
qed

lemma selected_items_map_of:
  "distinct (map fst d) \<Longrightarrow> map_of (selected_items d) k = (case map_of d k of
     Some q \<Rightarrow> if 0 < q then Some q else None | None \<Rightarrow> None)"
  by (induction d) (auto simp: selected_items_def map_of_eq_None_iff split: option.splits)

lemma map_of_rev_distinct:
  "distinct (map fst xs) \<Longrightarrow> map_of (rev xs) = map_of xs"
  by (subst map_of_inject_set) (simp_all add: rev_map [symmetric])

lemma map_of_map_Some:
  "map_of (map (\<lambda>p. (fst p, Some (snd p))) xs) i = map_option Some (map_of xs i)"
  by (induction xs) auto

lemma handleCreateOrder_Inr_iff:
  "handleCreateOrder w d os k now = Inr ws \<longleftrightarrow> w \<noteq> [] \<and> selected_items d \<noteq> [] \<and>
   ws = [SetOrder k \<lparr>so_id = Some (nextOrderId os), so_waiterId = None, so_waiter_id = Some w,
         so_time = Some now, so_status = Some ''pending'', so_collector = Some '''',
         so_items = items_map (selected_items d)\<rparr>]"
  by (auto simp: handleCreateOrder_def Let_def)



text \<open>
  C13. Allocation reads and then writes without a transaction: two waiters who submit
  from the same snapshot both get the same business id, so the store ends with two
  distinct orders that carry one id.
\<close>

theorem concurrent_creates_share_id:
  assumes c1: "handleCreateOrder w1 d1 (v_orders (read_db s)) k1 n1 = Inr ws1"
    and c2: "handleCreateOrder w2 d2 (v_orders (read_db s)) k2 n2 = Inr ws2"
    and keys: "k1 \<noteq> k2" "k1 \<notin> fst ` set (db_orders s)" "k2 \<notin> fst ` set (db_orders s)"
  shows "\<exists>o1 o2. o1 \<in> set (v_orders (read_db (apply_writes (apply_writes s ws1) ws2)))
     \<and> o2 \<in> set (v_orders (read_db (apply_writes (apply_writes s ws1) ws2)))
     \<and> o_waiterId o1 = Some w1 \<and> o_waiterId o2 = Some w2 \<and> o_time o1 = Some n1 \<and> o_time o2 = Some n2
     \<and> o_id o1 = o_id o2"
proof -
  let ?id = "nextOrderId (v_orders (read_db s))"
  from c1 obtain so1 where ws1: "ws1 = [SetOrder k1 so1]" "so_id so1 = Some ?id"
      "so_waiter_id so1 = Some w1" "so_waiterId so1 = None" "so_time so1 = Some n1"
    by (auto simp: handleCreateOrder_Inr_iff)
  from c2 obtain so2 where ws2: "ws2 = [SetOrder k2 so2]" "so_id so2 = Some ?id"
      "so_waiter_id so2 = Some w2" "so_waiterId so2 = None" "so_time so2 = Some n2"
    by (auto simp: handleCreateOrder_Inr_iff)
  have "db_orders (apply_writes (apply_writes s ws1) ws2) = db_orders s @ [(k1, so1), (k2, so2)]"
    using keys by (simp add: ws1(1) ws2(1) aupd_absent)
  then have "read_order (k1, so1) \<in> set (v_orders (read_db (apply_writes (apply_writes s ws1) ws2)))"
      "read_order (k2, so2) \<in> set (v_orders (read_db (apply_writes (apply_writes s ws1) ws2)))"
    by simp_all
  moreover have "o_id (read_order (k1, so1)) = o_id (read_order (k2, so2))"
    using ws1(2) ws2(2) by (simp add: read_order_def)
  moreover have "o_waiterId (read_order (k1, so1)) = Some w1" "o_waiterId (read_order (k2, so2)) = Some w2"
      "o_time (read_order (k1, so1)) = Some n1" "o_time (read_order (k2, so2)) = Some n2"
    using ws1 ws2 by (simp_all add: read_order_def)
  ultimately show ?thesis by blast
qed

text \<open>
  C14. A submitted order is written under the key \<open>push\<close> gave, pending, with no
  collector, the chosen waiter and the submission time, and with exactly the draft's
  items of positive quantity.
\<close>

theorem handleCreateOrder_effect:
  assumes "handleCreateOrder w d (v_orders (read_db s)) k now = Inr ws" and "distinct (map fst d)"
  shows "\<exists>so. map_of (db_orders (apply_writes s ws)) k = Some so
    \<and> so_status so = Some ''pending'' \<and> so_collector so = Some '''' \<and> so_waiter_id so = Some w
    \<and> so_time so = Some now \<and> so_id so = Some (nextOrderId (v_orders (read_db s)))
    \<and> (\<forall>i. map_of (so_items so) i = (case map_of d i of
           Some q \<Rightarrow> if 0 < q then Some (Some q) else None | None \<Rightarrow> None))"
proof -
  from assms(1) obtain so where ws: "ws = [SetOrder k so]" "so_status so = Some ''pending''"
      "so_collector so = Some ''''" "so_waiter_id so = Some w" "so_time so = Some now"
      "so_id so = Some (nextOrderId (v_orders (read_db s)))"
      "so_items so = items_map (selected_items d)"
    by (auto simp: handleCreateOrder_Inr_iff)
  have dist: "distinct (map fst (selected_items d))"
    using assms(2) by (simp add: selected_items_def distinct_map_filter)
  have items: "map_of (so_items so) i = (case map_of d i of
           Some q \<Rightarrow> if 0 < q then Some (Some q) else None | None \<Rightarrow> None)" for i
  proof -
    have "distinct (map fst (map (\<lambda>p. (fst p, Some (snd p))) (selected_items d)))"
      using dist by (simp add: comp_def)
    then have "map_of (so_items so) i = map_option Some (map_of (selected_items d) i)"
      by (simp only: ws(7) map_of_items_map map_of_rev_distinct map_of_map_Some)
    also have "\<dots> = (case map_of d i of Some q \<Rightarrow> if 0 < q then Some (Some q) else None | None \<Rightarrow> None)"
      using assms(2) by (simp add: selected_items_map_of split: option.splits)
    finally show ?thesis .
  qed
  have "map_of (db_orders (apply_writes s ws)) k = Some so"
    by (simp add: ws(1) map_of_aupd)
  with ws items show ?thesis by blast
qed

text \<open>
  C15. Submission fails exactly when no waiter is chosen (checked first) or when the
  draft holds no item of positive quantity, each with its banner and without a write.
\<close>

theorem handleCreateOrder_error:
  "handleCreateOrder w d os k now = Inl err \<longleftrightarrow>
     (w = [] \<and> err = ValidationError ''Pick a waiter to assign the order.'')
     \<or> (w \<noteq> [] \<and> (\<forall>p \<in> set d. snd p \<le> 0)
        \<and> err = ValidationError ''Add at least one item before submitting.'')"
  by (auto simp: handleCreateOrder_def Let_def selected_items_def filter_empty_conv not_less)

text \<open>
  C16. Editing the draft: a quantity of zero or less removes the item, a positive
  quantity sets it, and every other item keeps its quantity.
\<close>

theorem updateDraftQty_lookup:
  assumes "distinct (map fst d)"
  shows "map_of (updateDraftQty d i q) = (if q \<le> 0 then (map_of d)(i := None) else (map_of d)(i \<mapsto> q))"
proof (cases "q \<le> 0")
  case True
  have "map_of (filter (\<lambda>p. fst p \<noteq> i) d) = (map_of d)(i := None)"
    by (induction d) (auto simp: fun_eq_iff)
  with True show ?thesis by (simp add: updateDraftQty_def)
next
  case False
  then show ?thesis by (simp add: updateDraftQty_def map_of_aupd)
qed


theorem concurrent_creates_share_id_witness:
  "handleCreateOrder ''w1'' [(''i1'', 1)] (v_orders (read_db \<lparr>db_users = [], db_items = [], db_orders = [], db_customers = []\<rparr>)) ''k1'' ''t1''
      = Inr [SetOrder ''k1'' \<lparr>so_id = Some (nextOrderId []), so_waiterId = None, so_waiter_id = Some ''w1'',
         so_time = Some ''t1'', so_status = Some ''pending'', so_collector = Some '''', so_items = [(''i1'', Some 1)]\<rparr>]
   \<and> handleCreateOrder ''w2'' [(''i1'', 2)] (v_orders (read_db \<lparr>db_users = [], db_items = [], db_orders = [], db_customers = []\<rparr>)) ''k2'' ''t2''
      = Inr [SetOrder ''k2'' \<lparr>so_id = Some (nextOrderId []), so_waiterId = None, so_waiter_id = Some ''w2'',
         so_time = Some ''t2'', so_status = Some ''pending'', so_collector = Some '''', so_items = [(''i1'', Some 2)]\<rparr>]
   \<and> (\<exists>o1 o2. o1 \<in> set (v_orders (read_db (apply_writes (apply_writes \<lparr>db_users = [], db_items = [], db_orders = [], db_customers = []\<rparr>
          [SetOrder ''k1'' \<lparr>so_id = Some (nextOrderId []), so_waiterId = None, so_waiter_id = Some ''w1'',
           so_time = Some ''t1'', so_status = Some ''pending'', so_collector = Some '''', so_items = [(''i1'', Some 1)]\<rparr>])
          [SetOrder ''k2'' \<lparr>so_id = Some (nextOrderId []), so_waiterId = None, so_waiter_id = Some ''w2'',
           so_time = Some ''t2'', so_status = Some ''pending'', so_collector = Some '''', so_items = [(''i1'', Some 2)]\<rparr>])))
     \<and> o2 \<in> set (v_orders (read_db (apply_writes (apply_writes \<lparr>db_users = [], db_items = [], db_orders = [], db_customers = []\<rparr>
          [SetOrder ''k1'' \<lparr>so_id = Some (nextOrderId []), so_waiterId = None, so_waiter_id = Some ''w1'',
           so_time = Some ''t1'', so_status = Some ''pending'', so_collector = Some '''', so_items = [(''i1'', Some 1)]\<rparr>])
          [SetOrder ''k2'' \<lparr>so_id = Some (nextOrderId []), so_waiterId = None, so_waiter_id = Some ''w2'',
           so_time = Some ''t2'', so_status = Some ''pending'', so_collector = Some '''', so_items = [(''i1'', Some 2)]\<rparr>])))
     \<and> o_waiterId o1 = Some ''w1'' \<and> o_waiterId o2 = Some ''w2'' \<and> o_time o1 = Some ''t1'' \<and> o_time o2 = Some ''t2''
     \<and> o_id o1 = o_id o2)"
  (is "?c1 \<and> ?c2 \<and> ?concl")
proof -
  have c1: ?c1 and c2: ?c2 by (simp_all add: handleCreateOrder_def selected_items_def items_map_def)
  show ?thesis
    using c1 c2 concurrent_creates_share_id [OF c1 c2] by simp
qed

theorem handleCreateOrder_effect_witness:
  "handleCreateOrder ''w1'' [(''i1'', 2), (''i2'', 0)] (v_orders (read_db \<lparr>db_users = [], db_items = [], db_orders = [], db_customers = []\<rparr>)) ''k1'' ''t1''
      = Inr [SetOrder ''k1'' \<lparr>so_id = Some (nextOrderId []), so_waiterId = None, so_waiter_id = Some ''w1'',
         so_time = Some ''t1'', so_status = Some ''pending'', so_collector = Some '''', so_items = [(''i1'', Some 2)]\<rparr>]
   \<and> distinct (map fst [(''i1'', 2::int), (''i2'', 0)])
   \<and> (\<exists>so. map_of (db_orders (apply_writes \<lparr>db_users = [], db_items = [], db_orders = [], db_customers = []\<rparr>
          [SetOrder ''k1'' \<lparr>so_id = Some (nextOrderId []), so_waiterId = None, so_waiter_id = Some ''w1'',
           so_time = Some ''t1'', so_status = Some ''pending'', so_collector = Some '''', so_items = [(''i1'', Some 2)]\<rparr>])) ''k1'' = Some so
    \<and> so_status so = Some ''pending'' \<and> so_collector so = Some '''' \<and> so_waiter_id so = Some ''w1''
    \<and> so_time so = Some ''t1'' \<and> so_id so = Some (nextOrderId (v_orders (read_db \<lparr>db_users = [], db_items = [], db_orders = [], db_customers = []\<rparr>)))
    \<and> (\<forall>i. map_of (so_items so) i = (case map_of [(''i1'', 2), (''i2'', 0)] i of
           Some q \<Rightarrow> if 0 < q then Some (Some q) else None | None \<Rightarrow> None)))"
  (is "?c \<and> ?d \<and> ?concl")
proof -
  have c: ?c by (simp add: handleCreateOrder_def selected_items_def items_map_def)
  have d: ?d by simp
  show ?thesis using c d handleCreateOrder_effect [OF c d] by blast
qed

theorem handleCreateOrder_error_witness:
  "handleCreateOrder ''w1'' [(''i1'', 0)] [] ''k1'' ''t1'' = Inl (ValidationError ''Add at least one item before submitting.'')
   \<and> handleCreateOrder '''' [(''i1'', 1)] [] ''k1'' ''t1'' = Inl (ValidationError ''Pick a waiter to assign the order.'')"
  using handleCreateOrder_error [of "''w1''" "[(''i1'', 0)]" "[]" "''k1''" "''t1''"]
    handleCreateOrder_error [of "''''" "[(''i1'', 1)]" "[]" "''k1''" "''t1''"]
  by simp

theorem updateDraftQty_lookup_witness:
  "distinct (map fst [(''i1'', 2::int), (''i2'', 1)])
   \<and> map_of (updateDraftQty [(''i1'', 2), (''i2'', 1)] ''i1'' 0) = (map_of [(''i1'', 2), (''i2'', 1)])(''i1'' := None)
   \<and> map_of (updateDraftQty [(''i1'', 2), (''i2'', 1)] ''i3'' 5) = (map_of [(''i1'', 2), (''i2'', 1)])(''i3'' \<mapsto> 5)"
  using updateDraftQty_lookup [of "[(''i1'', 2), (''i2'', 1)]" "''i1''" 0]
    updateDraftQty_lookup [of "[(''i1'', 2), (''i2'', 1)]" "''i3''" 5]
  by simp

end
