(* ===== verification/Settlement.thy ===== *)
theory Settlement
  imports Orders
begin

text \<open>
  The settlement of an order and the loan ledger, from \<open>src/unnamed/part_000\<close>:
  \<open>updateOrderStatus\<close> (one \<open>update\<close> of the order's \<open>status\<close> and
  \<open>collector\<close>), \<open>handleStatusChange\<close> (a loan opens the customer dialog, any
  other status is written at once), \<open>confirmLoanStatus\<close> (the dialog's confirm: the
  status write and the ledger write of \<open>addLoanEntryForOrder\<close>), the manual
  \<open>addLoanEntry\<close> of the loan book, \<open>addLoanCustomer\<close>, and the catalogue's
  \<open>updateItem\<close>. The ledger invariants are stated on the store: \<open>customer_unique\<close>
  (no customer holds two entries for one order, the guarantee the code's check gives)
  and \<open>ledger_unique\<close> (invariant I1 of the specification: no two entries of the
  whole ledger share an order).
\<close>

section \<open>Status writes\<close>

datatype status_arg = Paid | Loan | Pending

fun status_str :: "status_arg \<Rightarrow> string" where
  "status_str Paid = ''paid''"
| "status_str Loan = ''loan''"
| "status_str Pending = ''pending''"

text \<open>\<open>currentUser?.name ?? 'Unknown'\<close> for a settled order, the empty string otherwise.\<close>

definition updateOrderStatus :: "user option \<Rightarrow> string \<Rightarrow> status_arg \<Rightarrow> store_write" where
  "updateOrderStatus cur oid st =
     UpdateOrder oid (status_str st)
       (if st = Paid \<or> st = Loan then coalesce (Option.bind cur u_name) ''Unknown'' else '''')"

text \<open>The state of the loan-customer dialog.\<close>

record loan_ui =
  ui_open :: bool
  ui_orderId :: string
  ui_customerId :: string
  ui_search :: string

definition handleStatusChange ::
  "user option \<Rightarrow> loan_ui \<Rightarrow> order \<Rightarrow> status_arg \<Rightarrow> loan_ui \<times> store_write list" where
  "handleStatusChange cur ui od st =
     (if st = Loan
      then (ui\<lparr>ui_orderId := o_id od, ui_open := True, ui_customerId := '''', ui_search := ''''\<rparr>, [])
      else (ui, [updateOrderStatus cur (o_id od) st]))"

section \<open>Ledger writes\<close>

text \<open>\<open>usersById[order.waiterId]?.name ?? order.waiterId\<close>; an absent id is looked up as
  the property name \<open>"undefined"\<close>, as JavaScript does.\<close>

definition servedBy_of :: "user list \<Rightarrow> order \<Rightarrow> string option" where
  "servedBy_of users od =
     (case usersById users (coalesce (o_waiterId od) ''undefined'') of
        None \<Rightarrow> o_waiterId od
      | Some u \<Rightarrow> (case u_name u of None \<Rightarrow> o_waiterId od | Some n \<Rightarrow> Some n))"

definition has_loan_for :: "(key \<times> loan_entry) list \<Rightarrow> string \<Rightarrow> bool" where
  "has_loan_for loans oid \<longleftrightarrow> list_ex (\<lambda>p. le_orderId (snd p) = oid) loans"

definition new_entry :: "item list \<Rightarrow> user list \<Rightarrow> order \<Rightarrow> key \<Rightarrow> loan_entry" where
  "new_entry items users od e =
     \<lparr>le_id = e, le_orderId = o_id od, le_amount = orderTotal items od, le_date = o_time od,
      le_servedBy = servedBy_of users od\<rparr>"

text \<open>
  \<open>addLoanEntryForOrder\<close>: the duplicate check reads the chosen customer's loans in
  the client's snapshot only; \<open>e\<close> is the key \<open>push\<close> returns.
\<close>

definition addLoanEntryForOrder ::
  "item list \<Rightarrow> user list \<Rightarrow> order \<Rightarrow> loan_customer \<Rightarrow> key \<Rightarrow> store_write list" where
  "addLoanEntryForOrder items users od c e =
     (if has_loan_for (lc_loans c) (o_id od) then []
      else [SetLoan (coalesce (lc_dbId c) (lc_id c)) e (new_entry items users od e)])"

definition find_order :: "order list \<Rightarrow> string \<Rightarrow> order option" where
  "find_order os oid = find (\<lambda>od. o_id od = oid) os"

definition find_customer :: "loan_customer list \<Rightarrow> string \<Rightarrow> loan_customer option" where
  "find_customer cs cid = find (\<lambda>c. lc_id c = cid) cs"

definition closed_ui :: "loan_ui \<Rightarrow> loan_ui" where
  "closed_ui ui = ui\<lparr>ui_open := False, ui_orderId := '''', ui_customerId := '''', ui_search := ''''\<rparr>"

text \<open>
  \<open>confirmLoanStatus\<close>: both writes are issued one after the other, without a
  transaction; the dialog closes when the ledger write settles.
\<close>

definition confirmLoanStatus ::
  "user option \<Rightarrow> view \<Rightarrow> loan_ui \<Rightarrow> key \<Rightarrow> error + (store_write list \<times> loan_ui)" where
  "confirmLoanStatus cur v ui e =
     (if ui_orderId ui = [] \<or> ui_customerId ui = []
      then Inl (ValidationError ''Select a loan customer.'')
      else (case (find_order (v_orders v) (ui_orderId ui), find_customer (v_customers v) (ui_customerId ui)) of
              (Some od, Some c) \<Rightarrow>
                Inr (updateOrderStatus cur (o_id od) Loan
                       # addLoanEntryForOrder (v_items v) (v_users v) od c e, closed_ui ui)
            | _ \<Rightarrow> Inl (ValidationError ''Invalid selection.'')))"

text \<open>
  \<open>addLoanEntry\<close>, the loan book's manual entry: the entry key is
  \<open>loan-\<close> followed by \<open>Date.now()\<close>, and no duplicate check is made.
\<close>

definition addLoanEntry :: "view \<Rightarrow> string \<Rightarrow> string \<Rightarrow> nat \<Rightarrow> error + store_write list" where
  "addLoanEntry v cid oid now =
     (if cid = [] \<or> oid = [] then Inl (ValidationError ''Select customer and loan order.'')
      else (case (find_customer (v_customers v) cid, find_order (v_orders v) oid) of
              (Some c, Some od) \<Rightarrow>
                (let e = ''loan-'' @ show_nat now
                 in Inr [SetLoan (coalesce (lc_dbId c) (lc_id c)) e (new_entry (v_items v) (v_users v) od e)])
            | _ \<Rightarrow> Inl (ValidationError ''Invalid selection.'')))"

text \<open>\<open>addLoanCustomer\<close>: \<open>k\<close> is the key \<open>push\<close> returns.\<close>

definition addLoanCustomer :: "user option \<Rightarrow> string \<Rightarrow> string \<Rightarrow> key \<Rightarrow> error + store_write list" where
  "addLoanCustomer cur name phone k =
     (if js_trim name = [] \<or> js_trim phone = []
      then Inl (ValidationError ''Provide name and phone for loan customer.'')
      else Inr [SetCustomer k \<lparr>sc_id = Some k, sc_name = Some (js_trim name), sc_phone = Some (js_trim phone),
                 sc_registeredBy = Some (coalesce (map_option u_id cur) ''system''), sc_loans = []\<rparr>])"

text \<open>
  \<open>updateItem\<close> of the catalogue. The form's fields arrive as \<open>Number(field)\<close>:
  \<open>None\<close> is \<open>NaN\<close>. An absent selected item makes the handler return at once.
\<close>

definition updateItem ::
  "item option \<Rightarrow> string \<Rightarrow> money option \<Rightarrow> int option \<Rightarrow> error + store_write list" where
  "updateItem sel name price stock =
     (case sel of None \<Rightarrow> Inr []
      | Some it \<Rightarrow>
          (if js_trim name = [] then Inl (ValidationError ''Provide an item name.'')
           else (case price of
                   None \<Rightarrow> Inl (ValidationError ''Provide a valid price above 0.'')
                 | Some p \<Rightarrow>
                     if p \<le> 0 then Inl (ValidationError ''Provide a valid price above 0.'')
                     else (case stock of
                             None \<Rightarrow> Inl (ValidationError ''Provide a stock 0 or above.'')
                           | Some st \<Rightarrow>
                               if st < 0 then Inl (ValidationError ''Provide a stock 0 or above.'')
                               else Inr [UpdateItem (i_id it) (js_trim name) p st]))))"

section \<open>Ledger invariants\<close>

definition entry_orders :: "(key \<times> loan_entry) list \<Rightarrow> string list" where
  "entry_orders loans = map (\<lambda>p. le_orderId (snd p)) loans"

definition customer_unique :: "db \<Rightarrow> bool" where
  "customer_unique s \<longleftrightarrow> (\<forall>p \<in> set (db_customers s). distinct (entry_orders (sc_loans (snd p))))"

definition ledger_orderIds :: "db \<Rightarrow> string list" where
  "ledger_orderIds s = concat (map (\<lambda>p. entry_orders (sc_loans (snd p))) (db_customers s))"

definition ledger_unique :: "db \<Rightarrow> bool" where
  "ledger_unique s \<longleftrightarrow> distinct (ledger_orderIds s)"

text \<open>Keys of a JSON object are distinct, in every collection and in every ledger.\<close>

definition wf_db :: "db \<Rightarrow> bool" where
  "wf_db s \<longleftrightarrow> distinct (map fst (db_users s)) \<and> distinct (map fst (db_items s))
     \<and> distinct (map fst (db_orders s)) \<and> distinct (map fst (db_customers s))
     \<and> (\<forall>p \<in> set (db_customers s). distinct (map fst (sc_loans (snd p))))"


section \<open>A concrete store for the examples\<close>

text \<open>
  One waiter, one item at 5.00, one order \<open>order001\<close> stored under the push key
  \<open>-k1\<close> and already on loan to customer \<open>cX\<close>, and a second customer \<open>cY\<close>
  with no loans.
\<close>

definition ex_entry :: loan_entry where
  "ex_entry = \<lparr>le_id = ''-e0'', le_orderId = ''order001'', le_amount = 1000,
     le_date = Some ''2024-01-05T10:00:00.000Z'', le_servedBy = Some ''Ali''\<rparr>"

definition ex_db :: db where
  "ex_db = \<lparr>
     db_users = [(''-u1'', \<lparr>su_id = Some ''w1'', su_name = Some ''Ali'', su_role = Some ''waiter'',
                          su_phone = Some ''611'', su_pin = Some ''4321''\<rparr>)],
     db_items = [(''-i1'', \<lparr>si_name = Some ''Tea'', si_price = Some 500, si_stock = Some 3\<rparr>)],
     db_orders = [(''-k1'', \<lparr>so_id = Some ''order001'', so_waiterId = None, so_waiter_id = Some ''w1'',
                   so_time = Some ''2024-01-05T10:00:00.000Z'', so_status = Some ''loan'',
                   so_collector = Some ''Ali'', so_items = [(''-i1'', Some 2)]\<rparr>)],
     db_customers = [(''cX'', \<lparr>sc_id = Some ''cX'', sc_name = Some ''Xasan'', sc_phone = Some ''612'',
                       sc_registeredBy = Some ''admin'', sc_loans = [(''-e0'', ex_entry)]\<rparr>),
                     (''cY'', \<lparr>sc_id = Some ''cY'', sc_name = Some ''Yusuf'', sc_phone = Some ''613'',
                       sc_registeredBy = Some ''admin'', sc_loans = []\<rparr>)]\<rparr>"

definition ex_ui :: "string \<Rightarrow> loan_ui" where
  "ex_ui cid = \<lparr>ui_open = True, ui_orderId = ''order001'', ui_customerId = cid, ui_search = ''''\<rparr>"

section \<open>Lemmas on lookups and the ledger\<close>

lemma find_order_SomeD: "find_order os oid = Some od \<Longrightarrow> od \<in> set os \<and> o_id od = oid"
  unfolding find_order_def by (induction os) (auto split: if_splits)

lemma find_customer_SomeD: "find_customer cs cid = Some c \<Longrightarrow> c \<in> set cs \<and> lc_id c = cid"
  unfolding find_customer_def by (induction cs) (auto split: if_splits)

lemma read_customer_in:
  "c \<in> set (v_customers (read_db s)) \<Longrightarrow>
   \<exists>k sc. (k, sc) \<in> set (db_customers s) \<and> lc_dbId c = Some k \<and> lc_loans c = sc_loans sc"
  by (auto simp: read_customer_def)

lemma has_loan_for_iff: "has_loan_for loans oid \<longleftrightarrow> oid \<in> set (entry_orders loans)"
  by (auto simp: has_loan_for_def entry_orders_def list_ex_iff)

lemma entry_orders_aset: "set (entry_orders (aset e le ls)) \<subseteq> insert (le_orderId le) (set (entry_orders ls))"
  by (induction ls) (auto simp: entry_orders_def)

lemma distinct_entry_orders_aset:
  "distinct (entry_orders ls) \<Longrightarrow> le_orderId le \<notin> set (entry_orders ls) \<Longrightarrow>
   distinct (entry_orders (aset e le ls))"
proof (induction ls)
  case (Cons p ls)
  then show ?case
    using entry_orders_aset [of e le ls] by (auto simp: entry_orders_def)
qed (simp add: entry_orders_def)

lemma le_orderId_in_aset: "le_orderId le \<in> set (entry_orders (aset e le ls))"
  using in_set_aupd [where k = e and f = "\<lambda>_. le" and d = le and ps = ls]
  by (force simp: entry_orders_def)

lemma customer_unique_SetLoan:
  assumes "customer_unique s"
    and "\<And>sc. map_of (db_customers s) c = Some sc \<Longrightarrow> le_orderId le \<notin> set (entry_orders (sc_loans sc))"
  shows "customer_unique (apply_write s (SetLoan c e le))"
proof (cases "le_date le = None \<or> le_servedBy le = None")
  case True
  with assms(1) show ?thesis by simp
next
  case False
  let ?f = "\<lambda>sc. sc\<lparr>sc_loans := aset e le (sc_loans sc)\<rparr>"
  let ?new = "?f (case map_of (db_customers s) c of None \<Rightarrow> no_customer | Some v \<Rightarrow> v)"
  have new: "distinct (entry_orders (sc_loans ?new))"
  proof (cases "map_of (db_customers s) c")
    case None
    then show ?thesis by (simp add: no_customer_def entry_orders_def)
  next
    case (Some v)
    then have "(c, v) \<in> set (db_customers s)" by (rule map_of_SomeD)
    with assms(1) have "distinct (entry_orders (sc_loans v))" by (auto simp: customer_unique_def)
    with Some assms(2) show ?thesis by (simp add: distinct_entry_orders_aset)
  qed
  have "set (aupd c ?f no_customer (db_customers s)) \<subseteq> insert (c, ?new) (set (db_customers s))"
    by (rule set_aupd_sub)
  with new assms(1) False show ?thesis by (auto simp: customer_unique_def)
qed

lemma customer_unique_frame:
  "customer_unique s \<Longrightarrow> db_customers t = db_customers s \<Longrightarrow> customer_unique t"
  by (simp add: customer_unique_def)

lemma updateOrderStatus_customers [simp]:
  "db_customers (apply_write s (updateOrderStatus cur oid st)) = db_customers s"
  by (simp add: updateOrderStatus_def)

lemma confirmLoanStatus_Inr:
  assumes "confirmLoanStatus cur v ui e = Inr (ws, ui')"
  shows "\<exists>od c. find_order (v_orders v) (ui_orderId ui) = Some od
    \<and> find_customer (v_customers v) (ui_customerId ui) = Some c
    \<and> ws = updateOrderStatus cur (o_id od) Loan # addLoanEntryForOrder (v_items v) (v_users v) od c e
    \<and> ui' = closed_ui ui"
  using assms by (auto simp: confirmLoanStatus_def split: if_splits option.splits)

text \<open>
  C2. Confirming a loan from a snapshot of the current store keeps every customer's
  ledger free of duplicate orders: the check of \<open>addLoanEntryForOrder\<close> is enough
  when each confirmation reads the state the previous ones left.
\<close>

theorem confirm_preserves_customer_unique:
  assumes uniq: "customer_unique s" and keys: "distinct (map fst (db_customers s))"
    and conf: "confirmLoanStatus cur (read_db s) ui e = Inr (ws, ui')"
  shows "customer_unique (apply_writes s ws)"
proof -
  from confirmLoanStatus_Inr [OF conf] obtain od c
    where c: "find_customer (v_customers (read_db s)) (ui_customerId ui) = Some c"
      and ws: "ws = updateOrderStatus cur (o_id od) Loan
                 # addLoanEntryForOrder (v_items (read_db s)) (v_users (read_db s)) od c e"
    by blast
  from find_customer_SomeD [OF c] have "c \<in> set (v_customers (read_db s))" by simp
  then obtain k sc where ksc: "(k, sc) \<in> set (db_customers s)" "lc_dbId c = Some k"
      "lc_loans c = sc_loans sc"
    by (blast dest: read_customer_in)
  let ?s1 = "apply_write s (updateOrderStatus cur (o_id od) Loan)"
  have s1: "customer_unique ?s1" "db_customers ?s1 = db_customers s"
    using uniq by (simp_all add: customer_unique_frame)
  show ?thesis
  proof (cases "has_loan_for (lc_loans c) (o_id od)")
    case True
    with ws s1 show ?thesis by (simp add: addLoanEntryForOrder_def)
  next
    case False
    from keys ksc(1) have "map_of (db_customers s) k = Some sc" by simp
    with False ksc(3)
    have "\<And>sc'. map_of (db_customers ?s1) k = Some sc' \<Longrightarrow>
            le_orderId (new_entry (v_items (read_db s)) (v_users (read_db s)) od e)
              \<notin> set (entry_orders (sc_loans sc'))"
      by (simp add: s1(2) new_entry_def has_loan_for_iff)
    with s1(1) have "customer_unique (apply_write ?s1
        (SetLoan k e (new_entry (v_items (read_db s)) (v_users (read_db s)) od e)))"
      by (rule customer_unique_SetLoan)
    with ws False ksc(2) show ?thesis by (simp add: addLoanEntryForOrder_def)
  qed
qed

lemma distinct_count_list_le1: "distinct xs \<Longrightarrow> count_list xs x \<le> 1"
  by (induction xs) (auto simp: count_list_0_iff)

lemma count_ledger_two:
  assumes "(k1, c1) \<in> set cs" "(k2, c2) \<in> set cs" "k1 \<noteq> k2"
    and "oid \<in> set (entry_orders (sc_loans c1))" "oid \<in> set (entry_orders (sc_loans c2))"
  shows "2 \<le> count_list (concat (map (\<lambda>p. entry_orders (sc_loans (snd p))) cs)) oid"
proof -
  let ?f = "\<lambda>p. count_list (entry_orders (sc_loans (snd p))) oid"
  have "?f (k1, c1) + ?f (k2, c2) \<le> (\<Sum>p\<leftarrow>cs. ?f p)"
    using assms(1-3) by (intro sum_list_two_elems) auto
  moreover have "1 \<le> ?f (k1, c1)" "1 \<le> ?f (k2, c2)"
    using assms(4,5) by (auto simp: Suc_le_eq count_list_0_iff intro!: gr0I)
  ultimately show ?thesis by (simp add: count_list_concat comp_def)
qed

lemma not_distinct_entry_orders:
  "p \<in> set ls \<Longrightarrow> q \<in> set ls \<Longrightarrow> p \<noteq> q \<Longrightarrow> le_orderId (snd p) = le_orderId (snd q) \<Longrightarrow>
   \<not> distinct (entry_orders ls)"
  by (auto simp: entry_orders_def distinct_map inj_on_def)

lemma customer_in_view:
  assumes "find_customer (v_customers (read_db s)) cid = Some c"
  obtains k sc where "(k, sc) \<in> set (db_customers s)" "lc_dbId c = Some k" "lc_loans c = sc_loans sc"
proof -
  from find_customer_SomeD [OF assms] have "c \<in> set (v_customers (read_db s))" by simp
  then show ?thesis using that by (blast dest: read_customer_in)
qed

lemma confirm_writes_new:
  assumes "find_order (v_orders v) (ui_orderId ui) = Some od"
    and "find_customer (v_customers v) (ui_customerId ui) = Some c"
    and "\<not> has_loan_for (lc_loans c) (o_id od)"
    and "ui_orderId ui \<noteq> []" "ui_customerId ui \<noteq> []"
  shows "confirmLoanStatus cur v ui e =
    Inr ([updateOrderStatus cur (o_id od) Loan,
          SetLoan (coalesce (lc_dbId c) (lc_id c)) e (new_entry (v_items v) (v_users v) od e)], closed_ui ui)"
  using assms by (simp add: confirmLoanStatus_def addLoanEntryForOrder_def)

lemma SetLoan_accepted:
  "le_date le \<noteq> None \<Longrightarrow> le_servedBy le \<noteq> None \<Longrightarrow>
   db_customers (apply_write s (SetLoan k e le)) =
     aupd k (\<lambda>sc. sc\<lparr>sc_loans := aset e le (sc_loans sc)\<rparr>) no_customer (db_customers s)"
  by auto

text \<open>
  C1. The duplicate check of \<open>addLoanEntryForOrder\<close> reads only the chosen
  customer's loans: confirming a loan for an order that another customer already holds
  on loan succeeds, raises no \<open>DuplicateOrderLoan\<close>, and leaves two ledger entries
  for the order, so invariant I1 of the specification does not hold.
\<close>

theorem confirm_duplicates_across_customers:
  assumes keys: "distinct (map fst (db_customers s))"
    and x: "(kx, scx) \<in> set (db_customers s)" "has_loan_for (sc_loans scx) (o_id od)"
    and od: "find_order (v_orders (read_db s)) (ui_orderId ui) = Some od"
    and cy: "find_customer (v_customers (read_db s)) (ui_customerId ui) = Some cy"
    and y: "lc_dbId cy \<noteq> Some kx" "\<not> has_loan_for (lc_loans cy) (o_id od)"
    and acc: "o_time od \<noteq> None" "servedBy_of (v_users (read_db s)) od \<noteq> None"
    and sel: "ui_orderId ui \<noteq> []" "ui_customerId ui \<noteq> []"
  shows "\<exists>ws ui'. confirmLoanStatus cur (read_db s) ui e = Inr (ws, ui')
           \<and> \<not> ledger_unique (apply_writes s ws)"
proof -
  obtain ky scy where ky: "(ky, scy) \<in> set (db_customers s)" "lc_dbId cy = Some ky"
      "lc_loans cy = sc_loans scy"
    using cy by (rule customer_in_view)
  let ?le = "new_entry (v_items (read_db s)) (v_users (read_db s)) od e"
  let ?ws = "[updateOrderStatus cur (o_id od) Loan, SetLoan ky e ?le]"
  let ?f = "\<lambda>sc. sc\<lparr>sc_loans := aset e ?le (sc_loans sc)\<rparr>"
  have conf: "confirmLoanStatus cur (read_db s) ui e = Inr (?ws, closed_ui ui)"
    using confirm_writes_new [OF od cy y(2) sel] ky(2) by simp
  have acc': "le_date ?le \<noteq> None" "le_servedBy ?le \<noteq> None"
    using acc by (simp_all add: new_entry_def)
  have cs: "db_customers (apply_writes s ?ws) = aupd ky ?f no_customer (db_customers s)"
    using SetLoan_accepted [OF acc'] by simp
  have "kx \<noteq> ky" using y(1) ky(2) by auto
  then have "(kx, scx) \<in> set (aupd ky ?f no_customer (db_customers s))"
    using x(1) by (simp add: set_aupd_other)
  then have inx: "(kx, scx) \<in> set (db_customers (apply_writes s ?ws))"
    by (simp only: cs)
  from keys ky(1) have "map_of (db_customers s) ky = Some scy" by simp
  then have "(ky, ?f scy) \<in> set (aupd ky ?f no_customer (db_customers s))"
    using in_set_aupd [where k = ky and f = ?f and d = no_customer and ps = "db_customers s"]
    by simp
  then have iny: "(ky, ?f scy) \<in> set (db_customers (apply_writes s ?ws))"
    by (simp only: cs)
  have o2: "o_id od \<in> set (entry_orders (sc_loans (?f scy)))"
    using le_orderId_in_aset [of ?le e "sc_loans scy"] by (simp add: new_entry_def)
  have o1: "o_id od \<in> set (entry_orders (sc_loans scx))"
    using x(2) by (simp add: has_loan_for_iff)
  have "2 \<le> count_list (ledger_orderIds (apply_writes s ?ws)) (o_id od)"
    unfolding ledger_orderIds_def by (rule count_ledger_two [OF inx iny \<open>kx \<noteq> ky\<close> o1 o2])
  then have "\<not> ledger_unique (apply_writes s ?ws)"
    unfolding ledger_unique_def by (auto dest: distinct_count_list_le1 [where x = "o_id od"])
  with conf show ?thesis by blast
qed

text \<open>
  C3. Two collectors who confirm the same order to the same customer from the same
  snapshot both pass the check (check-then-act without a transaction): the
  customer's ledger ends with two entries for the order.
\<close>

theorem concurrent_confirms_duplicate:
  assumes keys: "distinct (map fst (db_customers s))"
    and c1: "confirmLoanStatus cur1 (read_db s) ui e1 = Inr (ws1, u1)"
    and c2: "confirmLoanStatus cur2 (read_db s) ui e2 = Inr (ws2, u2)"
    and od: "find_order (v_orders (read_db s)) (ui_orderId ui) = Some od"
    and c: "find_customer (v_customers (read_db s)) (ui_customerId ui) = Some c"
    and fresh: "\<not> has_loan_for (lc_loans c) (o_id od)"
    and acc: "o_time od \<noteq> None" "servedBy_of (v_users (read_db s)) od \<noteq> None"
    and e: "e1 \<noteq> e2"
  shows "\<not> customer_unique (apply_writes (apply_writes s ws1) ws2)"
proof -
  obtain k sc where ksc: "(k, sc) \<in> set (db_customers s)" "lc_dbId c = Some k"
      "lc_loans c = sc_loans sc"
    using c by (rule customer_in_view)
  have sel: "ui_orderId ui \<noteq> []" "ui_customerId ui \<noteq> []"
    using c1 by (auto simp: confirmLoanStatus_def split: if_splits)
  let ?le = "\<lambda>e. new_entry (v_items (read_db s)) (v_users (read_db s)) od e"
  let ?f = "\<lambda>e sc. sc\<lparr>sc_loans := aset e (?le e) (sc_loans sc)\<rparr>"
  have ws1: "ws1 = [updateOrderStatus cur1 (o_id od) Loan, SetLoan k e1 (?le e1)]"
    using c1 confirm_writes_new [OF od c fresh sel, of cur1 e1] ksc(2) by simp
  have ws2: "ws2 = [updateOrderStatus cur2 (o_id od) Loan, SetLoan k e2 (?le e2)]"
    using c2 confirm_writes_new [OF od c fresh sel, of cur2 e2] ksc(2) by simp
  have acc': "\<And>e. le_date (?le e) \<noteq> None" "\<And>e. le_servedBy (?le e) \<noteq> None"
    using acc by (simp_all add: new_entry_def)
  let ?cs1 = "aupd k (?f e1) no_customer (db_customers s)"
  have cs1: "db_customers (apply_writes s ws1) = ?cs1"
    using SetLoan_accepted [OF acc'] by (simp add: ws1)
  have cs2: "db_customers (apply_writes (apply_writes s ws1) ws2) = aupd k (?f e2) no_customer ?cs1"
    using SetLoan_accepted [OF acc'] by (simp add: ws2 cs1)
  from keys ksc(1) have "map_of (db_customers s) k = Some sc" by simp
  then have "map_of ?cs1 k = Some (?f e1 sc)" by (simp add: map_of_aupd)
  then have "(k, ?f e2 (?f e1 sc)) \<in> set (aupd k (?f e2) no_customer ?cs1)"
    using in_set_aupd [where k = k and f = "?f e2" and d = no_customer and ps = ?cs1]
    by simp
  then have inc: "(k, ?f e2 (?f e1 sc)) \<in> set (db_customers (apply_writes (apply_writes s ws1) ws2))"
    by (simp only: cs2)
  let ?ls = "aset e2 (?le e2) (aset e1 (?le e1) (sc_loans sc))"
  have p1: "(e1, ?le e1) \<in> set ?ls"
    using in_set_aupd [where k = e1 and f = "\<lambda>_. ?le e1" and d = "?le e1" and ps = "sc_loans sc"] e
    by (simp add: set_aupd_other)
  have p2: "(e2, ?le e2) \<in> set ?ls"
    using in_set_aupd [where k = e2 and f = "\<lambda>_. ?le e2" and d = "?le e2"
        and ps = "aset e1 (?le e1) (sc_loans sc)"] by simp
  have "\<not> distinct (entry_orders ?ls)"
    using p1 p2 e by (intro not_distinct_entry_orders [of "(e1, ?le e1)" _ "(e2, ?le e2)"])
      (auto simp: new_entry_def)
  with inc show ?thesis by (force simp: customer_unique_def)
qed


theorem confirm_duplicates_across_customers_witness:
  "\<exists>ws ui'. confirmLoanStatus None (read_db ex_db) (ex_ui ''cY'') ''-e1'' = Inr (ws, ui')
     \<and> \<not> ledger_unique (apply_writes ex_db ws)"
  by (rule confirm_duplicates_across_customers [where kx = "''cX''" and scx = "snd (hd (db_customers ex_db))"
      and od = "read_order (hd (db_orders ex_db))" and cy = "read_customer (db_customers ex_db ! 1)"])
    (simp_all add: ex_db_def ex_ui_def ex_entry_def find_order_def find_customer_def read_order_def
      read_customer_def read_user_def has_loan_for_def servedBy_of_def usersById_def lookup_last_def)

lemma handleCreateOrder_Inr:
  "handleCreateOrder w d os k now = Inr ws \<Longrightarrow>
   ws = [SetOrder k \<lparr>so_id = Some (nextOrderId os), so_waiterId = None, so_waiter_id = Some w,
         so_time = Some now, so_status = Some ''pending'', so_collector = Some '''',
         so_items = items_map (selected_items d)\<rparr>]"
  by (auto simp: handleCreateOrder_def Let_def split: if_splits)

lemma map_of_UpdateOrder_other:
  "k \<noteq> oid \<Longrightarrow> map_of (db_orders (apply_write s (UpdateOrder oid st c))) k = map_of (db_orders s) k"
  by (simp add: map_of_aupd)

lemma handleStatusChange_writes:
  "handleStatusChange cur ui od st = (ui', ws) \<Longrightarrow>
   ws = [] \<or> ws = [updateOrderStatus cur (o_id od) st]"
  by (auto simp: handleStatusChange_def split: if_splits)

text \<open>
  C4. The status of an order is written to \<open>orders/<id>\<close> with the order's business
  id (\<open>order001\<close>, \<open>order002\<close>, ...), while \<open>handleCreateOrder\<close> stores the order
  under the key \<open>push\<close> generated. After an order is created, any status change made
  on it from the orders list leaves the stored order untouched, still pending: the
  update lands on another node.
\<close>

theorem status_change_misses_created_order:
  assumes create: "handleCreateOrder w d (v_orders (read_db s)) k now = Inr ws"
    and fresh: "k \<notin> fst ` set (db_orders s)"
    and differ: "k \<noteq> nextOrderId (v_orders (read_db s))"
  shows "\<exists>so. map_of (db_orders (apply_writes s ws)) k = Some so \<and> so_status so = Some ''pending''
    \<and> read_order (k, so) \<in> set (v_orders (read_db (apply_writes s ws)))
    \<and> (\<forall>cur ui st ui' ws'. handleStatusChange cur ui (read_order (k, so)) st = (ui', ws') \<longrightarrow>
          map_of (db_orders (apply_writes (apply_writes s ws) ws')) k = Some so)"
proof -
  let ?so = "\<lparr>so_id = Some (nextOrderId (v_orders (read_db s))), so_waiterId = None,
     so_waiter_id = Some w, so_time = Some now, so_status = Some ''pending'', so_collector = Some '''',
     so_items = items_map (selected_items d)\<rparr>"
  have ws: "ws = [SetOrder k ?so]" using create by (rule handleCreateOrder_Inr)
  have orders: "db_orders (apply_writes s ws) = db_orders s @ [(k, ?so)]"
    using fresh by (simp add: ws aupd_absent)
  have look: "map_of (db_orders (apply_writes s ws)) k = Some ?so"
    by (simp add: ws map_of_aupd)
  have inview: "read_order (k, ?so) \<in> set (v_orders (read_db (apply_writes s ws)))"
    by (simp add: orders)
  have "map_of (db_orders (apply_writes (apply_writes s ws) ws')) k = Some ?so"
    if "handleStatusChange cur ui (read_order (k, ?so)) st = (ui', ws')" for cur ui st ui' ws'
  proof -
    have oid: "o_id (read_order (k, ?so)) = nextOrderId (v_orders (read_db s))"
      by (simp add: read_order_def)
    from handleStatusChange_writes [OF that] show ?thesis
    proof
      assume "ws' = []"
      with look show ?thesis by simp
    next
      assume "ws' = [updateOrderStatus cur (o_id (read_order (k, ?so))) st]"
      with look differ oid show ?thesis
        by (simp add: updateOrderStatus_def map_of_UpdateOrder_other del: apply_write.simps)
    qed
  qed
  with look inview show ?thesis by auto
qed

text \<open>
  C5. A successful confirmation from the current snapshot, for a customer who holds no
  entry for the order, writes status \<open>loan\<close> to the order's path and adds under the
  customer's node a ledger entry for the order whose amount is the order's total at the
  snapshot's prices and whose date is the order's time.
\<close>

theorem confirm_loan_effect:
  assumes keys: "distinct (map fst (db_customers s))"
    and conf: "confirmLoanStatus cur (read_db s) ui e = Inr (ws, ui')"
    and od: "find_order (v_orders (read_db s)) (ui_orderId ui) = Some od"
    and c: "find_customer (v_customers (read_db s)) (ui_customerId ui) = Some c"
    and fresh: "\<not> has_loan_for (lc_loans c) (o_id od)"
    and acc: "o_time od \<noteq> None" "servedBy_of (v_users (read_db s)) od \<noteq> None"
  shows "map_option so_status (map_of (db_orders (apply_writes s ws)) (o_id od)) = Some (Some ''loan'')
    \<and> (\<exists>k sc. lc_dbId c = Some k \<and> map_of (db_customers (apply_writes s ws)) k = Some sc
         \<and> (\<exists>le. (e, le) \<in> set (sc_loans sc) \<and> le_orderId le = o_id od
              \<and> le_amount le = orderTotal (v_items (read_db s)) od \<and> le_date le = o_time od))
    \<and> ui' = closed_ui ui"
proof -
  obtain k sc where ksc: "(k, sc) \<in> set (db_customers s)" "lc_dbId c = Some k"
      "lc_loans c = sc_loans sc"
    using c by (rule customer_in_view)
  have sel: "ui_orderId ui \<noteq> []" "ui_customerId ui \<noteq> []"
    using conf by (auto simp: confirmLoanStatus_def split: if_splits)
  let ?le = "new_entry (v_items (read_db s)) (v_users (read_db s)) od e"
  let ?f = "\<lambda>sc. sc\<lparr>sc_loans := aset e ?le (sc_loans sc)\<rparr>"
  have eq: "ws = [updateOrderStatus cur (o_id od) Loan, SetLoan k e ?le] \<and> ui' = closed_ui ui"
    using conf confirm_writes_new [OF od c fresh sel, of cur e] ksc(2) by simp
  have acc': "le_date ?le \<noteq> None" "le_servedBy ?le \<noteq> None"
    using acc by (simp_all add: new_entry_def)
  let ?s1 = "apply_write s (updateOrderStatus cur (o_id od) Loan)"
  have st: "map_option so_status (map_of (db_orders ?s1) (o_id od)) = Some (Some ''loan'')"
    by (simp add: updateOrderStatus_def map_of_aupd)
  have orders: "db_orders (apply_writes s ws) = db_orders ?s1"
    using eq acc' by auto
  have cs: "db_customers (apply_writes s ws) = aupd k ?f no_customer (db_customers s)"
    using eq SetLoan_accepted [OF acc'] by simp
  from keys ksc(1) have "map_of (db_customers s) k = Some sc" by simp
  then have look: "map_of (db_customers (apply_writes s ws)) k = Some (?f sc)"
    by (simp add: cs map_of_aupd)
  have "(e, ?le) \<in> set (sc_loans (?f sc))"
    using in_set_aupd [where k = e and f = "\<lambda>_. ?le" and d = ?le and ps = "sc_loans sc"] by simp
  then have "\<exists>le. (e, le) \<in> set (sc_loans (?f sc)) \<and> le_orderId le = o_id od
              \<and> le_amount le = orderTotal (v_items (read_db s)) od \<and> le_date le = o_time od"
    by (auto simp: new_entry_def)
  with st orders look ksc(2) eq show ?thesis by auto
qed

text \<open>
  C6. \<open>confirmLoanStatus\<close> fails exactly in two ways, each with its banner and without
  any write: a missing order or customer selection, and a selection that names no order
  or no customer of the snapshot.
\<close>

theorem confirmLoanStatus_error:
  "confirmLoanStatus cur v ui e = Inl err \<longleftrightarrow>
     ((ui_orderId ui = [] \<or> ui_customerId ui = []) \<and> err = ValidationError ''Select a loan customer.'')
     \<or> (ui_orderId ui \<noteq> [] \<and> ui_customerId ui \<noteq> []
        \<and> (find_order (v_orders v) (ui_orderId ui) = None \<or> find_customer (v_customers v) (ui_customerId ui) = None)
        \<and> err = ValidationError ''Invalid selection.'')"
  by (auto simp: confirmLoanStatus_def split: option.splits)

lemmas ex_eval = ex_db_def ex_ui_def ex_entry_def find_order_def find_customer_def read_order_def
  read_customer_def read_user_def read_item_def has_loan_for_def servedBy_of_def usersById_def
  lookup_last_def

lemma ex_confirm_cY:
  "confirmLoanStatus cur (read_db ex_db) (ex_ui ''cY'') e =
    Inr ([updateOrderStatus cur ''order001'' Loan,
          SetLoan ''cY'' e (new_entry (v_items (read_db ex_db)) (v_users (read_db ex_db))
                                      (read_order (hd (db_orders ex_db))) e)], closed_ui (ex_ui ''cY''))"
  by (simp add: confirmLoanStatus_def addLoanEntryForOrder_def ex_eval)

lemma ex_db_facts:
  "customer_unique ex_db"
  "distinct (map fst (db_customers ex_db))"
  "find_order (v_orders (read_db ex_db)) (ui_orderId (ex_ui c)) = Some (read_order (hd (db_orders ex_db)))"
  "find_customer (v_customers (read_db ex_db)) (ui_customerId (ex_ui ''cY'')) =
     Some (read_customer (db_customers ex_db ! 1))"
  "\<not> has_loan_for (lc_loans (read_customer (db_customers ex_db ! 1))) (o_id (read_order (hd (db_orders ex_db))))"
  "o_time (read_order (hd (db_orders ex_db))) \<noteq> None"
  "servedBy_of (v_users (read_db ex_db)) (read_order (hd (db_orders ex_db))) \<noteq> None"
  by (simp_all add: ex_eval customer_unique_def entry_orders_def)

theorem confirm_preserves_customer_unique_witness:
  "\<exists>ws ui'. confirmLoanStatus None (read_db ex_db) (ex_ui ''cY'') ''-e1'' = Inr (ws, ui')
     \<and> customer_unique (apply_writes ex_db ws)"
  using confirm_preserves_customer_unique [OF ex_db_facts(1,2) ex_confirm_cY] ex_confirm_cY
  by blast

theorem concurrent_confirms_duplicate_witness:
  "\<exists>ws1 u1 ws2 u2. confirmLoanStatus None (read_db ex_db) (ex_ui ''cY'') ''-e1'' = Inr (ws1, u1)
     \<and> confirmLoanStatus None (read_db ex_db) (ex_ui ''cY'') ''-e2'' = Inr (ws2, u2)
     \<and> \<not> customer_unique (apply_writes (apply_writes ex_db ws1) ws2)"
proof -
  let ?ws = "\<lambda>e. [updateOrderStatus None ''order001'' Loan,
          SetLoan ''cY'' e (new_entry (v_items (read_db ex_db)) (v_users (read_db ex_db))
                                      (read_order (hd (db_orders ex_db))) e)]"
  have ne: "''-e1'' \<noteq> ''-e2''" by simp
  have "\<not> customer_unique (apply_writes (apply_writes ex_db (?ws ''-e1'')) (?ws ''-e2''))"
    by (rule concurrent_confirms_duplicate [OF ex_db_facts(2) ex_confirm_cY ex_confirm_cY
          ex_db_facts(3,4,5,6,7) ne])
  with ex_confirm_cY show ?thesis by blast
qed

theorem status_change_misses_created_order_witness:
  "\<exists>ws so. handleCreateOrder ''w1'' [(''-i1'', 1)] (v_orders (read_db ex_db)) ''-k2''
              ''2024-01-06T09:00:00.000Z'' = Inr ws
     \<and> map_of (db_orders (apply_writes ex_db ws)) ''-k2'' = Some so \<and> so_status so = Some ''pending''
     \<and> map_of (db_orders (apply_writes (apply_writes ex_db ws)
           (snd (handleStatusChange None (ex_ui ''cY'') (read_order (''-k2'', so)) Paid)))) ''-k2'' = Some so"
proof -
  have "\<exists>ws. handleCreateOrder ''w1'' [(''-i1'', 1)] (v_orders (read_db ex_db)) ''-k2''
              ''2024-01-06T09:00:00.000Z'' = Inr ws"
    by (simp add: handleCreateOrder_def selected_items_def Let_def)
  then obtain ws where ws: "handleCreateOrder ''w1'' [(''-i1'', 1)] (v_orders (read_db ex_db)) ''-k2''
              ''2024-01-06T09:00:00.000Z'' = Inr ws" ..
  have fresh: "''-k2'' \<notin> fst ` set (db_orders ex_db)" by (simp add: ex_db_def)
  have differ: "''-k2'' \<noteq> nextOrderId (v_orders (read_db ex_db))" by (simp add: nextOrderId_def)
  from status_change_misses_created_order [OF ws fresh differ] obtain so where
    so: "map_of (db_orders (apply_writes ex_db ws)) ''-k2'' = Some so" "so_status so = Some ''pending''"
      "\<forall>cur ui st ui' ws'. handleStatusChange cur ui (read_order (''-k2'', so)) st = (ui', ws') \<longrightarrow>
          map_of (db_orders (apply_writes (apply_writes ex_db ws) ws')) ''-k2'' = Some so"
    by blast
  from so(3) have "map_of (db_orders (apply_writes (apply_writes ex_db ws)
           (snd (handleStatusChange None (ex_ui ''cY'') (read_order (''-k2'', so)) Paid)))) ''-k2'' = Some so"
    by (metis prod.collapse)
  with ws so(1,2) show ?thesis by blast
qed

theorem confirm_loan_effect_witness:
  "\<exists>ws ui'. confirmLoanStatus None (read_db ex_db) (ex_ui ''cY'') ''-e1'' = Inr (ws, ui')
    \<and> map_option so_status (map_of (db_orders (apply_writes ex_db ws)) (o_id (read_order (hd (db_orders ex_db)))))
        = Some (Some ''loan'')
    \<and> (\<exists>k sc. lc_dbId (read_customer (db_customers ex_db ! 1)) = Some k
         \<and> map_of (db_customers (apply_writes ex_db ws)) k = Some sc
         \<and> (\<exists>le. (''-e1'', le) \<in> set (sc_loans sc) \<and> le_orderId le = o_id (read_order (hd (db_orders ex_db)))
              \<and> le_amount le = orderTotal (v_items (read_db ex_db)) (read_order (hd (db_orders ex_db)))
              \<and> le_date le = o_time (read_order (hd (db_orders ex_db)))))
    \<and> ui' = closed_ui (ex_ui ''cY'')"
  using confirm_loan_effect [OF ex_db_facts(2) ex_confirm_cY ex_db_facts(3,4,5,6,7)] ex_confirm_cY
  by blast

theorem confirmLoanStatus_error_witness:
  "confirmLoanStatus None (read_db ex_db) (ex_ui ''cZ'') ''-e1'' = Inl (ValidationError ''Invalid selection.'')"
  using confirmLoanStatus_error [of None "read_db ex_db" "ex_ui ''cZ''" "''-e1''"
      "ValidationError ''Invalid selection.''"]
  by (simp add: ex_eval)

end
