(* ===== verification/System.thy ===== *)
theory System
  imports Settlement
begin

text \<open>
  The whole client against the shared store. Every handler of the application that
  writes is one constructor of \<open>op\<close>, and \<open>handle\<close> runs it on a client's view of
  the store, giving the writes it issues or the error it shows. Any number of clients
  run at once: \<open>reachable\<close> holds of every store that a sequence of single writes can
  produce, each write issued by some handler on a view of some reachable store (the
  client's snapshot may be stale), in any order, and any write may be lost. The
  invariants proved here by rule induction therefore hold under every interleaving.
\<close>

section \<open>Operations\<close>

datatype op =
    CreateOrder string draft key string
  | ChangeStatus "user option" loan_ui order status_arg
  | ConfirmLoan "user option" loan_ui key
  | AddLoanEntry string string nat
  | AddLoanCustomer "user option" string string key
  | EditItem "item option" string "money option" "int option"

fun handle :: "view \<Rightarrow> op \<Rightarrow> error + store_write list" where
  "handle v (CreateOrder w d k now) = handleCreateOrder w d (v_orders v) k now"
| "handle v (ChangeStatus cur ui od st) = Inr (snd (handleStatusChange cur ui od st))"
| "handle v (ConfirmLoan cur ui e) = map_sum id fst (confirmLoanStatus cur v ui e)"
| "handle v (AddLoanEntry cid oid now) = addLoanEntry v cid oid now"
| "handle v (AddLoanCustomer cur name phone k) = addLoanCustomer cur name phone k"
| "handle v (EditItem sel name price stock) = updateItem sel name price stock"

text \<open>A status is changed from the rendered order list: the order is one of the view's.\<close>

fun op_ok :: "view \<Rightarrow> op \<Rightarrow> bool" where
  "op_ok v (ChangeStatus cur ui od st) = (od \<in> set (v_orders v))"
| "op_ok v _ = True"

inductive reachable :: "db \<Rightarrow> bool" where
  init: "db_orders s = [] \<Longrightarrow> db_customers s = [] \<Longrightarrow> wf_db s \<Longrightarrow> reachable s"
| step: "reachable s \<Longrightarrow> reachable t \<Longrightarrow> op_ok (read_db t) a \<Longrightarrow> handle (read_db t) a = Inr ws \<Longrightarrow>
         w \<in> set ws \<Longrightarrow> reachable (apply_write s w)"

section \<open>What the handlers write\<close>

text \<open>
  The writes any handler can issue: a new order is pending with no collector, a status
  write is one of the three statuses, a pending status clears the collector, and a new
  customer has no loans.
\<close>

fun write_ok :: "store_write \<Rightarrow> bool" where
  "write_ok (SetOrder k so) \<longleftrightarrow> so_status so = Some ''pending'' \<and> so_collector so = Some ''''"
| "write_ok (UpdateOrder k st c) \<longleftrightarrow> st \<in> {''pending'', ''paid'', ''loan''} \<and> (st = ''pending'' \<longrightarrow> c = '''')"
| "write_ok (SetCustomer k c) \<longleftrightarrow> sc_loans c = []"
| "write_ok _ \<longleftrightarrow> True"

definition orders_ok :: "db \<Rightarrow> bool" where
  "orders_ok s \<longleftrightarrow> (\<forall>p \<in> set (db_orders s).
     so_status (snd p) \<in> {Some ''pending'', Some ''paid'', Some ''loan''}
     \<and> (so_status (snd p) = Some ''pending'' \<longrightarrow> so_collector (snd p) = Some ''''))"

section \<open>Example runs\<close>

text \<open>A fresh deployment (staff and menu, no orders, no customers) and its first order.\<close>

definition ex_fresh :: db where
  "ex_fresh = ex_db\<lparr>db_orders := [], db_customers := []\<rparr>"

definition ex_so :: stored_order where
  "ex_so = \<lparr>so_id = Some (nextOrderId []), so_waiterId = None, so_waiter_id = Some ''w1'',
     so_time = Some ''2024-01-05T10:00:00.000Z'', so_status = Some ''pending'', so_collector = Some '''',
     so_items = items_map [(''-i1'', 2)]\<rparr>"

section \<open>Lemmas\<close>

lemma updateOrderStatus_ok: "write_ok (updateOrderStatus cur oid st)"
  by (cases st) (simp_all add: updateOrderStatus_def)

lemma handle_writes_ok:
  assumes "handle v a = Inr ws" "w \<in> set ws"
  shows "write_ok w"
proof (cases a)
  case (CreateOrder dw d k now)
  with assms show ?thesis by (auto simp: handleCreateOrder_def Let_def split: if_splits)
next
  case (ChangeStatus cur ui od st)
  with assms show ?thesis
    by (auto simp: handleStatusChange_def updateOrderStatus_ok split: if_splits)
next
  case (ConfirmLoan cur ui e)
  with assms show ?thesis
    by (auto simp: confirmLoanStatus_def addLoanEntryForOrder_def updateOrderStatus_ok
        split: if_splits option.splits)
next
  case (AddLoanEntry cid oid now)
  with assms show ?thesis by (auto simp: addLoanEntry_def Let_def split: if_splits option.splits)
next
  case (AddLoanCustomer cur name phone k)
  with assms show ?thesis by (auto simp: addLoanCustomer_def split: if_splits)
next
  case (EditItem sel name price stock)
  with assms show ?thesis by (auto simp: updateItem_def split: if_splits option.splits)
qed

lemma orders_ok_apply_write:
  assumes "orders_ok s" "write_ok w"
  shows "orders_ok (apply_write s w)"
proof (cases w)
  case (SetOrder k so)
  with assms show ?thesis
    using set_aupd_sub [of k "\<lambda>_. so" so "db_orders s"] by (fastforce simp: orders_ok_def)
next
  case (UpdateOrder k st c)
  let ?f = "\<lambda>so. so\<lparr>so_status := Some st, so_collector := Some c\<rparr>"
  from UpdateOrder assms show ?thesis
    using set_aupd_sub [of k ?f no_order "db_orders s"] by (fastforce simp: orders_ok_def)
qed (use assms in \<open>auto simp: orders_ok_def\<close>)

lemma wf_db_apply_write: "wf_db s \<Longrightarrow> write_ok w \<Longrightarrow> wf_db (apply_write s w)"
proof (cases w)
  case (SetLoan c e le)
  show "wf_db s \<Longrightarrow> write_ok w \<Longrightarrow> wf_db (apply_write s w)"
  proof -
    assume wf: "wf_db s"
    let ?f = "\<lambda>sc. sc\<lparr>sc_loans := aset e le (sc_loans sc)\<rparr>"
    have "distinct (map fst (sc_loans (?f (case map_of (db_customers s) c of None \<Rightarrow> no_customer
                                             | Some v \<Rightarrow> v))))"
      using wf by (auto simp: wf_db_def no_customer_def distinct_aupd split: option.splits
          dest: map_of_SomeD)
    with wf SetLoan show ?thesis
      using set_aupd_sub [of c ?f no_customer "db_customers s"]
      by (fastforce simp: wf_db_def distinct_aupd)
  qed
qed (auto simp: wf_db_def distinct_aupd dest: set_aupd_sub [THEN subsetD])

lemma reachable_orders_ok: "reachable s \<Longrightarrow> orders_ok s"
proof (induction rule: reachable.induct)
  case (init s)
  then show ?case by (simp add: orders_ok_def)
next
  case (step s t a ws w)
  then show ?case by (blast intro: orders_ok_apply_write handle_writes_ok)
qed

lemma reachable_wf_db: "reachable s \<Longrightarrow> wf_db s"
  by (induction rule: reachable.induct) (blast intro: wf_db_apply_write handle_writes_ok)+

text \<open>
  C7. Invariant I2 under every interleaving of every handler: each order a client reads
  has status \<open>pending\<close>, \<open>paid\<close> or \<open>loan\<close>, and a pending order has no
  collector.
\<close>

theorem reachable_status_valid:
  assumes "reachable s" "od \<in> set (v_orders (read_db s))"
  shows "o_status od \<in> {''pending'', ''paid'', ''loan''} \<and> (o_status od = ''pending'' \<longrightarrow> o_collector od = '''')"
proof -
  from assms(2) obtain k so where so: "(k, so) \<in> set (db_orders s)" "od = read_order (k, so)"
    by auto
  with reachable_orders_ok [OF assms(1)] show ?thesis
    by (auto simp: orders_ok_def read_order_def)
qed



text \<open>
  C9. The loan book's manual entry (\<open>addLoanEntry\<close>) makes no duplicate check at
  all: for an order the chosen customer already holds on loan it succeeds and the
  customer's ledger ends with two entries for the order.
\<close>

theorem addLoanEntry_duplicates:
  assumes keys: "distinct (map fst (db_customers s))"
    and c: "find_customer (v_customers (read_db s)) cid = Some c"
    and od: "find_order (v_orders (read_db s)) oid = Some od"
    and held: "has_loan_for (lc_loans c) (o_id od)"
    and sel: "cid \<noteq> []" "oid \<noteq> []"
    and key: "''loan-'' @ show_nat now \<notin> fst ` set (lc_loans c)"
    and acc: "o_time od \<noteq> None" "servedBy_of (v_users (read_db s)) od \<noteq> None"
  shows "\<exists>ws. addLoanEntry (read_db s) cid oid now = Inr ws \<and> \<not> customer_unique (apply_writes s ws)"
proof -
  obtain k sc where ksc: "(k, sc) \<in> set (db_customers s)" "lc_dbId c = Some k"
      "lc_loans c = sc_loans sc"
    using c by (rule customer_in_view)
  let ?e = "''loan-'' @ show_nat now"
  let ?le = "new_entry (v_items (read_db s)) (v_users (read_db s)) od ?e"
  let ?f = "\<lambda>sc. sc\<lparr>sc_loans := aset ?e ?le (sc_loans sc)\<rparr>"
  have ws: "addLoanEntry (read_db s) cid oid now = Inr [SetLoan k ?e ?le]"
    using c od sel ksc(2) by (simp add: addLoanEntry_def Let_def)
  have acc': "le_date ?le \<noteq> None" "le_servedBy ?le \<noteq> None"
    using acc by (simp_all add: new_entry_def)
  from keys ksc(1) have "map_of (db_customers s) k = Some sc" by simp
  then have inc: "(k, ?f sc) \<in> set (db_customers (apply_writes s [SetLoan k ?e ?le]))"
    using in_set_aupd [where k = k and f = ?f and d = no_customer and ps = "db_customers s"] acc'
    by auto
  from held ksc(3) obtain e0 le0 where old: "(e0, le0) \<in> set (sc_loans sc)" "le_orderId le0 = o_id od"
    by (auto simp: has_loan_for_def list_ex_iff)
  have "e0 \<noteq> ?e" using old(1) key ksc(3) by force
  then have "(e0, le0) \<in> set (sc_loans (?f sc))" using old(1) by (simp add: set_aupd_other)
  moreover have "(?e, ?le) \<in> set (sc_loans (?f sc))"
    using in_set_aupd [where k = ?e and f = "\<lambda>_. ?le" and d = ?le and ps = "sc_loans sc"] by simp
  ultimately have "\<not> distinct (entry_orders (sc_loans (?f sc)))"
    using \<open>e0 \<noteq> ?e\<close> old(2)
    by (intro not_distinct_entry_orders [of "(e0, le0)" _ "(?e, ?le)"]) (auto simp: new_entry_def)
  with inc ws show ?thesis by (force simp: customer_unique_def)
qed


theorem reachable_status_valid_witness:
  "o_status (read_order (''-k1'', ex_so)) \<in> {''pending'', ''paid'', ''loan''}
   \<and> o_collector (read_order (''-k1'', ex_so)) = ''''"
proof -
  have r0: "reachable ex_fresh"
    by (rule reachable.init) (simp_all add: ex_fresh_def ex_db_def wf_db_def)
  have h: "handle (read_db ex_fresh) (CreateOrder ''w1'' [(''-i1'', 2)] ''-k1'' ''2024-01-05T10:00:00.000Z'')
      = Inr [SetOrder ''-k1'' ex_so]"
    by (simp add: handleCreateOrder_def selected_items_def ex_so_def ex_fresh_def Let_def)
  have r1: "reachable (apply_write ex_fresh (SetOrder ''-k1'' ex_so))"
    by (rule reachable.step [OF r0 r0 _ h]) simp_all
  have "read_order (''-k1'', ex_so) \<in> set (v_orders (read_db (apply_write ex_fresh (SetOrder ''-k1'' ex_so))))"
    by (simp add: ex_fresh_def)
  from reachable_status_valid [OF r1 this] show ?thesis
    by (simp add: ex_so_def read_order_def)
qed


theorem addLoanEntry_duplicates_witness:
  "\<exists>ws. addLoanEntry (read_db ex_db) ''cX'' ''order001'' 1704450000000 = Inr ws
     \<and> \<not> customer_unique (apply_writes ex_db ws)"
  by (rule addLoanEntry_duplicates [where c = "read_customer (hd (db_customers ex_db))"
        and od = "read_order (hd (db_orders ex_db))"])
    (simp_all add: ex_eval)


end
