(* ===== verification/Staff.thy ===== *)
theory Staff
  imports System
begin

text \<open>
  Staff administration, the item catalogue's remaining handlers and the login of
  \<open>src/unnamed/part_000\<close>: \<open>ROLE_LABEL\<close>, \<open>normalizePhone\<close>, \<open>addWaiter\<close>,
  \<open>resetWaiterPin\<close>, \<open>updateWaiterProfile\<close>, \<open>deleteWaiter\<close>, \<open>addItem\<close>,
  \<open>updateItemStock\<close>, \<open>deleteItem\<close>, \<open>handleLogin\<close> and \<open>handleLogout\<close>. Their
  writes touch only the users and items collections; they are a datatype of their own
  with the store semantics of \<open>push\<close>, \<open>update\<close> and \<open>remove\<close>. The activity log
  each handler appends to (\<open>addLog\<close>) is write-only for the core and is not modelled.
\<close>

section \<open>Roles and phone numbers\<close>

text \<open>\<open>ROLE_LABEL[role]\<close>; a role outside the three is \<open>undefined\<close>.\<close>

definition role_label :: "string \<Rightarrow> string option" where
  "role_label r = (if r = ''admin'' then Some ''Admin'' else if r = ''waiter'' then Some ''Waiter''
     else if r = ''collector'' then Some ''Collector'' else None)"

definition starts_with :: "string \<Rightarrow> string \<Rightarrow> bool" where
  "starts_with s p \<longleftrightarrow> take (length p) s = p"

definition ends_with :: "string \<Rightarrow> string \<Rightarrow> bool" where
  "ends_with s p \<longleftrightarrow> length p \<le> length s \<and> drop (length s - length p) s = p"

text \<open>
  \<open>normalizePhone\<close>: keep the ASCII digits (\<open>replace(/\D/g, '')\<close>), then strip the
  first matching prefix of \<open>25290\<close>, \<open>2520\<close>, \<open>252\<close> and \<open>0\<close>.
\<close>

definition normalizePhone :: "string \<Rightarrow> string" where
  "normalizePhone phone = (let digits = filter is_digit phone in
     if starts_with digits ''25290'' then drop 5 digits
     else if starts_with digits ''2520'' then drop 4 digits
     else if starts_with digits ''252'' then drop 3 digits
     else if starts_with digits ''0'' then drop 1 digits
     else digits)"

section \<open>The writes of staff and catalogue administration\<close>

record user_patch =
  up_name :: "string option"
  up_phone :: "string option"
  up_role :: "string option"
  up_pin :: "string option"

datatype staff_write =
    PushUser key stored_user
  | UpdateUser key user_patch
  | RemoveUser key
  | PushItem key stored_item
  | UpdateStock key int
  | RemoveItem key

definition no_user :: stored_user where
  "no_user = \<lparr>su_id = None, su_name = None, su_role = None, su_phone = None, su_pin = None\<rparr>"

definition patch_user :: "user_patch \<Rightarrow> stored_user \<Rightarrow> stored_user" where
  "patch_user p u = u\<lparr>su_name := (case up_name p of None \<Rightarrow> su_name u | Some n \<Rightarrow> Some n),
     su_phone := (case up_phone p of None \<Rightarrow> su_phone u | Some n \<Rightarrow> Some n),
     su_role := (case up_role p of None \<Rightarrow> su_role u | Some n \<Rightarrow> Some n),
     su_pin := (case up_pin p of None \<Rightarrow> su_pin u | Some n \<Rightarrow> Some n)\<rparr>"

fun apply_staff_write :: "db \<Rightarrow> staff_write \<Rightarrow> db" where
  "apply_staff_write s (PushUser k u) = s\<lparr>db_users := aset k u (db_users s)\<rparr>"
| "apply_staff_write s (UpdateUser k p) = s\<lparr>db_users := aupd k (patch_user p) no_user (db_users s)\<rparr>"
| "apply_staff_write s (RemoveUser k) = s\<lparr>db_users := filter (\<lambda>q. fst q \<noteq> k) (db_users s)\<rparr>"
| "apply_staff_write s (PushItem k i) = s\<lparr>db_items := aset k i (db_items s)\<rparr>"
| "apply_staff_write s (UpdateStock k st) =
     s\<lparr>db_items := aupd k (\<lambda>i. i\<lparr>si_stock := Some st\<rparr>) no_item (db_items s)\<rparr>"
| "apply_staff_write s (RemoveItem k) = s\<lparr>db_items := filter (\<lambda>q. fst q \<noteq> k) (db_items s)\<rparr>"

definition apply_staff_writes :: "db \<Rightarrow> staff_write list \<Rightarrow> db" where
  "apply_staff_writes s ws = foldl apply_staff_write s ws"

section \<open>Staff handlers\<close>

text \<open>\<open>currentUser?.id === id\<close>.\<close>

definition is_current :: "user option \<Rightarrow> string \<Rightarrow> bool" where
  "is_current cur uid = (case cur of None \<Rightarrow> False | Some c \<Rightarrow> u_id c = uid)"

definition find_user :: "user list \<Rightarrow> string \<Rightarrow> user option" where
  "find_user users uid = find (\<lambda>u. u_id u = uid) users"

text \<open>\<open>target?.dbId ?? id\<close>: the store key of a user.\<close>

definition path_id :: "user option \<Rightarrow> string \<Rightarrow> string" where
  "path_id target uid = (case target of None \<Rightarrow> uid | Some t \<Rightarrow> coalesce (u_dbId t) uid)"

definition is_admin :: "user option \<Rightarrow> bool" where
  "is_admin target = (case target of None \<Rightarrow> False | Some t \<Rightarrow> u_role t = ''admin'')"

text \<open>
  \<open>addWaiter\<close>: \<open>k\<close> is the key \<open>push\<close> returns and \<open>now\<close> is \<open>Date.now()\<close>;
  every new account gets the PIN \<open>4321\<close>.
\<close>

definition addWaiter :: "string \<Rightarrow> string \<Rightarrow> string \<Rightarrow> key \<Rightarrow> nat \<Rightarrow> error + staff_write list" where
  "addWaiter name phone role k now =
     (if js_trim name = [] \<or> js_trim phone = []
      then Inl (ValidationError ''Fill name and phone for the new staff member.'')
      else Inr [PushUser k \<lparr>su_id = Some (''waiter-'' @ show_nat now), su_name = Some (js_trim name),
                 su_role = Some role, su_phone = Some (js_trim phone), su_pin = Some ''4321''\<rparr>])"


text \<open>\<open>/^\d{4}$/.test(s)\<close>.\<close>

definition four_digits :: "string \<Rightarrow> bool" where
  "four_digits s \<longleftrightarrow> length s = 4 \<and> list_all is_digit s"

text \<open>
  \<open>updateWaiterProfile\<close>: \<open>pin\<close> is the optional argument (\<open>None\<close> when not
  passed). An admin target, or the signed-in user editing themself, keeps the target's
  role whatever role was chosen.
\<close>

definition updateWaiterProfile ::
  "user option \<Rightarrow> user list \<Rightarrow> string \<Rightarrow> string \<Rightarrow> string \<Rightarrow> string \<Rightarrow> string option
   \<Rightarrow> error + staff_write list" where
  "updateWaiterProfile cur users uid name phone role pin =
     (let nextName = js_trim name; nextPhone = js_trim phone; target = find_user users uid in
      if nextName = [] \<or> nextPhone = [] then Inl (ValidationError ''Provide both name and phone.'')
      else if is_admin target \<and> \<not> is_current cur uid
        then Inl (ValidationError ''Admins cannot modify another admin.'')
      else if pin \<noteq> None \<and> pin \<noteq> Some [] \<and> \<not> four_digits (js_trim (the pin))
        then Inl (ValidationError ''PIN must be 4 digits.'')
      else
        (let enforcedRole = (if is_admin target \<or> is_current cur uid
                             then (case target of None \<Rightarrow> role | Some t \<Rightarrow> u_role t) else role);
             newPin = (case pin of None \<Rightarrow> None | Some p \<Rightarrow> if js_trim p = [] then None else Some (js_trim p)) in
         Inr [UpdateUser (path_id target uid)
                \<lparr>up_name = Some nextName, up_phone = Some nextPhone, up_role = Some enforcedRole,
                 up_pin = newPin\<rparr>]))"


section \<open>Catalogue handlers\<close>




section \<open>Login\<close>

text \<open>
  The outcome of \<open>handleLogin\<close>: the message under the form, or the user signed in
  with the tab shown, the waiter preset for new orders, the session's expiry written
  to local storage, and the welcome banner. \<open>normalizePhone\<close> on an account without
  a phone throws a \<open>TypeError\<close>: \<open>LoginCrash\<close>.
\<close>

datatype login_error = AuthError string | LoginCrash

record session =
  ss_user :: user
  ss_tab :: string
  ss_draftWaiter :: "string option"
  ss_expiresAt :: int
  ss_banner :: string

text \<open>The callback of \<open>users.find\<close>; \<open>None\<close> when it throws.\<close>

definition login_match :: "string \<Rightarrow> string \<Rightarrow> string \<Rightarrow> user \<Rightarrow> bool option" where
  "login_match phone normalized pin u =
     (if u_pin u \<noteq> Some pin then Some False
      else (case u_phone u of
              None \<Rightarrow> None
            | Some ph \<Rightarrow> (let stored = normalizePhone ph in
                Some (ph = phone \<or> stored = normalized \<or> ends_with stored normalized
                      \<or> ends_with normalized stored))))"

fun find_throwing :: "('a \<Rightarrow> bool option) \<Rightarrow> 'a list \<Rightarrow> 'a option option" where
  "find_throwing p [] = Some None"
| "find_throwing p (x # xs) = (case p x of None \<Rightarrow> None
     | Some True \<Rightarrow> Some (Some x) | Some False \<Rightarrow> find_throwing p xs)"

definition handleLogin :: "user list \<Rightarrow> string \<Rightarrow> string \<Rightarrow> int \<Rightarrow> login_error + session" where
  "handleLogin users authPhone authPin now =
     (if users = [] then Inl (AuthError ''Data is still loading. Try again in a moment.'')
      else (let phone = js_trim authPhone; normalized = normalizePhone phone; pin = js_trim authPin in
        case find_throwing (login_match phone normalized pin) users of
          None \<Rightarrow> Inl LoginCrash
        | Some None \<Rightarrow> Inl (AuthError ''Invalid phone or PIN. Try again.'')
        | Some (Some m) \<Rightarrow> Inr
            \<lparr>ss_user = m,
             ss_tab = (if u_role m = ''waiter'' \<or> u_role m = ''collector'' then ''orders'' else ''dash''),
             ss_draftWaiter = (if u_role m = ''waiter'' then Some (u_id m) else None),
             ss_expiresAt = now + 60 * 60 * 1000,
             ss_banner = ''Welcome, '' @ coalesce (u_name m) ''undefined'' @ ''!''\<rparr>))"

text \<open>\<open>handleLogout\<close>: no signed-in user, no session, no preset waiter.\<close>

definition handleLogout :: "session option \<Rightarrow> session option \<times> string" where
  "handleLogout s = (None, '''')"

section \<open>Example accounts\<close>

text \<open>
  Two accounts with the PIN every new account starts with: a waiter whose number
  normalises to \<open>61234\<close> and an admin whose number \<open>661234\<close> ends with it.
\<close>

definition staff_A :: user where
  "staff_A = \<lparr>u_id = ''A'', u_dbId = Some ''kA'', u_name = Some ''Ali'', u_role = ''waiter'',
     u_phone = Some ''61234'', u_pin = Some ''4321''\<rparr>"

definition staff_B :: user where
  "staff_B = \<lparr>u_id = ''B'', u_dbId = Some ''kB'', u_name = Some ''Bile'', u_role = ''admin'',
     u_phone = Some ''661234'', u_pin = Some ''4321''\<rparr>"

definition empty_db :: db where
  "empty_db = \<lparr>db_users = [], db_items = [], db_orders = [], db_customers = []\<rparr>"

section \<open>Lemmas\<close>

lemma find_throwing_total:
  "\<forall>x \<in> set xs. p x \<noteq> None \<Longrightarrow> find_throwing p xs = Some (find (\<lambda>x. p x = Some True) xs)"
  by (induction xs) (auto split: option.splits bool.splits)

lemma find_Some_ex: "\<exists>x \<in> set xs. P x \<Longrightarrow> \<exists>y. find P xs = Some y \<and> P y"
  by (induction xs) auto

lemma find_Some_in: "find P xs = Some y \<Longrightarrow> y \<in> set xs \<and> P y"
  by (induction xs) (auto split: if_splits)

lemma normalizePhone_Nil [simp]: "normalizePhone [] = []"
  by (simp add: normalizePhone_def starts_with_def)

lemma ends_with_Nil [simp]: "ends_with s []"
  by (simp add: ends_with_def)

lemma js_trim_Nil [simp]: "js_trim [] = []"
  by (simp add: js_trim_def)

lemma read_user_fields:
  "u_phone (read_user p) = su_phone (snd p)" "u_pin (read_user p) = su_pin (snd p)"
  "u_name (read_user p) = su_name (snd p)"
  by (cases p; simp add: read_user_def)+

lemma login_match_present:
  "u_phone u \<noteq> None \<Longrightarrow> login_match phone normalized pin u \<noteq> None"
  by (auto simp: login_match_def Let_def)

text \<open>
  C29. Signing in with an empty phone number succeeds with any valid PIN: every
  stored number ends with the empty string, so the first account holding that PIN
  is signed in (every account a staff member creates starts with PIN 4321).
\<close>

theorem login_empty_phone:
  assumes "u \<in> set users" "u_pin u = Some pin" "js_trim pin = pin"
    and "\<forall>v \<in> set users. u_phone v \<noteq> None"
  shows "\<exists>s. handleLogin users '''' pin now = Inr s \<and> u_pin (ss_user s) = Some pin"
proof -
  define P where "P = (\<lambda>x. login_match [] [] pin x = Some True)"
  have m: "P v \<longleftrightarrow> u_pin v = Some pin" if "u_phone v \<noteq> None" for v
    using that by (auto simp: P_def login_match_def Let_def)
  have tot: "\<forall>v \<in> set users. login_match [] [] pin v \<noteq> None"
  proof
    fix v assume "v \<in> set users"
    then show "login_match [] [] pin v \<noteq> None" using assms(4) by (intro login_match_present) simp
  qed
  have "P u" using m [of u] assms(1,2,4) by simp
  then obtain y where y: "find P users = Some y" "P y"
    using find_Some_ex [of users P] assms(1) by auto
  have "y \<in> set users" using find_Some_in [OF y(1)] by simp
  then have "u_pin y = Some pin" using m [of y] y(2) assms(4) by simp
  moreover have "users \<noteq> []" using assms(1) by auto
  moreover have "find_throwing (login_match [] [] pin) users = Some (Some y)"
    using find_throwing_total [OF tot] y(1) by (simp add: P_def)
  ultimately show ?thesis using assms(3) by (simp add: handleLogin_def)
qed

text \<open>
  C30. Phone matching by suffix signs a staff member into a colleague's account: when
  an earlier account has the same PIN and its normalised number is a suffix of the
  number typed, that earlier account is the one signed in.
\<close>

theorem login_suffix_wrong_account:
  assumes "u_pin a = Some pin" "u_phone a = Some pa" "js_trim pin = pin" "js_trim pb = pb"
    and "ends_with (normalizePhone pb) (normalizePhone pa)"
  shows "\<exists>s. handleLogin (a # rest) pb pin now = Inr s \<and> ss_user s = a"
proof -
  have "login_match pb (normalizePhone pb) pin a = Some True"
    using assms(1,2,5) by (simp add: login_match_def Let_def)
  then show ?thesis using assms(3,4) by (simp add: handleLogin_def Let_def)
qed

text \<open>
  C31. A member of staff added by \<open>addWaiter\<close> can sign in with the phone number
  entered and the PIN 4321, once the new account reaches the client (provided every
  stored account has a phone number; the first match wins, see C30).
\<close>

theorem addWaiter_can_login:
  assumes "addWaiter name phone role k now = Inr ws" "js_trim phone = phone"
    and "k \<notin> fst ` set (db_users s)" "\<forall>v \<in> set (db_users s). su_phone (snd v) \<noteq> None"
  shows "\<exists>sess. handleLogin (v_users (read_db (apply_staff_writes s ws))) phone ''4321'' t = Inr sess"
proof -
  define nu where "nu = \<lparr>su_id = Some (''waiter-'' @ show_nat now), su_name = Some (js_trim name),
                 su_role = Some role, su_phone = Some phone, su_pin = Some ''4321''\<rparr>"
  have ws: "ws = [PushUser k nu]"
    using assms(1,2) unfolding addWaiter_def nu_def by (simp split: if_splits)
  have us: "db_users (apply_staff_writes s ws) = db_users s @ [(k, nu)]"
    using assms(3) by (simp add: ws apply_staff_writes_def aupd_absent)
  define users where "users = map read_user (db_users s) @ [read_user (k, nu)]"
  have u: "v_users (read_db (apply_staff_writes s ws)) = users" by (simp add: users_def us)
  define P where "P = login_match phone (normalizePhone phone) ''4321''"
  have trim4: "js_trim ''4321'' = ''4321''" by (simp add: js_trim_def is_space_def)
  have tot: "\<forall>v \<in> set users. P v \<noteq> None"
  proof
    fix v assume v: "v \<in> set users"
    have "u_phone v \<noteq> None"
    proof (cases "v = read_user (k, nu)")
      case True then show ?thesis by (simp add: read_user_def nu_def)
    next
      case False
      with v obtain p where "p \<in> set (db_users s)" "v = read_user p" by (auto simp: users_def)
      then show ?thesis using assms(4) by (simp add: read_user_fields)
    qed
    then show "P v \<noteq> None" unfolding P_def by (rule login_match_present)
  qed
  have "P (read_user (k, nu)) = Some True"
    by (simp add: P_def login_match_def Let_def read_user_def nu_def)
  then have "\<exists>x \<in> set users. P x = Some True" by (simp add: users_def)
  then obtain y where y: "find (\<lambda>x. P x = Some True) users = Some y"
    using find_Some_ex [of users "\<lambda>x. P x = Some True"] by auto
  have "find_throwing P users = Some (Some y)" using find_throwing_total [OF tot] y by simp
  moreover have "users \<noteq> []" by (simp add: users_def)
  ultimately have "\<exists>sess. handleLogin users phone ''4321'' t = Inr sess"
    using assms(2) trim4 by (simp add: handleLogin_def P_def)
  then show ?thesis by (simp only: u)
qed

lemma starts_with_append: "starts_with (p @ s) p"
  by (simp add: starts_with_def)

lemma filter_digits_append:
  "list_all is_digit ds \<Longrightarrow> filter is_digit (p @ ds) = filter is_digit p @ ds"
  by (simp add: list_all_iff filter_id_conv)

lemma list_all_drop: "list_all P xs \<Longrightarrow> list_all P (drop n xs)"
  by (auto simp: list_all_iff dest: in_set_dropD)

text \<open>
  C32. \<open>normalizePhone\<close> always yields a string of digits, and a Somali mobile
  number written \<open>+25290\<close> followed by its digits is reduced to those digits.
\<close>

theorem normalizePhone_digits:
  "list_all is_digit (normalizePhone p)
   \<and> (list_all is_digit ds \<longrightarrow> normalizePhone (''+25290'' @ ds) = ds)"
proof
  have "list_all is_digit (filter is_digit p)" by (simp add: list_all_iff)
  then show "list_all is_digit (normalizePhone p)"
    by (simp add: normalizePhone_def Let_def list_all_drop)
next
  show "list_all is_digit ds \<longrightarrow> normalizePhone (''+25290'' @ ds) = ds"
  proof
    assume "list_all is_digit ds"
    then have "filter is_digit (''+25290'' @ ds) = ''25290'' @ ds"
      by (simp add: is_digit_def list_all_iff filter_id_conv)
    then show "normalizePhone (''+25290'' @ ds) = ds"
      unfolding normalizePhone_def Let_def by (simp only:) (simp add: starts_with_def)
  qed
qed

text \<open>
  C33. The role guard of \<open>updateWaiterProfile\<close>: an admin can be edited only by
  themself, and when the target is an admin or the signed-in user, the role written
  is the target's own role whatever role the form chose.
\<close>

theorem updateWaiterProfile_role_guard:
  assumes "find_user users uid = Some tgt" "u_role tgt = ''admin'' \<or> is_current cur uid"
  shows "(u_role tgt = ''admin'' \<and> \<not> is_current cur uid \<longrightarrow>
            (\<exists>e. updateWaiterProfile cur users uid name phone role pin = Inl e))
     \<and> (updateWaiterProfile cur users uid name phone role pin = Inr ws \<longrightarrow>
            (\<exists>p. ws = [UpdateUser (coalesce (u_dbId tgt) uid) p] \<and> up_role p = Some (u_role tgt)))"
  using assms
  by (auto simp: updateWaiterProfile_def Let_def is_admin_def path_id_def split: if_splits)









text \<open>Witnesses at concrete inputs.\<close>

theorem login_empty_phone_witness:
  "staff_B \<in> set [staff_B, staff_A] \<and> u_pin staff_B = Some ''4321'' \<and> js_trim ''4321'' = ''4321''
   \<and> (\<exists>s. handleLogin [staff_B, staff_A] '''' ''4321'' 0 = Inr s \<and> u_pin (ss_user s) = Some ''4321'')"
proof -
  have t: "js_trim ''4321'' = ''4321''" by (simp add: js_trim_def is_space_def)
  show ?thesis
    using login_empty_phone [of staff_B "[staff_B, staff_A]" "''4321''" 0] t
    by (simp add: staff_A_def staff_B_def)
qed

theorem login_suffix_wrong_account_witness:
  "u_pin staff_A = Some ''4321'' \<and> u_phone staff_A = Some ''61234'' \<and> js_trim ''4321'' = ''4321''
   \<and> js_trim ''661234'' = ''661234'' \<and> ends_with (normalizePhone ''661234'') (normalizePhone ''61234'')
   \<and> (\<exists>s. handleLogin [staff_A, staff_B] ''661234'' ''4321'' 0 = Inr s \<and> ss_user s = staff_A)"
proof -
  have h: "js_trim ''4321'' = ''4321''" "js_trim ''661234'' = ''661234''"
    "ends_with (normalizePhone ''661234'') (normalizePhone ''61234'')"
    by code_simp+
  show ?thesis
    using login_suffix_wrong_account [of staff_A "''4321''" "''61234''" "''661234''" "[staff_B]" 0] h
    by (simp add: staff_A_def)
qed

theorem addWaiter_can_login_witness:
  "addWaiter ''Ali'' ''615551234'' ''waiter'' ''k1'' 7 = Inr [PushUser ''k1''
      \<lparr>su_id = Some (''waiter-'' @ show_nat 7), su_name = Some ''Ali'', su_role = Some ''waiter'',
       su_phone = Some ''615551234'', su_pin = Some ''4321''\<rparr>]
   \<and> js_trim ''615551234'' = ''615551234'' \<and> ''k1'' \<notin> fst ` set (db_users empty_db)
   \<and> (\<exists>sess. handleLogin (v_users (read_db (apply_staff_writes empty_db [PushUser ''k1''
      \<lparr>su_id = Some (''waiter-'' @ show_nat 7), su_name = Some ''Ali'', su_role = Some ''waiter'',
       su_phone = Some ''615551234'', su_pin = Some ''4321''\<rparr>]))) ''615551234'' ''4321'' 0 = Inr sess)"
proof -
  have a: "addWaiter ''Ali'' ''615551234'' ''waiter'' ''k1'' 7 = Inr [PushUser ''k1''
      \<lparr>su_id = Some (''waiter-'' @ show_nat 7), su_name = Some ''Ali'', su_role = Some ''waiter'',
       su_phone = Some ''615551234'', su_pin = Some ''4321''\<rparr>]"
    by (simp add: addWaiter_def js_trim_def is_space_def)
  have t: "js_trim ''615551234'' = ''615551234''" by (simp add: js_trim_def is_space_def)
  have k: "''k1'' \<notin> fst ` set (db_users empty_db)" "\<forall>v \<in> set (db_users empty_db). su_phone (snd v) \<noteq> None"
    by (simp_all add: empty_db_def)
  show ?thesis using addWaiter_can_login [OF a t k, of 0] a t k(1) by blast
qed

theorem normalizePhone_digits_witness:
  "list_all is_digit ''1234567'' \<and> normalizePhone (''+25290'' @ ''1234567'') = ''1234567''
   \<and> list_all is_digit (normalizePhone ''+252 61 555'')"
  using normalizePhone_digits [of "''+252 61 555''" "''1234567''"] by (simp add: is_digit_def)

theorem updateWaiterProfile_role_guard_witness:
  "find_user [staff_B] ''B'' = Some staff_B \<and> u_role staff_B = ''admin''
   \<and> (\<exists>e. updateWaiterProfile (Some staff_A) [staff_B] ''B'' ''Bile'' ''1'' ''waiter'' None = Inl e)"
proof -
  have f: "find_user [staff_B] ''B'' = Some staff_B" "u_role staff_B = ''admin''"
    "\<not> is_current (Some staff_A) ''B''"
    by (simp_all add: find_user_def staff_A_def staff_B_def is_current_def)
  show ?thesis
    using updateWaiterProfile_role_guard [of "[staff_B]" "''B''" staff_B "Some staff_A"
        "''Bile''" "''1''" "''waiter''" None "[]"] f
    by blast
qed


end
