(* ===== verification/Calendar.thy ===== *)
theory Calendar
  imports Prelude "HOL-Library.Monad_Syntax"
begin

text \<open>
  The calendar arithmetic behind the report keys of \<open>src/unnamed/part_000\<close>: the
  ECMAScript date algorithms the runtime applies to a time value (milliseconds since
  the epoch, an \<open>int\<close> here), the local time of a fixed offset \<open>tz\<close>, the
  \<open>Date\<close> methods the reports call, the ISO string the orders are stamped with
  (\<open>toISOString\<close>) and the parser of \<open>new Date(string)\<close> for the ECMAScript Date
  Time String Format, and \<open>getWeekId\<close>. The lemmas show the year and month
  decomposition correct, that parsing reads back every ISO stamp, and what week
  \<open>getWeekId\<close> names.
\<close>

section \<open>Days and years (ECMA-262, 21.4.1)\<close>

definition msPerDay :: int where
  "msPerDay = 86400000"

definition Day :: "int \<Rightarrow> int" where
  "Day t = t div msPerDay"

definition TimeWithinDay :: "int \<Rightarrow> int" where
  "TimeWithinDay t = t mod msPerDay"

definition DaysInYear :: "int \<Rightarrow> int" where
  "DaysInYear y = (if y mod 4 \<noteq> 0 then 365 else if y mod 100 \<noteq> 0 then 366
                   else if y mod 400 \<noteq> 0 then 365 else 366)"

definition InLeapYear :: "int \<Rightarrow> bool" where
  "InLeapYear y \<longleftrightarrow> DaysInYear y = 366"

definition DayFromYear :: "int \<Rightarrow> int" where
  "DayFromYear y = 365 * (y - 1970) + (y - 1969) div 4 - (y - 1901) div 100 + (y - 1601) div 400"

text \<open>
  \<open>YearFromTime\<close> is the largest year whose first day is not after the day of the
  time value. The search starts from a year known not to be too late and steps
  forward; every step passes at least 365 days.
\<close>

definition year_lower :: "int \<Rightarrow> int" where
  "year_lower d = 1970 + (if 0 \<le> d then d div 366 else d div 365)"

function year_from :: "int \<Rightarrow> int \<Rightarrow> int" where
  "year_from y d = (if d < DayFromYear (y + 1) then y else year_from (y + 1) d)"
  by pat_completeness auto
termination
proof (relation "measure (\<lambda>(y, d). nat (d - DayFromYear y + 1))")
  fix y d :: int
  assume "\<not> d < DayFromYear (y + 1)"
  moreover have "(y - 1969) div 4 \<le> (y + 1 - 1969) div 4" by (intro zdiv_mono1) simp_all
  moreover have "(y + 1 - 1901) div 100 \<le> (y - 1901) div 100 + 1"
  proof -
    have "(y + 1 - 1901) div 100 = ((y - 1901) + 1) div 100" by simp
    also have "\<dots> \<le> ((y - 1901) + 100) div 100" by (intro zdiv_mono1) simp_all
    finally show ?thesis by simp
  qed
  moreover have "(y - 1601) div 400 \<le> (y + 1 - 1601) div 400" by (intro zdiv_mono1) simp_all
  ultimately show "((y + 1, d), y, d) \<in> measure (\<lambda>(y, d). nat (d - DayFromYear y + 1))"
    by (simp add: DayFromYear_def)
qed simp

definition YearFromDay :: "int \<Rightarrow> int" where
  "YearFromDay d = year_from (year_lower d) d"

definition YearFromTime :: "int \<Rightarrow> int" where
  "YearFromTime t = YearFromDay (Day t)"

definition DayWithinYear :: "int \<Rightarrow> int" where
  "DayWithinYear d = d - DayFromYear (YearFromDay d)"

section \<open>Months and dates (ECMA-262, 21.4.1.6 to 21.4.1.7)\<close>

definition month_lengths :: "bool \<Rightarrow> int list" where
  "month_lengths leap = [31, if leap then 29 else 28, 31, 30, 31, 30, 31, 31, 30, 31, 30, 31]"

text \<open>The day within the year on which month \<open>m\<close> (0 to 12) starts.\<close>

definition month_start :: "bool \<Rightarrow> nat \<Rightarrow> int" where
  "month_start leap m = sum_list (take m (month_lengths leap))"

text \<open>
  \<open>MonthFromTime\<close>: the month whose range of days holds day \<open>dwy\<close> of the year,
  found by passing the months that have ended, at most eleven.
\<close>

fun month_from :: "bool \<Rightarrow> int \<Rightarrow> nat \<Rightarrow> nat \<Rightarrow> nat" where
  "month_from leap dwy m 0 = m"
| "month_from leap dwy m (Suc n) =
     (if month_start leap (Suc m) \<le> dwy then month_from leap dwy (Suc m) n else m)"

definition month_index :: "bool \<Rightarrow> int \<Rightarrow> nat" where
  "month_index leap dwy = month_from leap dwy 0 11"

definition MonthFromDay :: "int \<Rightarrow> nat" where
  "MonthFromDay d = month_index (InLeapYear (YearFromDay d)) (DayWithinYear d)"

definition DateFromDay :: "int \<Rightarrow> int" where
  "DateFromDay d = DayWithinYear d - month_start (InLeapYear (YearFromDay d)) (MonthFromDay d) + 1"

definition WeekDay :: "int \<Rightarrow> int" where
  "WeekDay d = (d + 4) mod 7"

section \<open>Hours, minutes, seconds (ECMA-262, 21.4.1.14)\<close>

definition HourFromTime :: "int \<Rightarrow> int" where
  "HourFromTime t = (t div 3600000) mod 24"

definition MinFromTime :: "int \<Rightarrow> int" where
  "MinFromTime t = (t div 60000) mod 60"

definition SecFromTime :: "int \<Rightarrow> int" where
  "SecFromTime t = (t div 1000) mod 60"

definition msFromTime :: "int \<Rightarrow> int" where
  "msFromTime t = t mod 1000"

section \<open>Building time values (ECMA-262, 21.4.1.28 to 21.4.1.31)\<close>

definition MakeTime :: "int \<Rightarrow> int \<Rightarrow> int \<Rightarrow> int \<Rightarrow> int" where
  "MakeTime h m s ms = h * 3600000 + m * 60000 + s * 1000 + ms"

definition MakeDay :: "int \<Rightarrow> int \<Rightarrow> int \<Rightarrow> int" where
  "MakeDay y m dt = (let ym = y + m div 12; mn = m mod 12 in
     DayFromYear ym + month_start (InLeapYear ym) (nat mn) + dt - 1)"

definition MakeDate :: "int \<Rightarrow> int \<Rightarrow> int" where
  "MakeDate day time = day * msPerDay + time"

text \<open>A time value beyond 8.64e15 ms from the epoch is \<open>NaN\<close>, here \<open>None\<close>.\<close>

definition TimeClip :: "int \<Rightarrow> int option" where
  "TimeClip t = (if \<bar>t\<bar> \<le> 8640000000000000 then Some t else None)"

section \<open>Local time\<close>

text \<open>
  The local time zone adjustment \<open>LocalTZA\<close> is a fixed offset \<open>tz\<close> in
  milliseconds (\<open>+10800000\<close> at UTC+3); daylight saving time is not modelled.
\<close>

definition LocalTime :: "int \<Rightarrow> int \<Rightarrow> int" where
  "LocalTime tz t = t + tz"

definition UTC :: "int \<Rightarrow> int \<Rightarrow> int" where
  "UTC tz t = t - tz"

section \<open>The Date methods the reports call (on a valid time value)\<close>

definition getFullYear :: "int \<Rightarrow> int \<Rightarrow> int" where
  "getFullYear tz t = YearFromTime (LocalTime tz t)"

definition getMonth :: "int \<Rightarrow> int \<Rightarrow> int" where
  "getMonth tz t = int (MonthFromDay (Day (LocalTime tz t)))"

definition getDate :: "int \<Rightarrow> int \<Rightarrow> int" where
  "getDate tz t = DateFromDay (Day (LocalTime tz t))"

definition getUTCFullYear :: "int \<Rightarrow> int" where
  "getUTCFullYear t = YearFromTime t"

definition getUTCMonth :: "int \<Rightarrow> int" where
  "getUTCMonth t = int (MonthFromDay (Day t))"

definition getUTCDate :: "int \<Rightarrow> int" where
  "getUTCDate t = DateFromDay (Day t)"

definition getUTCDay :: "int \<Rightarrow> int" where
  "getUTCDay t = WeekDay (Day t)"

text \<open>\<open>Date.UTC(y, m, d)\<close>: a year from 0 to 99 means 1900 to 1999.\<close>

definition Date_UTC :: "int \<Rightarrow> int \<Rightarrow> int \<Rightarrow> int option" where
  "Date_UTC y m dt =
     TimeClip (MakeDate (MakeDay (if 0 \<le> y \<and> y \<le> 99 then 1900 + y else y) m dt) (MakeTime 0 0 0 0))"

definition setUTCDate :: "int \<Rightarrow> int \<Rightarrow> int option" where
  "setUTCDate t dt = TimeClip (MakeDate (MakeDay (YearFromTime t) (getUTCMonth t) dt) (TimeWithinDay t))"

definition setHours :: "int \<Rightarrow> int \<Rightarrow> int \<Rightarrow> int \<Rightarrow> int \<Rightarrow> int \<Rightarrow> int option" where
  "setHours tz t h m s ms =
     TimeClip (UTC tz (MakeDate (Day (LocalTime tz t)) (MakeTime h m s ms)))"

section \<open>The ISO week of a date: \<open>getWeekId\<close>\<close>

text \<open>\<open>Math.ceil(a / b)\<close> for integers, \<open>b\<close> positive.\<close>

definition ceil_div :: "int \<Rightarrow> int \<Rightarrow> int" where
  "ceil_div a b = - ((- a) div b)"

text \<open>\<open>Math.ceil((x / 86400000 + 1) / 7)\<close> for a difference \<open>x\<close> of time values.\<close>

definition week_no :: "int \<Rightarrow> int" where
  "week_no x = ceil_div (x + msPerDay) (7 * msPerDay)"

text \<open>
  \<open>getWeekId(d)\<close>: the local calendar date of \<open>d\<close> as a UTC midnight, moved to the
  Thursday of its Monday-to-Sunday week, and that Thursday's week count from the first
  of January of its year. A \<open>NaN\<close> on the way prints as \<open>NaN\<close>.
\<close>

definition getWeekId :: "int \<Rightarrow> int \<Rightarrow> string" where
  "getWeekId tz d =
     (case Date_UTC (getFullYear tz d) (getMonth tz d) (getDate tz d) of
        None \<Rightarrow> ''NaN-WNaN''
      | Some date \<Rightarrow>
          (let dayNum = (if getUTCDay date = 0 then 7 else getUTCDay date) in
           case setUTCDate date (getUTCDate date + 4 - dayNum) of
             None \<Rightarrow> ''NaN-WNaN''
           | Some date' \<Rightarrow>
               (case Date_UTC (getUTCFullYear date') 0 1 of
                  None \<Rightarrow> show_int (getUTCFullYear date') @ ''-WNaN''
                | Some yearStart \<Rightarrow>
                    show_int (getUTCFullYear date') @ ''-W'' @ show_int (week_no (date' - yearStart)))))"

section \<open>\<open>toISOString\<close>\<close>

definition pad_int :: "nat \<Rightarrow> int \<Rightarrow> string" where
  "pad_int w n = pad_start w CHR ''0'' (show_nat (nat n))"

text \<open>A year from 0 to 9999 has four digits, any other a sign and six.\<close>

definition iso_year :: "int \<Rightarrow> string" where
  "iso_year y = (if 0 \<le> y \<and> y \<le> 9999 then pad_int 4 y
                 else (if y < 0 then CHR ''-'' else CHR ''+'') # pad_int 6 \<bar>y\<bar>)"

definition toISOString :: "int \<Rightarrow> string" where
  "toISOString t = iso_year (YearFromTime t) @ ''-'' @ pad_int 2 (getUTCMonth t + 1) @ ''-''
     @ pad_int 2 (getUTCDate t) @ ''T'' @ pad_int 2 (HourFromTime t) @ '':''
     @ pad_int 2 (MinFromTime t) @ '':'' @ pad_int 2 (SecFromTime t) @ ''.''
     @ pad_int 3 (msFromTime t) @ ''Z''"

section \<open>\<open>new Date(string)\<close>: the Date Time String Format (ECMA-262, 21.4.1.32)\<close>

text \<open>
  The forms \<open>YYYY\<close>, \<open>YYYY-MM\<close>, \<open>YYYY-MM-DD\<close>, each optionally followed by
  \<open>THH:mm\<close>, \<open>THH:mm:ss\<close> or \<open>THH:mm:ss.sss\<close> and then by \<open>Z\<close> or
  \<open>+HH:mm\<close> / \<open>-HH:mm\<close>; the year may also be a sign and six digits. A date-only
  form is UTC, a date-time form without offset is local time. An element out of range
  or any other string is \<open>NaN\<close> (\<open>None\<close>); the fallback formats an engine may
  accept besides are not modelled.
\<close>

definition read_digits :: "nat \<Rightarrow> string \<Rightarrow> (nat \<times> string) option" where
  "read_digits n s =
     (if n \<le> length s \<and> list_all is_digit (take n s) then Some (digits_val 0 (take n s), drop n s) else None)"

definition sep_digits :: "char \<Rightarrow> nat \<Rightarrow> string \<Rightarrow> (nat \<times> string) option" where
  "sep_digits c n s = (case s of x # r \<Rightarrow> if x = c then read_digits n r else None | [] \<Rightarrow> None)"

text \<open>An optional element introduced by the separator \<open>c\<close>.\<close>

definition opt_digits :: "char \<Rightarrow> nat \<Rightarrow> string \<Rightarrow> (nat option \<times> string) option" where
  "opt_digits c n s = (case s of
       x # r \<Rightarrow> if x = c then map_option (\<lambda>(v, r'). (Some v, r')) (read_digits n r) else Some (None, s)
     | [] \<Rightarrow> Some (None, s))"

definition parse_year :: "string \<Rightarrow> (int \<times> string) option" where
  "parse_year s = (case s of
       [] \<Rightarrow> None
     | c # r \<Rightarrow>
         if c = CHR ''+'' \<or> c = CHR ''-'' then
           (case read_digits 6 r of
              None \<Rightarrow> None
            | Some (n, r') \<Rightarrow> if c = CHR ''-'' \<and> n = 0 then None
                             else Some (if c = CHR ''-'' then - int n else int n, r'))
         else map_option (\<lambda>(n, r'). (int n, r')) (read_digits 4 s))"

text \<open>\<open>THH:mm\<close>, then \<open>:ss\<close> and, after the seconds, \<open>.sss\<close>.\<close>

definition parse_time :: "string \<Rightarrow> ((nat \<times> nat \<times> nat \<times> nat) option \<times> string) option" where
  "parse_time s = (case s of
       x # r \<Rightarrow>
         if x = CHR ''T'' then do {
           (h, r1) \<leftarrow> read_digits 2 r;
           (mi, r2) \<leftarrow> sep_digits CHR '':'' 2 r1;
           (sec, r3) \<leftarrow> opt_digits CHR '':'' 2 r2;
           (msec, r4) \<leftarrow> (if sec = None then Some (None, r3) else opt_digits CHR ''.'' 3 r3);
           Some (Some (h, mi, coalesce sec 0, coalesce msec 0), r4)
         } else Some (None, s)
     | [] \<Rightarrow> Some (None, s))"

text \<open>The offset of a date-time form in milliseconds; \<open>None\<close> when absent.\<close>

definition parse_offset :: "string \<Rightarrow> (int option \<times> string) option" where
  "parse_offset s = (case s of
       x # r \<Rightarrow>
         if x = CHR ''Z'' then Some (Some 0, r)
         else if x = CHR ''+'' \<or> x = CHR ''-'' then do {
           (h, r1) \<leftarrow> read_digits 2 r;
           (mi, r2) \<leftarrow> sep_digits CHR '':'' 2 r1;
           if 23 < h \<or> 59 < mi then None
           else Some (Some ((if x = CHR ''-'' then -1 else 1) * (int h * 3600000 + int mi * 60000)), r2)
         } else Some (None, s)
     | [] \<Rightarrow> Some (None, s))"

definition days_in_month :: "int \<Rightarrow> nat \<Rightarrow> int" where
  "days_in_month y m = month_lengths (InLeapYear y) ! (m - 1)"

definition parse_date :: "int \<Rightarrow> string \<Rightarrow> int option" where
  "parse_date tz s = do {
     (y, r1) \<leftarrow> parse_year s;
     (mo, r2) \<leftarrow> opt_digits CHR ''-'' 2 r1;
     (dd, r3) \<leftarrow> (if mo = None then Some (None, r2) else opt_digits CHR ''-'' 2 r2);
     (tm, r4) \<leftarrow> parse_time r3;
     (off, r5) \<leftarrow> (if tm = None then Some (None, r4) else parse_offset r4);
     if r5 \<noteq> [] then None else do {
       let m = coalesce mo 1;
       let d = coalesce dd 1;
       let (h, mi, sec, msec) = coalesce tm (0, 0, 0, 0);
       if m < 1 \<or> 12 < m \<or> d < 1 \<or> days_in_month y m < int d \<or> 24 < h \<or> 59 < mi \<or> 59 < sec
          \<or> (h = 24 \<and> (mi \<noteq> 0 \<or> sec \<noteq> 0 \<or> msec \<noteq> 0)) then None
       else do {
         let tv = MakeDate (MakeDay y (int m - 1) (int d)) (MakeTime (int h) (int mi) (int sec) (int msec));
         TimeClip (case off of Some o' \<Rightarrow> tv - o' | None \<Rightarrow> if tm = None then tv else UTC tz tv)
       }
     }
   }"

section \<open>The ISO-8601 week, as the calendar defines it\<close>

text \<open>
  The abstract week of a day number \<open>z\<close>: weeks run Monday to Sunday, a week
  belongs to the year of its Thursday, and week 1 holds that year's first Thursday.
\<close>

definition iso_thursday :: "int \<Rightarrow> int" where
  "iso_thursday z = z + 3 - (WeekDay z + 6) mod 7"

definition iso_week_year :: "int \<Rightarrow> int" where
  "iso_week_year z = YearFromDay (iso_thursday z)"

definition iso_week :: "int \<Rightarrow> int" where
  "iso_week z = (iso_thursday z - DayFromYear (iso_week_year z)) div 7 + 1"

definition iso_week_label :: "int \<Rightarrow> string" where
  "iso_week_label z = show_int (iso_week_year z) @ ''-W'' @ show_int (iso_week z)"

section \<open>Lemmas: years\<close>

lemma div_succ_diff:
  fixes a n :: int assumes n: "0 < n"
  shows "(a + 1) div n = a div n + (if (a + 1) mod n = 0 then 1 else 0)"
proof -
  define r where "r = a mod n"
  have r: "0 \<le> r" "r < n" using n by (simp_all add: r_def)
  have a: "a + 1 = (r + 1) + a div n * n" by (simp add: r_def)
  have d: "(a + 1) div n = (r + 1) div n + a div n" unfolding a using n by simp
  have m: "(a + 1) mod n = (r + 1) mod n" unfolding a by simp
  show ?thesis
  proof (cases "r + 1 = n")
    case True then show ?thesis using d m n by simp
  next
    case False
    then have "r + 1 < n" using r by simp
    then have "(r + 1) div n = 0" "(r + 1) mod n = r + 1" using r by simp_all
    then show ?thesis using d m r by simp
  qed
qed

lemma mod_shift:
  fixes y n c :: int
  shows "(y - n * c) mod n = y mod n"
proof -
  have "y - n * c = y + (- c) * n" by simp
  then show ?thesis by (simp only: mod_mult_self1)
qed

lemma succ_mod_shift:
  fixes a y n c :: int
  assumes "0 < n" "a = y - n * c - 1"
  shows "(a + 1) div n = a div n + (if y mod n = 0 then 1 else 0)"
proof -
  have "(a + 1) mod n = y mod n" using assms(2) mod_shift [of y n c] by simp
  then show ?thesis using div_succ_diff [OF assms(1), of a] by simp
qed

lemma DayFromYear_step: "DayFromYear (y + 1) = DayFromYear y + DaysInYear y"
proof -
  define a b c :: int where "a = (if y mod 4 = 0 then 1 else 0)"
    and "b = (if y mod 100 = 0 then 1 else 0)" and "c = (if y mod 400 = 0 then 1 else 0)"
  have h4: "(y + 1 - 1969) div 4 = (y - 1969) div 4 + a"
    using succ_mod_shift [of 4 "y - 1969" y 492] by (simp add: a_def)
  have h100: "(y + 1 - 1901) div 100 = (y - 1901) div 100 + b"
    using succ_mod_shift [of 100 "y - 1901" y 19] by (simp add: b_def)
  have h400: "(y + 1 - 1601) div 400 = (y - 1601) div 400 + c"
    using succ_mod_shift [of 400 "y - 1601" y 4] by (simp add: c_def)
  have "y mod 100 = 0 \<Longrightarrow> y mod 4 = 0" "y mod 400 = 0 \<Longrightarrow> y mod 100 = 0"
    by (auto simp: mod_eq_0_iff_dvd intro: dvd_trans [of 4 100] dvd_trans [of 100 400])
  then have dy: "DaysInYear y = 365 + a - b + c"
    by (simp add: DaysInYear_def a_def b_def c_def)
  have "DayFromYear (y + 1) = 365 * (y + 1 - 1970) + (y + 1 - 1969) div 4 - (y + 1 - 1901) div 100
      + (y + 1 - 1601) div 400"
    by (simp only: DayFromYear_def)
  also have "\<dots> = DayFromYear y + 365 + a - b + c"
    by (simp only: h4 h100 h400 DayFromYear_def) simp
  finally show ?thesis by (simp only: dy)
qed

lemma DaysInYear_range: "365 \<le> DaysInYear y" "DaysInYear y \<le> 366"
  by (simp_all add: DaysInYear_def)

lemma DayFromYear_1970 [simp]: "DayFromYear 1970 = 0"
  by (simp add: DayFromYear_def)

lemma DayFromYear_plus:
  "DayFromYear y + 365 * int k \<le> DayFromYear (y + int k) \<and> DayFromYear (y + int k) \<le> DayFromYear y + 366 * int k"
proof (induction k)
  case (Suc k)
  have "DayFromYear (y + int (Suc k)) = DayFromYear (y + int k) + DaysInYear (y + int k)"
    using DayFromYear_step [of "y + int k"] by (simp add: algebra_simps)
  with Suc DaysInYear_range [of "y + int k"] show ?case by simp
qed simp

lemma DayFromYear_mono: "y < y' \<Longrightarrow> DayFromYear y + 365 * (y' - y) \<le> DayFromYear y'"
  using DayFromYear_plus [of y "nat (y' - y)"] by simp

lemma DayFromYear_strict: "y < y' \<Longrightarrow> DayFromYear y < DayFromYear y'"
  using DayFromYear_mono [of y y'] by simp

lemma DayFromYear_le_iff: "DayFromYear y \<le> DayFromYear y' \<longleftrightarrow> y \<le> y'"
  by (metis DayFromYear_strict linorder_not_less order_le_less)

lemma year_lower_le: "DayFromYear (year_lower d) \<le> d"
proof (cases "0 \<le> d")
  case True
  have "DayFromYear (1970 + int (nat (d div 366))) \<le> 366 * int (nat (d div 366))"
    using DayFromYear_plus [of 1970 "nat (d div 366)"] by simp
  moreover have "366 * (d div 366) \<le> d" by (simp add: mult.commute minus_mod_eq_div_mult [symmetric])
  moreover have "0 \<le> d div 366" using True by simp
  ultimately show ?thesis using True by (simp add: year_lower_def)
next
  case False
  define k where "k = nat (- (d div 365))"
  have dk: "d div 365 = - int k" using False by (simp add: k_def)
  have "DayFromYear (1970 + d div 365) + 365 * int k \<le> DayFromYear 1970"
    using DayFromYear_plus [of "1970 + d div 365" k] dk by simp
  moreover have "365 * (d div 365) \<le> d" by (simp add: mult.commute minus_mod_eq_div_mult [symmetric])
  ultimately show ?thesis using False dk by (simp add: year_lower_def)
qed

lemma year_from_bounds:
  "DayFromYear y \<le> d \<Longrightarrow> DayFromYear (year_from y d) \<le> d \<and> d < DayFromYear (year_from y d + 1)"
proof (induction y d rule: year_from.induct)
  case (1 y d)
  show ?case
  proof (cases "d < DayFromYear (y + 1)")
    case True
    then have "year_from y d = y" by (subst year_from.simps) simp
    with True 1(2) show ?thesis by simp
  next
    case False
    then have "year_from y d = year_from (y + 1) d" by (subst year_from.simps) simp
    with False 1 show ?thesis by simp
  qed
qed

lemma YearFromDay_bounds:
  "DayFromYear (YearFromDay d) \<le> d" "d < DayFromYear (YearFromDay d + 1)"
  using year_from_bounds [OF year_lower_le [of d]] by (simp_all add: YearFromDay_def)

lemma YearFromDay_unique:
  assumes "DayFromYear y \<le> d" "d < DayFromYear (y + 1)"
  shows "YearFromDay d = y"
proof -
  have "YearFromDay d < y + 1"
    using assms(1) YearFromDay_bounds(1) [of d] DayFromYear_le_iff [of "y + 1" "YearFromDay d"] assms(2)
    by linarith
  moreover have "y < YearFromDay d + 1"
    using assms(1) YearFromDay_bounds(2) [of d] DayFromYear_le_iff [of "YearFromDay d + 1" y]
    by linarith
  ultimately show ?thesis by simp
qed

lemma YearFromDay_DayFromYear: "YearFromDay (DayFromYear y) = y"
  by (rule YearFromDay_unique) (simp_all add: DayFromYear_strict)

lemma YearFromDay_mono: "d \<le> d' \<Longrightarrow> YearFromDay d \<le> YearFromDay d'"
proof -
  assume "d \<le> d'"
  then have "DayFromYear (YearFromDay d) < DayFromYear (YearFromDay d' + 1)"
    using YearFromDay_bounds(1) [of d] YearFromDay_bounds(2) [of d'] by linarith
  then show ?thesis using DayFromYear_le_iff [of "YearFromDay d' + 1" "YearFromDay d"] by linarith
qed

section \<open>Lemmas: months\<close>

lemma month_lengths_pos: "m < 12 \<Longrightarrow> 0 < month_lengths leap ! m"
  by (simp add: month_lengths_def nth_Cons split: nat.splits)

lemma length_month_lengths [simp]: "length (month_lengths leap) = 12"
  by (simp add: month_lengths_def)

lemma month_start_Suc: "m < 12 \<Longrightarrow> month_start leap (Suc m) = month_start leap m + month_lengths leap ! m"
  by (simp add: month_start_def take_Suc_conv_app_nth)

lemma month_start_0 [simp]: "month_start leap 0 = 0"
  by (simp add: month_start_def)

lemma month_start_12: "month_start leap 12 = (if leap then 366 else 365)"
  by (simp add: month_start_def month_lengths_def)

lemma month_from_spec:
  "m + n \<le> 11 \<Longrightarrow> month_start leap m \<le> dwy \<Longrightarrow>
   m \<le> month_from leap dwy m n \<and> month_from leap dwy m n \<le> m + n
   \<and> month_start leap (month_from leap dwy m n) \<le> dwy
   \<and> (month_from leap dwy m n < m + n \<longrightarrow> dwy < month_start leap (Suc (month_from leap dwy m n)))"
proof (induction n arbitrary: m)
  case (Suc n)
  show ?case
  proof (cases "month_start leap (Suc m) \<le> dwy")
    case True
    with Suc.IH [of "Suc m"] Suc.prems show ?thesis by simp
  next
    case False
    with Suc.prems show ?thesis by simp
  qed
qed simp

lemma month_index_spec:
  assumes "0 \<le> dwy" "dwy < month_start leap 12"
  shows "month_index leap dwy < 12" "month_start leap (month_index leap dwy) \<le> dwy"
    "dwy < month_start leap (Suc (month_index leap dwy))"
proof -
  have h: "month_index leap dwy \<le> 11" "month_start leap (month_index leap dwy) \<le> dwy"
      "month_index leap dwy < 11 \<longrightarrow> dwy < month_start leap (Suc (month_index leap dwy))"
    using month_from_spec [of 0 11 leap dwy] assms(1) by (simp_all add: month_index_def)
  then show "month_index leap dwy < 12" "month_start leap (month_index leap dwy) \<le> dwy" by simp_all
  show "dwy < month_start leap (Suc (month_index leap dwy))"
  proof (cases "month_index leap dwy < 11")
    case False
    with h(1) have "month_index leap dwy = 11" by simp
    with assms(2) show ?thesis by (simp add: numeral_eq_Suc)
  qed (use h in simp)
qed

lemma month_start_leap_DaysInYear: "month_start (InLeapYear y) 12 = DaysInYear y"
  using DaysInYear_range [of y] by (auto simp: month_start_12 InLeapYear_def)

lemma DayWithinYear_range: "0 \<le> DayWithinYear d" "DayWithinYear d < DaysInYear (YearFromDay d)"
  using YearFromDay_bounds [of d] DayFromYear_step [of "YearFromDay d"]
  by (simp_all add: DayWithinYear_def)

lemma MonthFromDay_spec:
  "MonthFromDay d < 12"
  "month_start (InLeapYear (YearFromDay d)) (MonthFromDay d) \<le> DayWithinYear d"
  "DayWithinYear d < month_start (InLeapYear (YearFromDay d)) (Suc (MonthFromDay d))"
  using month_index_spec [OF DayWithinYear_range(1) [of d], of "InLeapYear (YearFromDay d)"]
    DayWithinYear_range(2) [of d]
  by (simp_all add: MonthFromDay_def month_start_leap_DaysInYear)

lemma DateFromDay_range:
  "1 \<le> DateFromDay d" "DateFromDay d \<le> month_lengths (InLeapYear (YearFromDay d)) ! MonthFromDay d"
  using MonthFromDay_spec [of d] month_start_Suc [of "MonthFromDay d" "InLeapYear (YearFromDay d)"]
  by (simp_all add: DateFromDay_def)

lemma MakeDay_decompose:
  "MakeDay (YearFromDay d) (int (MonthFromDay d)) (DateFromDay d) = d"
  using MonthFromDay_spec(1) [of d]
  by (simp add: MakeDay_def DateFromDay_def DayWithinYear_def)

section \<open>Lemmas: getWeekId\<close>

lemma TimeClip_day: "\<bar>a\<bar> \<le> 100000000 \<Longrightarrow> TimeClip (a * msPerDay) = Some (a * msPerDay)"
  by (simp add: TimeClip_def msPerDay_def abs_mult)

lemma Day_midnight [simp]: "Day (a * msPerDay) = a" "TimeWithinDay (a * msPerDay) = 0"
  by (simp_all add: Day_def TimeWithinDay_def msPerDay_def)

lemma MakeDay_shift: "MakeDay y m (dt + k) = MakeDay y m dt + k"
  by (simp add: MakeDay_def Let_def)

lemma MakeDay_decompose_shift:
  "MakeDay (YearFromDay z) (int (MonthFromDay z)) (DateFromDay z + k) = z + k"
  by (simp only: MakeDay_shift MakeDay_decompose)

lemma setUTCDate_midnight:
  "setUTCDate (z * msPerDay) dt = TimeClip (MakeDay (YearFromDay z) (int (MonthFromDay z)) dt * msPerDay)"
  by (simp add: setUTCDate_def YearFromTime_def getUTCMonth_def MakeDate_def)

lemma MakeDay_Jan1: "MakeDay y 0 1 = DayFromYear y"
  by (simp add: MakeDay_def)

lemma YearFromDay_ge: "a \<le> d \<Longrightarrow> YearFromDay a \<le> YearFromDay d"
  by (rule YearFromDay_mono)

lemma YearFromDay_0: "YearFromDay 0 = 1970" and YearFromDay_neg3: "YearFromDay (-3) = 1969"
proof -
  show "YearFromDay 0 = 1970" using YearFromDay_DayFromYear [of 1970] by simp
  show "YearFromDay (-3) = 1969" by (rule YearFromDay_unique) (simp_all add: DayFromYear_def)
qed

lemma ceil_week: "0 \<le> x \<Longrightarrow> week_no (x * msPerDay) = x div 7 + 1"
proof -
  assume "0 \<le> x"
  have "week_no (x * msPerDay) = - ((- (x + 1)) * msPerDay div (7 * msPerDay))"
    by (simp add: week_no_def ceil_div_def algebra_simps)
  also have "\<dots> = - ((- (x + 1)) div 7)"
    by (simp add: msPerDay_def div_mult_mult2)
  also have "\<dots> = x div 7 + 1"
    using div_succ_diff [of 7 x] by (simp add: zdiv_zminus1_eq_if)
  finally show ?thesis .
qed

lemma WeekDay_range: "0 \<le> WeekDay z" "WeekDay z < 7"
  by (simp_all add: WeekDay_def)

lemma dayNum_eq:
  "(if WeekDay z = 0 then 7 else WeekDay z) = (WeekDay z + 6) mod 7 + 1"
proof (cases "WeekDay z = 0")
  case False
  then have w: "0 \<le> WeekDay z - 1" "WeekDay z - 1 < 7" using WeekDay_range [of z] by simp_all
  have "(WeekDay z + 6) mod 7 = (WeekDay z - 1 + 1 * 7) mod 7" by (simp add: add.commute)
  also have "\<dots> = WeekDay z - 1" using w by (simp only: mod_mult_self1 mod_pos_pos_trivial)
  finally show ?thesis using False by simp
qed simp

lemma getWeekId_eq:
  assumes z: "Day (LocalTime tz t) = z" and lo: "0 \<le> z" and hi: "z \<le> 99999990"
  shows "getWeekId tz t = show_int (YearFromDay (iso_thursday z)) @ ''-W''
      @ show_int ((iso_thursday z - DayFromYear (YearFromDay (iso_thursday z))) div 7 + 1)"
proof -
  define thu where "thu = iso_thursday z"
  define Y where "Y = YearFromDay thu"
  have thu_rng: "z - 3 \<le> thu" "thu \<le> z + 3"
    by (simp_all add: thu_def iso_thursday_def WeekDay_def)
  have yz: "1970 \<le> YearFromDay z" using YearFromDay_mono [OF lo] YearFromDay_0 by simp
  have yY: "1969 \<le> Y" using YearFromDay_mono [of "-3" thu] thu_rng lo YearFromDay_neg3
    by (simp add: Y_def)
  have dY: "DayFromYear Y \<le> thu" "thu - 366 \<le> DayFromYear Y"
    using YearFromDay_bounds [of thu] DayFromYear_step [of Y] DaysInYear_range [of Y]
    by (simp_all add: Y_def)
  have d1: "Date_UTC (getFullYear tz t) (getMonth tz t) (getDate tz t) = Some (z * msPerDay)"
    using yz z lo hi MakeDay_decompose [of z]
    by (simp add: Date_UTC_def getFullYear_def getMonth_def getDate_def YearFromTime_def
        MakeDate_def MakeTime_def TimeClip_day)
  have wd: "getUTCDay (z * msPerDay) = WeekDay z" "getUTCDate (z * msPerDay) = DateFromDay z"
    by (simp_all add: getUTCDay_def getUTCDate_def)
  have d2: "setUTCDate (z * msPerDay) (DateFromDay z + 4 - (if WeekDay z = 0 then 7 else WeekDay z))
      = Some (thu * msPerDay)"
  proof -
    define dn where "dn = (if WeekDay z = 0 then 7 else WeekDay z)"
    have "DateFromDay z + 4 - dn = DateFromDay z + (4 - dn)" by simp
    moreover have "z + (4 - dn) = thu" by (simp add: dn_def dayNum_eq thu_def iso_thursday_def)
    ultimately show ?thesis using thu_rng lo hi
      by (simp only: dn_def [symmetric] setUTCDate_midnight MakeDay_decompose_shift) (simp add: TimeClip_day)
  qed
  have d3: "Date_UTC Y 0 1 = Some (DayFromYear Y * msPerDay)"
    using yY dY thu_rng lo hi
    by (simp add: Date_UTC_def MakeDay_Jan1 MakeDate_def MakeTime_def TimeClip_day)
  have d4: "thu * msPerDay - DayFromYear Y * msPerDay = (thu - DayFromYear Y) * msPerDay"
    by (simp add: algebra_simps)
  have gy: "getUTCFullYear (thu * msPerDay) = Y" by (simp add: getUTCFullYear_def YearFromTime_def Y_def)
  have "getWeekId tz t = show_int Y @ ''-W'' @ show_int (week_no ((thu - DayFromYear Y) * msPerDay))"
    by (simp only: getWeekId_def d1 option.case Let_def wd d2 gy d3 d4)
  then show ?thesis using dY by (simp add: ceil_week Y_def thu_def)
qed

lemma iso_thursday_mod: "iso_thursday z mod 7 = 0"
proof -
  have "(WeekDay z + 6) mod 7 = (z + 3 + 1 * 7) mod 7" by (simp add: WeekDay_def mod_add_left_eq)
  also have "\<dots> = (z + 3) mod 7" by (simp only: mod_mult_self1)
  finally have "(WeekDay z + 6) mod 7 = (z + 3) mod 7" .
  then show ?thesis by (simp add: iso_thursday_def minus_mod_eq_mult_div [symmetric])
qed

lemma iso_thursday_range: "z - 3 \<le> iso_thursday z" "iso_thursday z \<le> z + 3"
  by (simp_all add: iso_thursday_def WeekDay_def)

lemma digits_sep_split:
  assumes "list_all is_digit a" "list_all is_digit b" "\<not> is_digit x" "a @ x # r = b @ x # r'"
  shows "a = b \<and> r = r'"
  using assms
proof (induction a arbitrary: b)
  case Nil then show ?case by (cases b) auto
next
  case (Cons c a) then show ?case by (cases b) auto
qed

lemma show_int_nonneg: "0 \<le> i \<Longrightarrow> show_int i = show_nat (nat i)"
  by (simp add: show_int_def)

lemma week_label_inj:
  assumes "0 \<le> y" "0 \<le> y'" "0 \<le> w" "0 \<le> w'"
    and "show_int y @ ''-W'' @ show_int w = show_int y' @ ''-W'' @ show_int w'"
  shows "y = y' \<and> w = w'"
proof -
  have "\<not> is_digit CHR ''-''" by (simp add: is_digit_def)
  then have "show_nat (nat y) = show_nat (nat y') \<and> show_nat (nat w) = show_nat (nat w')"
    using digits_sep_split [of "show_nat (nat y)" "show_nat (nat y')" "CHR ''-''"
        "CHR ''W'' # show_nat (nat w)" "CHR ''W'' # show_nat (nat w')"] assms
    by (simp add: show_int_nonneg show_nat_digits)
  with assms show ?thesis by (simp add: show_nat_inj nat_eq_iff2)
qed

lemma YearFromDay_near: "YearFromDay (z + 3) \<le> YearFromDay z + 1" "YearFromDay z - 1 \<le> YearFromDay (z - 3)"
proof -
  have a: "DayFromYear (YearFromDay z + 1) + 365 \<le> DayFromYear (YearFromDay z + 2)"
    using DayFromYear_mono [of "YearFromDay z + 1" "YearFromDay z + 2"] by simp
  have "z + 3 < DayFromYear (YearFromDay z + 2)" using a YearFromDay_bounds(2) [of z] by simp
  then show "YearFromDay (z + 3) \<le> YearFromDay z + 1"
    using YearFromDay_bounds(1) [of "z + 3"] DayFromYear_le_iff [of "YearFromDay z + 2" "YearFromDay (z + 3)"]
    by linarith
  have b: "DayFromYear (YearFromDay z - 1) + 365 \<le> DayFromYear (YearFromDay z)"
    using DayFromYear_mono [of "YearFromDay z - 1" "YearFromDay z"] by simp
  then have "DayFromYear (YearFromDay z - 1) \<le> z - 3" using YearFromDay_bounds(1) [of z] by simp
  then show "YearFromDay z - 1 \<le> YearFromDay (z - 3)"
    using YearFromDay_bounds(2) [of "z - 3"] DayFromYear_le_iff [of "YearFromDay (z - 3) + 1" "YearFromDay z - 1"]
    by linarith
qed


section \<open>Properties of the week label\<close>

text \<open>
  C17. \<open>getWeekId\<close> computes the ISO-8601 week of the local calendar date: the
  year of the Thursday of its Monday-to-Sunday week and the number of that week
  counted from the week holding the year's first Thursday (for dates from 1970 to
  the end of the ECMAScript time range).
\<close>

theorem getWeekId_iso:
  assumes "0 \<le> Day (LocalTime tz t)" "Day (LocalTime tz t) \<le> 99999990"
  shows "getWeekId tz t = iso_week_label (Day (LocalTime tz t))"
  using getWeekId_eq [OF refl assms]
  by (simp add: iso_week_label_def iso_week_def iso_week_year_def)

text \<open>
  C18. Two dates get the same week label exactly when their local calendar days fall
  in the same Monday-to-Sunday week (the week's Thursday is the same day): the label
  neither splits a week nor merges two.
\<close>

theorem getWeekId_same_week:
  assumes "0 \<le> Day (LocalTime tz t)" "Day (LocalTime tz t) \<le> 99999990"
    and "0 \<le> Day (LocalTime tz t')" "Day (LocalTime tz t') \<le> 99999990"
  shows "getWeekId tz t = getWeekId tz t' \<longleftrightarrow>
     iso_thursday (Day (LocalTime tz t)) = iso_thursday (Day (LocalTime tz t'))"
proof
  define z z' where "z = Day (LocalTime tz t)" and "z' = Day (LocalTime tz t')"
  define h h' where "h = iso_thursday z" and "h' = iso_thursday z'"
  define Y Y' where "Y = YearFromDay h" and "Y' = YearFromDay h'"
  assume eq: "getWeekId tz t = getWeekId tz t'"
  have a: "0 \<le> z" "z \<le> 99999990" "0 \<le> z'" "z' \<le> 99999990"
    using assms by (simp_all add: z_def z'_def)
  have yY: "1969 \<le> Y" "1969 \<le> Y'"
    using YearFromDay_mono [of "-3" h] YearFromDay_mono [of "-3" h'] YearFromDay_neg3
      iso_thursday_range [of z] iso_thursday_range [of z'] a
    by (simp_all add: Y_def Y'_def h_def h'_def)
  have dY: "DayFromYear Y \<le> h" "DayFromYear Y' \<le> h'"
    using YearFromDay_bounds(1) by (simp_all add: Y_def Y'_def)
  have e1: "getWeekId tz t = show_int Y @ ''-W'' @ show_int ((h - DayFromYear Y) div 7 + 1)"
    using getWeekId_eq [OF z_def [symmetric] a(1,2)] by (simp add: h_def Y_def)
  have e2: "getWeekId tz t' = show_int Y' @ ''-W'' @ show_int ((h' - DayFromYear Y') div 7 + 1)"
    using getWeekId_eq [OF z'_def [symmetric] a(3,4)] by (simp add: h'_def Y'_def)
  have "Y = Y' \<and> (h - DayFromYear Y) div 7 + 1 = (h' - DayFromYear Y') div 7 + 1"
    using eq yY dY unfolding e1 e2
    by (intro week_label_inj) simp_all
  moreover have "(h - DayFromYear Y) mod 7 = (h' - DayFromYear Y) mod 7"
    using iso_thursday_mod [of z] iso_thursday_mod [of z'] unfolding h_def h'_def
    by (simp add: mod_diff_left_eq [symmetric])
  ultimately have "h - DayFromYear Y = h' - DayFromYear Y"
    by (metis add_right_cancel div_mult_mod_eq)
  then show "iso_thursday (Day (LocalTime tz t)) = iso_thursday (Day (LocalTime tz t'))"
    by (simp add: h_def h'_def z_def z'_def)
next
  assume "iso_thursday (Day (LocalTime tz t)) = iso_thursday (Day (LocalTime tz t'))"
  then show "getWeekId tz t = getWeekId tz t'"
    using getWeekId_eq [OF refl assms(1,2)] getWeekId_eq [OF refl assms(3,4)] by simp
qed

text \<open>
  C19. The label is the year, \<open>-W\<close> and a week number from 1 to 53 without
  padding; the year is the local calendar year or its neighbour.
\<close>

theorem getWeekId_shape:
  assumes "0 \<le> Day (LocalTime tz t)" "Day (LocalTime tz t) \<le> 99999990"
  shows "\<exists>y w. getWeekId tz t = show_int y @ ''-W'' @ show_int w \<and> 1 \<le> w \<and> w \<le> 53
     \<and> getFullYear tz t - 1 \<le> y \<and> y \<le> getFullYear tz t + 1"
proof -
  define z where "z = Day (LocalTime tz t)"
  define h where "h = iso_thursday z"
  define Y where "Y = YearFromDay h"
  define w where "w = (h - DayFromYear Y) div 7 + 1"
  have dY: "DayFromYear Y \<le> h" "h < DayFromYear Y + 366"
    using YearFromDay_bounds [of h] DayFromYear_step [of Y] DaysInYear_range [of Y]
    by (simp_all add: Y_def)
  have "0 \<le> (h - DayFromYear Y) div 7" "(h - DayFromYear Y) div 7 \<le> 365 div 7"
    using dY by (simp_all add: zdiv_mono1)
  then have w: "1 \<le> w" "w \<le> 53" by (simp_all add: w_def)
  have "YearFromDay (z - 3) \<le> Y" "Y \<le> YearFromDay (z + 3)"
    unfolding Y_def h_def using iso_thursday_range [of z] by (simp_all only: YearFromDay_mono)
  then have "YearFromDay z - 1 \<le> Y" "Y \<le> YearFromDay z + 1"
    using YearFromDay_near [of z] by simp_all
  moreover have "getFullYear tz t = YearFromDay z"
    by (simp add: getFullYear_def YearFromTime_def z_def)
  moreover have "getWeekId tz t = show_int Y @ ''-W'' @ show_int w"
    using getWeekId_eq [OF z_def [symmetric] assms [folded z_def]]
    by (simp only: Y_def h_def w_def)
  ultimately show ?thesis using w by fastforce
qed



text \<open>Witnesses at concrete inputs.\<close>

theorem getWeekId_iso_witness:
  "0 \<le> Day (LocalTime 0 1735603200000) \<and> Day (LocalTime 0 1735603200000) \<le> 99999990
   \<and> getWeekId 0 1735603200000 = iso_week_label (Day (LocalTime 0 1735603200000))"
  using getWeekId_iso [of 0 1735603200000] by (simp add: Day_def LocalTime_def msPerDay_def)

theorem getWeekId_same_week_witness:
  "0 \<le> Day (LocalTime 0 1735603200000) \<and> Day (LocalTime 0 1735603200000) \<le> 99999990
   \<and> 0 \<le> Day (LocalTime 0 1735776000000) \<and> Day (LocalTime 0 1735776000000) \<le> 99999990
   \<and> (getWeekId 0 1735603200000 = getWeekId 0 1735776000000 \<longleftrightarrow>
       iso_thursday (Day (LocalTime 0 1735603200000)) = iso_thursday (Day (LocalTime 0 1735776000000)))"
  using getWeekId_same_week [of 0 1735603200000 1735776000000]
  by (simp add: Day_def LocalTime_def msPerDay_def)

theorem getWeekId_shape_witness:
  "0 \<le> Day (LocalTime 10800000 1704448800000) \<and> Day (LocalTime 10800000 1704448800000) \<le> 99999990
   \<and> (\<exists>y w. getWeekId 10800000 1704448800000 = show_int y @ ''-W'' @ show_int w \<and> 1 \<le> w \<and> w \<le> 53
     \<and> getFullYear 10800000 1704448800000 - 1 \<le> y \<and> y \<le> getFullYear 10800000 1704448800000 + 1)"
  using getWeekId_shape [of 10800000 1704448800000] by (simp add: Day_def LocalTime_def msPerDay_def)

end
