(* ===== verification/Reports.thy ===== *)
theory Reports
  imports Orders Calendar "HOL-Library.Multiset"
begin

text \<open>
  The report aggregator and the export renderer of \<open>src/unnamed/part_000\<close>: the
  filter of \<open>reportRows\<close> (a valid time, the date range with its end moved to the
  end of the local day, the status filter), the bucket key of each tab (\<open>daily\<close>
  from \<open>toISOString\<close>, \<open>weekly\<close> from \<open>getWeekId\<close>, \<open>monthly\<close> and
  \<open>yearly\<close> from the local calendar), the per-bucket accumulation in a \<open>Map\<close>
  (an association list updated in place), the descending sort by label, and the two
  renderers \<open>exportReportCSV\<close> and \<open>printReport\<close> with their grand total.
  Sales are whole cents, so the sums are exact and \<open>toFixed(2)\<close> prints cents.
\<close>

section \<open>Report state\<close>

datatype report_tab = Daily | Weekly | Monthly | Yearly

datatype report_status = StatusAll | StatusPaid | StatusLoan

record report_stats =
  rs_ordersCount :: int
  rs_itemsCount :: int
  rs_sales :: money
  rs_paid :: int
  rs_loan :: int
  rs_pending :: int

text \<open>\<open>ReportRow\<close>: the label with its statistics.\<close>

type_synonym report_row = "string \<times> report_stats"

definition empty_stats :: report_stats where
  "empty_stats = \<lparr>rs_ordersCount = 0, rs_itemsCount = 0, rs_sales = 0, rs_paid = 0, rs_loan = 0,
     rs_pending = 0\<rparr>"

section \<open>Filtering\<close>

text \<open>\<open>new Date(o.time).getTime()\<close>; an absent time is \<open>NaN\<close>.\<close>

definition order_time :: "int \<Rightarrow> order \<Rightarrow> int option" where
  "order_time tz od = (case o_time od of None \<Rightarrow> None | Some s \<Rightarrow> parse_date tz s)"

text \<open>
  \<open>reportStart ? new Date(reportStart) : null\<close>: the outer \<open>None\<close> is \<open>null\<close>,
  the inner one an invalid date. \<open>end.setHours(23, 59, 59, 999)\<close> moves the end to
  the last millisecond of its local day.
\<close>

definition range_start :: "int \<Rightarrow> string \<Rightarrow> int option option" where
  "range_start tz s = (if s = [] then None else Some (parse_date tz s))"

definition range_end :: "int \<Rightarrow> string \<Rightarrow> int option option" where
  "range_end tz s = (if s = [] then None
     else Some (Option.bind (parse_date tz s) (\<lambda>e. setHours tz e 23 59 59 999)))"

text \<open>A comparison with \<open>NaN\<close> is false, so an invalid bound excludes nothing.\<close>

definition in_report ::
  "int \<Rightarrow> int option option \<Rightarrow> int option option \<Rightarrow> report_status \<Rightarrow> order \<Rightarrow> bool" where
  "in_report tz start endd st od = (case order_time tz od of
       None \<Rightarrow> False
     | Some t \<Rightarrow>
         (case start of Some (Some s) \<Rightarrow> \<not> t < s | _ \<Rightarrow> True)
         \<and> (case endd of Some (Some e) \<Rightarrow> \<not> e < t | _ \<Rightarrow> True)
         \<and> (case st of StatusAll \<Rightarrow> True | StatusPaid \<Rightarrow> o_status od = ''paid''
              | StatusLoan \<Rightarrow> o_status od = ''loan''))"

section \<open>Buckets\<close>

definition report_key :: "int \<Rightarrow> report_tab \<Rightarrow> int \<Rightarrow> string" where
  "report_key tz tab t = (case tab of
       Daily \<Rightarrow> take 10 (toISOString t)
     | Weekly \<Rightarrow> getWeekId tz t
     | Monthly \<Rightarrow> show_int (getFullYear tz t) @ ''-'' @ pad_start 2 CHR ''0'' (show_int (getMonth tz t + 1))
     | Yearly \<Rightarrow> show_int (getFullYear tz t))"

text \<open>One order's contribution to its bucket; exactly one status counter moves.\<close>

definition bump :: "item list \<Rightarrow> order \<Rightarrow> report_stats \<Rightarrow> report_stats" where
  "bump items od cur =
     (let c = cur\<lparr>rs_ordersCount := rs_ordersCount cur + 1,
                  rs_itemsCount := rs_itemsCount cur + item_count od,
                  rs_sales := rs_sales cur + orderTotal items od\<rparr> in
      if o_status od = ''loan'' then c\<lparr>rs_loan := rs_loan c + 1\<rparr>
      else if o_status od = ''paid'' then c\<lparr>rs_paid := rs_paid c + 1\<rparr>
      else c\<lparr>rs_pending := rs_pending c + 1\<rparr>)"

text \<open>The body of \<open>filteredOrders.forEach\<close>: \<open>buckets.get(key) ?? zero\<close>, then \<open>set\<close>.\<close>

definition add_to_bucket ::
  "int \<Rightarrow> report_tab \<Rightarrow> item list \<Rightarrow> report_row list \<Rightarrow> order \<Rightarrow> report_row list" where
  "add_to_bucket tz tab items b od = (case order_time tz od of
       None \<Rightarrow> b
     | Some t \<Rightarrow> aupd (report_key tz tab t) (bump items od) empty_stats b)"

definition buckets ::
  "int \<Rightarrow> report_tab \<Rightarrow> item list \<Rightarrow> order list \<Rightarrow> report_row list" where
  "buckets tz tab items os = foldl (add_to_bucket tz tab items) [] os"

section \<open>Sorting by label, most recent first\<close>

text \<open>
  \<open>.sort(([a], [b]) => (a > b ? -1 : 1))\<close>: the comparator puts the greater label
  first; as an insertion sort with that comparator. On distinct labels every correct
  sorting algorithm gives this one order.
\<close>

fun insort_desc :: "report_row \<Rightarrow> report_row list \<Rightarrow> report_row list" where
  "insort_desc x [] = [x]"
| "insort_desc x (y # ys) = (if fst y < fst x then x # y # ys else y # insort_desc x ys)"

definition sort_desc :: "report_row list \<Rightarrow> report_row list" where
  "sort_desc rs = foldr insort_desc rs []"

definition reportRows ::
  "int \<Rightarrow> item list \<Rightarrow> order list \<Rightarrow> string \<Rightarrow> string \<Rightarrow> report_tab \<Rightarrow> report_status
   \<Rightarrow> report_row list" where
  "reportRows tz items orders reportStart reportEnd reportTab reportStatus =
     (let start = range_start tz reportStart;
          endd = range_end tz reportEnd;
          filtered = filter (in_report tz start endd reportStatus) orders in
      sort_desc (buckets tz reportTab items filtered))"

section \<open>The aggregate the specification asks for\<close>

text \<open>
  The abstract contract of section 4.3: the statistics of a group of orders, and the
  group of an order list that falls under a label.
\<close>

definition stats_of :: "item list \<Rightarrow> order list \<Rightarrow> report_stats" where
  "stats_of items os = \<lparr>rs_ordersCount = int (length os),
     rs_itemsCount = (\<Sum>od\<leftarrow>os. item_count od), rs_sales = (\<Sum>od\<leftarrow>os. orderTotal items od),
     rs_paid = int (length (filter (\<lambda>od. o_status od = ''paid'') os)),
     rs_loan = int (length (filter (\<lambda>od. o_status od = ''loan'') os)),
     rs_pending = int (length (filter (\<lambda>od. o_status od \<noteq> ''paid'' \<and> o_status od \<noteq> ''loan'') os))\<rparr>"

definition key_of :: "int \<Rightarrow> report_tab \<Rightarrow> order \<Rightarrow> string option" where
  "key_of tz tab od = map_option (report_key tz tab) (order_time tz od)"

definition report_group :: "int \<Rightarrow> report_tab \<Rightarrow> order list \<Rightarrow> string \<Rightarrow> order list" where
  "report_group tz tab os l = filter (\<lambda>od. key_of tz tab od = Some l) os"

section \<open>Grand total and rendering\<close>

definition add_stats :: "report_stats \<Rightarrow> report_stats \<Rightarrow> report_stats" where
  "add_stats acc r = \<lparr>rs_ordersCount = rs_ordersCount acc + rs_ordersCount r,
     rs_itemsCount = rs_itemsCount acc + rs_itemsCount r, rs_sales = rs_sales acc + rs_sales r,
     rs_paid = rs_paid acc + rs_paid r, rs_loan = rs_loan acc + rs_loan r,
     rs_pending = rs_pending acc + rs_pending r\<rparr>"

text \<open>The \<open>reportRows.reduce\<close> both renderers compute.\<close>

definition report_total :: "report_row list \<Rightarrow> report_stats" where
  "report_total rows = foldl (\<lambda>acc r. add_stats acc (snd r)) empty_stats rows"

text \<open>\<open>x.toFixed(2)\<close> on an amount of whole cents.\<close>

definition toFixed2 :: "money \<Rightarrow> string" where
  "toFixed2 c = (if c < 0 then ''-'' else '''') @ show_nat (nat \<bar>c\<bar> div 100) @ ''.''
     @ pad_start 2 CHR ''0'' (show_nat (nat \<bar>c\<bar> mod 100))"

definition formatPrice :: "money \<Rightarrow> string" where
  "formatPrice v = ''$'' @ toFixed2 v"

definition csv_header :: "string list" where
  "csv_header = [''Period'', ''Orders'', ''Items'', ''Sales'', ''Paid'', ''Loan'', ''Pending'']"

definition stats_fields :: "report_stats \<Rightarrow> string list" where
  "stats_fields s = [show_int (rs_ordersCount s), show_int (rs_itemsCount s), toFixed2 (rs_sales s),
     show_int (rs_paid s), show_int (rs_loan s), show_int (rs_pending s)]"

definition csv_rows :: "report_row list \<Rightarrow> string list list" where
  "csv_rows rows = map (\<lambda>r. fst r # stats_fields (snd r)) rows @ [''Total'' # stats_fields (report_total rows)]"

text \<open>The text of \<open>reports.csv\<close>; the download through a \<open>Blob\<close> is not modelled.\<close>

definition exportReportCSV :: "report_row list \<Rightarrow> string" where
  "exportReportCSV rows = js_join [CHR 0x0A] (map (js_join '','') (csv_header # csv_rows rows))"

definition td :: "string \<Rightarrow> string" where
  "td s = ''<td>'' @ s @ ''</td>''"

definition print_row :: "report_row \<Rightarrow> string" where
  "print_row r = ''<tr>'' @ td (fst r) @ td (show_int (rs_ordersCount (snd r)))
     @ td (show_int (rs_itemsCount (snd r))) @ td (''$'' @ toFixed2 (rs_sales (snd r)))
     @ td (show_int (rs_paid (snd r))) @ td (show_int (rs_loan (snd r)))
     @ td (show_int (rs_pending (snd r))) @ ''</tr>''"

text \<open>A line break followed by \<open>n\<close> spaces of the template's indentation.\<close>

definition nl :: "nat \<Rightarrow> string" where
  "nl n = CHR 0x0A # replicate n CHR '' ''"

text \<open>An attribute value in double quotes.\<close>

definition dq :: "string \<Rightarrow> string" where
  "dq s = CHR 0x22 # s @ [CHR 0x22]"

text \<open>The document \<open>printReport\<close> writes to the print window.\<close>

definition printReport :: "report_row list \<Rightarrow> string" where
  "printReport rows = (let tableRows = concat (map print_row rows); total = report_total rows in
     nl 6 @ ''<html>'' @ nl 6 @ ''<head><title>Reports</title></head>'' @ nl 6 @ ''<body>''
     @ nl 8 @ ''<h2>Reports</h2>''
     @ nl 8 @ ''<table border='' @ dq ''1'' @ '' cellspacing='' @ dq ''0'' @ '' cellpadding='' @ dq ''6'' @ ''>''
     @ nl 10 @ ''<tr><th>Period</th><th>Orders</th><th>Items</th><th>Sales</th><th>Paid</th><th>Loan</th><th>Pending</th></tr>''
     @ nl 10 @ tableRows
     @ nl 10 @ ''<tr>'' @ td ''<strong>Total</strong>'' @ td (show_int (rs_ordersCount total))
       @ td (show_int (rs_itemsCount total)) @ td (''$'' @ toFixed2 (rs_sales total))
       @ td (show_int (rs_paid total)) @ td (show_int (rs_loan total)) @ td (show_int (rs_pending total))
       @ ''</tr>''
     @ nl 8 @ ''</table>'' @ nl 6 @ ''</body>'' @ nl 6 @ ''</html>'' @ nl 4)"

section \<open>Parsing the CSV back\<close>

text \<open>Splitting a text at every occurrence of a separator, as \<open>s.split(c)\<close> does.\<close>

fun split_on :: "char \<Rightarrow> string \<Rightarrow> string list" where
  "split_on c [] = [[]]"
| "split_on c (x # xs) = (if x = c then [] # split_on c xs
     else (let r = split_on c xs in (x # hd r) # tl r))"

section \<open>Example data\<close>

text \<open>The catalogue and orders of the specification's aggregation example.\<close>

definition spec_items :: "item list" where
  "spec_items = [\<lparr>i_id = ''A'', i_name = Some ''A'', i_price = 500, i_stock = 0\<rparr>,
     \<lparr>i_id = ''B'', i_name = Some ''B'', i_price = 1000, i_stock = 0\<rparr>]"

definition spec_orders :: "order list" where
  "spec_orders = [
     \<lparr>o_id = ''order001'', o_waiterId = Some ''w1'', o_time = Some ''2024-01-05T10:00:00.000Z'',
      o_items = [\<lparr>oi_itemId = ''A'', oi_qty = 2\<rparr>], o_status = ''paid'', o_collector = ''Ali''\<rparr>,
     \<lparr>o_id = ''order002'', o_waiterId = Some ''w1'', o_time = Some ''2024-01-06T10:00:00.000Z'',
      o_items = [\<lparr>oi_itemId = ''B'', oi_qty = 1\<rparr>], o_status = ''loan'', o_collector = ''Ali''\<rparr>]"


section \<open>Lemmas: buckets and sorting\<close>

lemma stats_of_Nil [simp]: "stats_of items [] = empty_stats"
  by (simp add: stats_of_def empty_stats_def)

lemma stats_of_snoc: "stats_of items (os @ [od]) = bump items od (stats_of items os)"
  by (simp add: stats_of_def bump_def Let_def)

lemma add_to_bucket_key:
  "add_to_bucket tz tab items b od = (case key_of tz tab od of None \<Rightarrow> b | Some k \<Rightarrow> aupd k (bump items od) empty_stats b)"
  by (simp add: add_to_bucket_def key_of_def split: option.splits)

lemma buckets_snoc: "buckets tz tab items (os @ [od]) = add_to_bucket tz tab items (buckets tz tab items os) od"
  by (simp add: buckets_def)

lemma report_group_snoc: "report_group tz tab (os @ [od]) l = (if key_of tz tab od = Some l then report_group tz tab os l @ [od] else report_group tz tab os l)"
  by (simp add: report_group_def)

lemma map_of_buckets:
  "map_of (buckets tz tab items os) l =
     (if report_group tz tab os l = [] then None else Some (stats_of items (report_group tz tab os l)))"
proof (induction os rule: rev_induct)
  case Nil then show ?case by (simp add: buckets_def report_group_def)
next
  case (snoc od os)
  show ?case
  proof (cases "key_of tz tab od")
    case None
    then show ?thesis using snoc by (simp add: buckets_snoc add_to_bucket_key report_group_snoc)
  next
    case (Some k)
    then show ?thesis using snoc
      by (auto simp: buckets_snoc add_to_bucket_key report_group_snoc map_of_aupd stats_of_snoc split: if_splits)
  qed
qed

lemma distinct_buckets: "distinct (map fst (buckets tz tab items os))"
proof (induction os rule: rev_induct)
  case Nil then show ?case by (simp add: buckets_def)
next
  case (snoc od os) then show ?case
    by (simp add: buckets_snoc add_to_bucket_key distinct_aupd split: option.splits)
qed

lemma set_insort_desc: "set (insort_desc x ys) = insert x (set ys)"
  by (induction ys) auto

lemma mset_insort_desc: "mset (insort_desc x ys) = add_mset x (mset ys)"
  by (induction ys) auto

lemma sorted_insort_desc:
  "sorted_wrt (\<lambda>a b. fst b < fst a) ys \<Longrightarrow> fst x \<notin> fst ` set ys \<Longrightarrow>
   sorted_wrt (\<lambda>a b. fst b < fst a) (insort_desc x ys)"
proof (induction ys)
  case (Cons y ys)
  show ?case
  proof (cases "fst y < fst x")
    case True
    with Cons.prems show ?thesis by (auto intro: less_trans)
  next
    case False
    with Cons.prems have "fst x < fst y" by (auto simp: neq_iff)
    with False Cons show ?thesis by (auto simp: set_insort_desc)
  qed
qed simp

lemma mset_sort_desc: "mset (sort_desc rs) = mset rs"
  by (induction rs) (simp_all add: sort_desc_def mset_insort_desc)

lemma set_sort_desc: "set (sort_desc rs) = set rs"
  using mset_sort_desc by (metis set_mset_mset)

lemma sort_desc_Cons: "sort_desc (r # rs) = insort_desc r (sort_desc rs)"
  by (simp add: sort_desc_def)

lemma sorted_sort_desc:
  "distinct (map fst rs) \<Longrightarrow> sorted_wrt (\<lambda>a b. fst b < fst a) (sort_desc rs)"
proof (induction rs)
  case (Cons r rs)
  have "fst r \<notin> fst ` set (sort_desc rs)" using Cons.prems by (simp add: set_sort_desc)
  moreover have "sorted_wrt (\<lambda>a b. fst b < fst a) (sort_desc rs)" using Cons by simp
  ultimately show ?case unfolding sort_desc_Cons by (intro sorted_insort_desc)
qed (simp add: sort_desc_def)

lemma key_not_in:
  fixes rs :: "report_row list"
  shows "\<forall>x\<in>set rs. fst x < k \<Longrightarrow> k \<notin> fst ` set rs"
  by force

lemma distinct_sorted_keys:
  fixes rs :: "report_row list"
  shows "sorted_wrt (\<lambda>a b. fst b < fst a) rs \<Longrightarrow> distinct (map fst rs)"
proof (induction rs)
  case (Cons r rs)
  then have "\<forall>x\<in>set rs. fst x < fst r" by simp
  then have "fst r \<notin> fst ` set rs" by (rule key_not_in)
  with Cons show ?case by simp
qed simp

lemma map_of_sort_desc:
  assumes d: "distinct (map fst rs)"
  shows "map_of (sort_desc rs) = map_of rs"
proof -
  have d2: "distinct (map fst (sort_desc rs))" using sorted_sort_desc [OF d] by (rule distinct_sorted_keys)
  show ?thesis by (subst map_of_inject_set [OF d2 d]) (simp add: set_sort_desc)
qed

lemma length_filter_three:
  assumes "\<And>x. \<not> (P x \<and> Q x)"
  shows "length (filter P xs) + length (filter Q xs) + length (filter (\<lambda>x. \<not> P x \<and> \<not> Q x) xs) = length xs"
  using assms by (induction xs) auto

lemma stats_of_I4:
  "rs_paid (stats_of items g) + rs_loan (stats_of items g) + rs_pending (stats_of items g) = rs_ordersCount (stats_of items g)"
proof -
  have "length (filter (\<lambda>od. o_status od = ''paid'') g) + length (filter (\<lambda>od. o_status od = ''loan'') g)
      + length (filter (\<lambda>od. o_status od \<noteq> ''paid'' \<and> o_status od \<noteq> ''loan'') g) = length g"
    by (rule length_filter_three) auto
  then show ?thesis by (simp add: stats_of_def flip: of_nat_add)
qed

lemma map_of_rows:
  "map_of (sort_desc (buckets tz tab items os)) l =
     (if report_group tz tab os l = [] then None else Some (stats_of items (report_group tz tab os l)))"
  by (simp add: map_of_sort_desc distinct_buckets map_of_buckets)

lemma stats_of_mset:
  assumes "mset xs = mset ys"
  shows "stats_of items xs = stats_of items ys"
proof -
  have s: "(\<Sum>od\<leftarrow>xs. f od) = (\<Sum>od\<leftarrow>ys. f od)" for f :: "order \<Rightarrow> int"
    using assms by (metis mset_map sum_mset_sum_list)
  have l: "length (filter P xs) = length (filter P ys)" for P
    using assms by (metis mset_filter size_mset)
  have n: "length xs = length ys" using assms by (metis size_mset)
  show ?thesis by (simp add: stats_of_def s l n)
qed

lemma report_group_mset: "mset xs = mset ys \<Longrightarrow> mset (report_group tz tab xs l) = mset (report_group tz tab ys l)"
  by (simp add: report_group_def)

lemma sorted_desc_unique:
  fixes xs ys :: "report_row list"
  shows "sorted_wrt (\<lambda>a b. fst b < fst a) xs \<Longrightarrow> sorted_wrt (\<lambda>a b. fst b < fst a) ys \<Longrightarrow>
   map_of xs = map_of ys \<Longrightarrow> xs = ys"
proof (induction xs arbitrary: ys)
  case Nil then show ?case by (cases ys) (auto simp: fun_eq_iff split: if_splits)
next
  case (Cons x xs)
  obtain y ys' where ys: "ys = y # ys'"
    using Cons.prems(3) by (cases ys) (auto simp: fun_eq_iff split: if_splits)
  have kx: "\<forall>r\<in>set xs. fst r < fst x" and ky: "\<forall>r\<in>set ys'. fst r < fst y"
    using Cons.prems(1,2) ys by simp_all
  have dom: "fst ` set (x # xs) = fst ` set (y # ys')"
    using Cons.prems(3) ys by (metis dom_map_of_conv_image_fst)
  have "fst x = fst y"
  proof (rule ccontr)
    assume "fst x \<noteq> fst y"
    then have "fst x < fst y \<or> fst y < fst x" by (simp add: neq_iff)
    then show False
    proof (elim disjE)
      assume 1: "fst x < fst y"
      have "fst y \<in> fst ` set (x # xs)" using dom by auto
      with 1 kx show False by (auto simp: image_iff)
    next
      assume 2: "fst y < fst x"
      have "fst x \<in> fst ` set (y # ys')" using dom by auto
      with 2 ky show False by (auto simp: image_iff)
    qed
  qed
  moreover have "snd x = snd y"
    using Cons.prems(3) ys fun_cong [OF Cons.prems(3), of "fst x"] \<open>fst x = fst y\<close> by simp
  ultimately have xy: "x = y" by (simp add: prod_eq_iff)
  have nx: "fst x \<notin> fst ` set xs" using kx by (rule key_not_in)
  have ny: "fst y \<notin> fst ` set ys'" using ky by (rule key_not_in)
  have "map_of xs = (map_of (x # xs))(fst x := None)"
    using nx by (simp add: fun_eq_iff map_of_eq_None_iff)
  also have "\<dots> = (map_of (y # ys'))(fst y := None)" using Cons.prems(3) ys xy by metis
  also have "\<dots> = map_of ys'" using ny by (simp add: fun_eq_iff) (metis map_of_eq_None_iff)
  finally have "xs = ys'" using Cons.IH Cons.prems(1,2) ys by simp
  with xy ys show ?case by simp
qed

text \<open>
  C21. Invariant I4: in every row of the report exactly one of the paid, loan and
  pending counters moved for each order, so they add up to the row's order count.
\<close>

theorem reportRows_I4:
  "\<forall>r \<in> set (reportRows tz items orders s e tab st).
     rs_paid (snd r) + rs_loan (snd r) + rs_pending (snd r) = rs_ordersCount (snd r)"
proof
  fix r assume r: "r \<in> set (reportRows tz items orders s e tab st)"
  define os where "os = filter (in_report tz (range_start tz s) (range_end tz e) st) orders"
  have "r \<in> set (sort_desc (buckets tz tab items os))" using r by (simp add: reportRows_def os_def Let_def)
  moreover have "distinct (map fst (sort_desc (buckets tz tab items os)))"
    using sorted_sort_desc [OF distinct_buckets] by (rule distinct_sorted_keys)
  ultimately have "map_of (sort_desc (buckets tz tab items os)) (fst r) = Some (snd r)" by simp
  then have "snd r = stats_of items (report_group tz tab os (fst r))" by (simp add: map_of_rows split: if_splits)
  then show "rs_paid (snd r) + rs_loan (snd r) + rs_pending (snd r) = rs_ordersCount (snd r)"
    by (simp only: stats_of_I4)
qed

text \<open>
  C22. Refinement of the aggregation contract (specification 4.3): the report has a
  row for a label exactly when some order that passes the filter falls under it, and
  that row holds the statistics of those orders: their count, their items, their
  sales at current prices, and how many are paid, on loan and neither.
\<close>

theorem reportRows_refines:
  "map_of (reportRows tz items orders s e tab st) l =
     (let g = report_group tz tab (filter (in_report tz (range_start tz s) (range_end tz e) st) orders) l in
      if g = [] then None else Some (stats_of items g))"
  by (simp add: reportRows_def Let_def map_of_rows)

text \<open>
  C23. The rows are sorted by label in strictly descending string order; in
  particular no label appears twice.
\<close>

theorem reportRows_sorted:
  "sorted_wrt (\<lambda>a b. b < a) (map fst (reportRows tz items orders s e tab st))"
  using sorted_sort_desc [OF distinct_buckets]
  by (simp add: reportRows_def Let_def sorted_wrt_map)

text \<open>
  C24. The report depends only on which orders there are, not on the order in which
  the store lists them.
\<close>

theorem reportRows_perm:
  assumes "mset orders = mset orders'"
  shows "reportRows tz items orders s e tab st = reportRows tz items orders' s e tab st"
proof -
  define P where "P = in_report tz (range_start tz s) (range_end tz e) st"
  have m: "mset (filter P orders) = mset (filter P orders')" using assms by simp
  have eq: "map_of (sort_desc (buckets tz tab items (filter P orders)))
      = map_of (sort_desc (buckets tz tab items (filter P orders')))"
  proof
    fix l
    have mm: "mset (report_group tz tab (filter P orders) l) = mset (report_group tz tab (filter P orders') l)"
      using m by (rule report_group_mset)
    then have e: "report_group tz tab (filter P orders) l = [] \<longleftrightarrow> report_group tz tab (filter P orders') l = []"
      by (metis mset_zero_iff)
    have st: "stats_of items (report_group tz tab (filter P orders) l)
        = stats_of items (report_group tz tab (filter P orders') l)"
      using mm by (rule stats_of_mset)
    show "map_of (sort_desc (buckets tz tab items (filter P orders))) l
        = map_of (sort_desc (buckets tz tab items (filter P orders'))) l"
      by (simp only: map_of_rows e st)
  qed
  have "sort_desc (buckets tz tab items (filter P orders)) = sort_desc (buckets tz tab items (filter P orders'))"
    using sorted_sort_desc [OF distinct_buckets] sorted_sort_desc [OF distinct_buckets] eq
    by (rule sorted_desc_unique)
  then show ?thesis by (simp only: reportRows_def Let_def P_def [symmetric])
qed

lemma sum_list_aupd:
  fixes h :: "'v \<Rightarrow> 'a::comm_monoid_add"
  assumes "\<And>v. h (f v) = h v + c" "h d = 0"
  shows "(\<Sum>p\<leftarrow>aupd k f d ps. h (snd p)) = (\<Sum>p\<leftarrow>ps. h (snd p)) + c"
  using assms by (induction ps) (simp_all add: add_ac)

lemma foldl_add_stats:
  "foldl (\<lambda>acc r. add_stats acc (snd r)) a rows = add_stats a (foldl (\<lambda>acc r. add_stats acc (snd r)) empty_stats rows)"
proof (induction rows arbitrary: a)
  case (Cons r rows)
  have "add_stats empty_stats (snd r) = snd r" by (simp add: add_stats_def empty_stats_def)
  then show ?case using Cons.IH [of "add_stats a (snd r)"] Cons.IH [of "snd r"]
    by (simp add: add_stats_def add_ac)
qed (simp add: add_stats_def empty_stats_def)

lemma report_total_Cons: "report_total (r # rows) = add_stats (snd r) (report_total rows)"
proof -
  have "add_stats empty_stats (snd r) = snd r" by (simp add: add_stats_def empty_stats_def)
  then show ?thesis using foldl_add_stats [of "snd r" rows] by (simp add: report_total_def)
qed

lemma report_total_field:
  fixes h :: "report_stats \<Rightarrow> int"
  assumes "\<And>a b. h (add_stats a b) = h a + h b" "h empty_stats = 0"
  shows "h (report_total rows) = (\<Sum>r\<leftarrow>rows. h (snd r))"
proof (induction rows)
  case Nil then show ?case using assms(2) by (simp add: report_total_def)
next
  case (Cons r rows) then show ?case using assms(1) by (simp add: report_total_Cons)
qed

lemma stats_eqI:
  fixes a b :: report_stats
  assumes "rs_ordersCount a = rs_ordersCount b" "rs_itemsCount a = rs_itemsCount b" "rs_sales a = rs_sales b"
    "rs_paid a = rs_paid b" "rs_loan a = rs_loan b" "rs_pending a = rs_pending b"
  shows "a = b"
  using assms by (cases a, cases b) simp

lemmas stats_field_simps = add_stats_def empty_stats_def

lemma sum_list_mset_eq:
  fixes f :: "'a \<Rightarrow> 'b::comm_monoid_add"
  shows "mset xs = mset ys \<Longrightarrow> sum_list (map f xs) = sum_list (map f ys)"
  by (metis mset_map sum_mset_sum_list)

lemma report_total_mset: "mset rows = mset rows' \<Longrightarrow> report_total rows = report_total rows'"
proof -
  assume m: "mset rows = mset rows'"
  have s: "(\<Sum>r\<leftarrow>rows. f (snd r)) = (\<Sum>r\<leftarrow>rows'. f (snd r))" for f :: "report_stats \<Rightarrow> int"
    using m by (rule sum_list_mset_eq)
  have h: "h (report_total rows) = h (report_total rows')"
    if "\<And>a b. h (add_stats a b) = h a + h b" "h empty_stats = 0" for h :: "report_stats \<Rightarrow> int"
    using report_total_field [OF that, of rows] report_total_field [OF that, of rows'] s [of h] by simp
  show ?thesis by (intro stats_eqI; rule h; simp add: stats_field_simps)
qed

lemma bump_fields:
  "rs_ordersCount (bump items od v) = rs_ordersCount v + rs_ordersCount (stats_of items [od])"
  "rs_itemsCount (bump items od v) = rs_itemsCount v + rs_itemsCount (stats_of items [od])"
  "rs_sales (bump items od v) = rs_sales v + rs_sales (stats_of items [od])"
  "rs_paid (bump items od v) = rs_paid v + rs_paid (stats_of items [od])"
  "rs_loan (bump items od v) = rs_loan v + rs_loan (stats_of items [od])"
  "rs_pending (bump items od v) = rs_pending v + rs_pending (stats_of items [od])"
  by (simp_all add: bump_def stats_of_def Let_def)

lemma total_step:
  fixes h :: "report_stats \<Rightarrow> int"
  assumes add: "\<And>a b. h (add_stats a b) = h a + h b" and z: "h empty_stats = 0"
    and bh: "\<And>v. h (bump items od v) = h v + h (stats_of items [od])"
    and IH: "h (report_total b) = h (stats_of items xs)"
  shows "h (report_total (aupd k (bump items od) empty_stats b)) = h (stats_of items (xs @ [od]))"
proof -
  have "h (report_total (aupd k (bump items od) empty_stats b))
      = (\<Sum>p\<leftarrow>aupd k (bump items od) empty_stats b. h (snd p))"
    by (rule report_total_field [OF add z])
  also have "\<dots> = (\<Sum>p\<leftarrow>b. h (snd p)) + h (stats_of items [od])"
    by (rule sum_list_aupd [where h = h, OF bh z])
  also have "(\<Sum>p\<leftarrow>b. h (snd p)) = h (report_total b)"
    by (rule report_total_field [OF add z, symmetric])
  finally show ?thesis by (simp add: IH stats_of_snoc bh)
qed

lemma report_total_buckets:
  "report_total (buckets tz tab items os) = stats_of items (filter (\<lambda>od. key_of tz tab od \<noteq> None) os)"
proof (induction os rule: rev_induct)
  case Nil then show ?case by (simp add: buckets_def report_total_def)
next
  case (snoc od os)
  show ?case
  proof (cases "key_of tz tab od")
    case None
    then show ?thesis using snoc by (simp add: buckets_snoc add_to_bucket_key)
  next
    case (Some k)
    then have "buckets tz tab items (os @ [od]) = aupd k (bump items od) empty_stats (buckets tz tab items os)"
      "filter (\<lambda>od. key_of tz tab od \<noteq> None) (os @ [od]) = filter (\<lambda>od. key_of tz tab od \<noteq> None) os @ [od]"
      by (simp_all add: buckets_snoc add_to_bucket_key)
    then show ?thesis
      by (simp only:) (intro stats_eqI; rule total_step; simp add: stats_field_simps bump_fields snoc)
  qed
qed

lemma in_report_key: "in_report tz s e st od \<Longrightarrow> key_of tz tab od \<noteq> None"
  by (simp add: in_report_def key_of_def split: option.splits)

text \<open>
  C25. The grand total both renderers print is the statistics of all orders that
  pass the report's filter: the sum over the rows loses or counts twice no order.
\<close>

theorem report_total_reportRows:
  "report_total (reportRows tz items orders s e tab st)
     = stats_of items (filter (in_report tz (range_start tz s) (range_end tz e) st) orders)"
proof -
  define os where "os = filter (in_report tz (range_start tz s) (range_end tz e) st) orders"
  have "filter (\<lambda>od. key_of tz tab od \<noteq> None) os = os"
    unfolding os_def filter_filter by (rule filter_cong) (auto dest: in_report_key)
  then show ?thesis
    using report_total_mset [OF mset_sort_desc [of "buckets tz tab items os"]] report_total_buckets [of tz tab items os]
    by (simp add: reportRows_def Let_def os_def [symmetric])
qed

section \<open>Lemmas: the export\<close>

lemma split_on_no_sep: "c \<notin> set a \<Longrightarrow> split_on c a = [a]"
  by (induction a) (auto simp: Let_def)

lemma split_on_sep: "c \<notin> set a \<Longrightarrow> split_on c (a @ c # b) = a # split_on c b"
proof (induction a)
  case (Cons x a)
  then show ?case by (auto simp: Let_def)
qed simp

lemma split_on_js_join:
  "xs \<noteq> [] \<Longrightarrow> \<forall>x \<in> set xs. c \<notin> set x \<Longrightarrow> split_on c (js_join [c] xs) = xs"
  by (induction "[c]" xs rule: js_join.induct) (simp_all add: split_on_no_sep split_on_sep)

lemma set_js_join: "set (js_join sep xs) \<subseteq> set sep \<union> \<Union> (set ` set xs)"
  by (induction sep xs rule: js_join.induct) auto

lemma not_digit_comma_nl: "\<not> is_digit CHR '',''" "\<not> is_digit (CHR 0x0A)"
  by (simp_all add: is_digit_def)

lemma show_nat_no_sep: "c \<notin> set (show_nat n)" if "\<not> is_digit c"
  using show_nat_digits [of n] that by (auto simp: list_all_iff)

lemma show_int_no_sep: "c \<notin> set (show_int i)" if "\<not> is_digit c" "c \<noteq> CHR ''-''"
  using show_nat_no_sep [OF that(1)] that(2) by (simp add: show_int_def)

lemma toFixed2_no_sep: "c \<notin> set (toFixed2 m)" if "\<not> is_digit c" "c \<noteq> CHR ''-''" "c \<noteq> CHR ''.''"
proof -
  have "c \<noteq> CHR ''0''" using that(1) by (auto simp: is_digit_def)
  then show ?thesis using show_nat_no_sep [OF that(1)] that(2,3) by (auto simp: toFixed2_def pad_start_def)
qed

lemma stats_fields_no_sep:
  "\<forall>f \<in> set (stats_fields s). c \<notin> set f" if "\<not> is_digit c" "c \<noteq> CHR ''-''" "c \<noteq> CHR ''.''"
  using show_int_no_sep [OF that(1,2)] toFixed2_no_sep [OF that] by (simp add: stats_fields_def)

text \<open>
  C26. Round trip of the export (specification 4.4): splitting \<open>reports.csv\<close> at
  line breaks and then at commas gives back the header, one line per row with its
  label and numbers, and the total line, provided no label holds a comma or a line
  break.
\<close>

theorem exportReportCSV_roundtrip:
  assumes "\<forall>r \<in> set rows. CHR '','' \<notin> set (fst r) \<and> CHR 0x0A \<notin> set (fst r)"
  shows "map (split_on CHR '','') (split_on (CHR 0x0A) (exportReportCSV rows)) = csv_header # csv_rows rows"
proof -
  define ls where "ls = csv_header # csv_rows rows"
  have comma: "\<forall>l \<in> set ls. \<forall>f \<in> set l. CHR '','' \<notin> set f"
    and nl: "\<forall>l \<in> set ls. \<forall>f \<in> set l. CHR 0x0A \<notin> set f"
    using assms stats_fields_no_sep [of "CHR '',''"] stats_fields_no_sep [of "CHR 0x0A"]
    by (auto simp: ls_def csv_rows_def csv_header_def not_digit_comma_nl)
  have ne: "\<forall>l \<in> set ls. l \<noteq> []" by (auto simp: ls_def csv_rows_def csv_header_def)
  have lines: "\<forall>x \<in> set (map (js_join '','') ls). CHR 0x0A \<notin> set x"
    using nl set_js_join [of "'',''"] by fastforce
  have "split_on (CHR 0x0A) (exportReportCSV rows) = map (js_join '','') ls"
    using lines by (simp add: exportReportCSV_def ls_def split_on_js_join)
  moreover have "map (split_on CHR '','') (map (js_join '','') ls) = ls"
    using comma ne by (auto intro!: map_idI simp: split_on_js_join)
  ultimately show ?thesis by (simp add: ls_def)
qed




text \<open>Witnesses at concrete inputs.\<close>

theorem reportRows_I4_witness:
  "reportRows 0 spec_items spec_orders '''' '''' Daily StatusAll \<noteq> []
   \<and> rs_paid (snd (hd (reportRows 0 spec_items spec_orders '''' '''' Daily StatusAll)))
     + rs_loan (snd (hd (reportRows 0 spec_items spec_orders '''' '''' Daily StatusAll)))
     + rs_pending (snd (hd (reportRows 0 spec_items spec_orders '''' '''' Daily StatusAll)))
     = rs_ordersCount (snd (hd (reportRows 0 spec_items spec_orders '''' '''' Daily StatusAll)))"
proof -
  have ne: "reportRows 0 spec_items spec_orders '''' '''' Daily StatusAll \<noteq> []" by code_simp
  show ?thesis
    using reportRows_I4 [of 0 spec_items spec_orders "''''" "''''" Daily StatusAll] hd_in_set [OF ne] ne
    by blast
qed

theorem reportRows_perm_witness:
  "mset spec_orders = mset (rev spec_orders)
   \<and> reportRows 0 spec_items spec_orders '''' '''' Daily StatusAll
     = reportRows 0 spec_items (rev spec_orders) '''' '''' Daily StatusAll"
  using reportRows_perm [of spec_orders "rev spec_orders" 0 spec_items "''''" "''''" Daily StatusAll]
  by simp

theorem exportReportCSV_roundtrip_witness:
  "CHR '','' \<notin> set ''2024-01-06'' \<and> CHR 0x0A \<notin> set ''2024-01-06''
   \<and> map (split_on CHR '','') (split_on (CHR 0x0A) (exportReportCSV [(''2024-01-06'', empty_stats)]))
     = csv_header # csv_rows [(''2024-01-06'', empty_stats)]"
  using exportReportCSV_roundtrip [of "[(''2024-01-06'', empty_stats)]"] by simp

end
