(* ===== verification/Views.thy ===== *)
theory Views
  imports Reports Localisation "HOL-Library.Multiset"
begin

text \<open>
  The values \<open>src/unnamed/part_000\<close> derives from its snapshot for display: the
  dashboard \<open>metrics\<close>, the order list with its search, waiter and status filters and
  its priority sort (\<open>orderListSorted\<close>), the loan totals, the staff and item
  searches, the per-waiter charts and status counts, the log messages and the status
  chip. They write nothing; they decide what a user sees and can act on. Searching
  lower-cases ASCII letters only (\<open>toLowerCase\<close> on the rest of Unicode is not
  modelled).
\<close>

section \<open>String helpers\<close>

definition lower_char :: "char \<Rightarrow> char" where
  "lower_char c = (let n = of_char c :: nat in if 65 \<le> n \<and> n \<le> 90 then char_of (n + 32) else c)"

definition js_lower :: "string \<Rightarrow> string" where
  "js_lower s = map lower_char s"

text \<open>\<open>String.prototype.includes\<close>.\<close>

fun js_includes :: "string \<Rightarrow> string \<Rightarrow> bool" where
  "js_includes [] p = (p = [])"
| "js_includes (c # s) p = (take (length p) (c # s) = p \<or> js_includes s p)"

text \<open>A possibly undefined string in a template literal, and as a property name.\<close>

definition tmpl :: "string option \<Rightarrow> string" where
  "tmpl x = coalesce x ''undefined''"

text \<open>\<open>Array.prototype.filter\<close> with a callback that may throw (\<open>None\<close>).\<close>

fun filter_throwing :: "('a \<Rightarrow> bool option) \<Rightarrow> 'a list \<Rightarrow> 'a list option" where
  "filter_throwing p [] = Some []"
| "filter_throwing p (x # xs) = (case p x of None \<Rightarrow> None
     | Some b \<Rightarrow> map_option (\<lambda>ys. if b then x # ys else ys) (filter_throwing p xs))"

text \<open>
  \<open>Array.prototype.sort\<close> with a comparator returning a number (\<open>NaN\<close> read as
  0), as a stable insertion sort: a later element goes after every element it does not
  compare below. For a consistent comparator this is the one stable order ES requires.
\<close>

fun ins_by :: "('a \<Rightarrow> 'a \<Rightarrow> int) \<Rightarrow> 'a \<Rightarrow> 'a list \<Rightarrow> 'a list" where
  "ins_by cmp x [] = [x]"
| "ins_by cmp x (y # ys) = (if cmp x y < 0 then x # y # ys else y # ins_by cmp x ys)"

definition sort_by :: "('a \<Rightarrow> 'a \<Rightarrow> int) \<Rightarrow> 'a list \<Rightarrow> 'a list" where
  "sort_by cmp xs = foldl (\<lambda>acc x. ins_by cmp x acc) [] xs"

section \<open>Dashboard metrics\<close>

text \<open>A waiter's dashboard counts their own orders only.\<close>

definition metrics_scope :: "user option \<Rightarrow> order list \<Rightarrow> order list" where
  "metrics_scope cur orders = (case cur of
       Some c \<Rightarrow> if u_role c = ''waiter'' then filter (\<lambda>od. o_waiterId od = Some (u_id c)) orders
                 else orders
     | None \<Rightarrow> orders)"

text \<open>\<open>busiestWaiter\<close>: orders per \<open>waiterId\<close>, as an object (an absent id is the
  property \<open>"undefined"\<close>).\<close>

definition count_by_waiter :: "order list \<Rightarrow> (string \<times> int) list" where
  "count_by_waiter os = foldl (\<lambda>acc od. aupd (tmpl (o_waiterId od)) (\<lambda>n. n + 1) 0 acc) [] os"

text \<open>
  \<open>Object.entries\<close> lists the array-index keys (canonical decimals below
  \<open>2^32 - 1\<close>) first, in ascending order, then the other keys in insertion order.
\<close>

definition is_array_index :: "string \<Rightarrow> bool" where
  "is_array_index k = (case parse_nat k of None \<Rightarrow> False | Some n \<Rightarrow> show_nat n = k \<and> n < 4294967295)"

definition obj_entries :: "(string \<times> 'v) list \<Rightarrow> (string \<times> 'v) list" where
  "obj_entries ps = sort_key (\<lambda>p. the (parse_nat (fst p))) (filter (\<lambda>p. is_array_index (fst p)) ps)
     @ filter (\<lambda>p. \<not> is_array_index (fst p)) ps"

text \<open>
  The fallback of \<open>topWaiterId\<close> as it is stored in the file: the UTF-8 bytes of an em
  dash decoded once more as Windows-1252 and encoded again.
\<close>

definition dash_000 :: string where
  "dash_000 = map char_of [0xC3, 0xA2, 0xE2, 0x82, 0xAC, 0xE2, 0x80, 0x9D :: nat]"

text \<open>\<open>Object.entries(busiestWaiter).sort((a, b) => b[1] - a[1])[0]?.[0] ?? dflt\<close>.\<close>

definition topWaiterId :: "string \<Rightarrow> order list \<Rightarrow> string" where
  "topWaiterId dflt os = (case sort_key (\<lambda>p. - snd p) (obj_entries (count_by_waiter os)) of
       [] \<Rightarrow> dflt
     | p # _ \<Rightarrow> fst p)"

text \<open>The metrics object; \<open>lowStock\<close> is the constant empty list and is left out.\<close>

record dash_metrics =
  mt_totalOrders :: int
  mt_totalItems :: int
  mt_topWaiterId :: string
  mt_totalSales :: money
  mt_staffCount :: int

definition metrics :: "user option \<Rightarrow> user list \<Rightarrow> item list \<Rightarrow> order list \<Rightarrow> dash_metrics" where
  "metrics cur users items orders = (let sc = metrics_scope cur orders in
     \<lparr>mt_totalOrders = int (length sc), mt_totalItems = foldl (\<lambda>s od. s + item_count od) 0 sc,
      mt_topWaiterId = topWaiterId dash_000 sc,
      mt_totalSales = foldl (\<lambda>s od. s + orderTotal items od) 0 sc,
      mt_staffCount = int (length (filter (\<lambda>u. u_role u \<noteq> ''admin'') users))\<rparr>)"

section \<open>The order list\<close>

text \<open>\<open>orderTitle\<close>: the first item's name and the id, or the id alone when that name
  is missing or empty.\<close>

definition orderTitle :: "item list \<Rightarrow> order \<Rightarrow> string" where
  "orderTitle items od =
     (let name = (case o_items od of [] \<Rightarrow> Some [] | e # _ \<Rightarrow> Option.bind (itemsById items (oi_itemId e)) i_name) in
      case name of Some n \<Rightarrow> if n = [] then o_id od else n @ '' - '' @ o_id od | None \<Rightarrow> o_id od)"

definition orderPriority :: "order \<Rightarrow> int" where
  "orderPriority od = (if o_status od = [] \<or> o_status od = ''pending'' then 2
     else if o_status od = ''loan'' then 1 else 0)"

definition draftTotal :: "item list \<Rightarrow> draft \<Rightarrow> money" where
  "draftTotal items d = foldl (\<lambda>s p. s + snd p * price_of items (fst p)) 0 d"

text \<open>The text searched: the id and the waiter's name, lower-cased.\<close>

definition order_text :: "user list \<Rightarrow> order \<Rightarrow> string" where
  "order_text users od = js_lower (o_id od @ '' ''
     @ coalesce (Option.bind (usersById users (tmpl (o_waiterId od))) u_name) '''')"

definition ordersFiltered :: "user list \<Rightarrow> string \<Rightarrow> string \<Rightarrow> order list \<Rightarrow> order list" where
  "ordersFiltered users orderWaiterFilter search orders = filter (\<lambda>od.
     (orderWaiterFilter = ''all'' \<or> o_waiterId od = Some orderWaiterFilter)
     \<and> js_includes (order_text users od) (js_lower (js_trim search))) orders"

datatype order_filter = FilterAll | FilterActive | FilterDone | FilterPaid | FilterLoan

definition activeOrders :: "order list \<Rightarrow> order list" where
  "activeOrders os = filter (\<lambda>od. o_status od = [] \<or> o_status od = ''pending'') os"

definition paidOrders :: "order list \<Rightarrow> order list" where
  "paidOrders os = filter (\<lambda>od. o_status od = ''paid'') os"

definition loanOrders :: "order list \<Rightarrow> order list" where
  "loanOrders os = filter (\<lambda>od. o_status od = ''loan'') os"

definition doneOrders :: "order list \<Rightarrow> order list" where
  "doneOrders os = paidOrders os @ loanOrders os"

definition orderList :: "order_filter \<Rightarrow> order list \<Rightarrow> order list" where
  "orderList f os = (case f of FilterAll \<Rightarrow> os | FilterActive \<Rightarrow> activeOrders os
     | FilterDone \<Rightarrow> doneOrders os | FilterPaid \<Rightarrow> paidOrders os | FilterLoan \<Rightarrow> loanOrders os)"

text \<open>The comparator of \<open>orderListSorted\<close>: higher priority first, then newer first.\<close>

definition order_cmp :: "int \<Rightarrow> order \<Rightarrow> order \<Rightarrow> int" where
  "order_cmp tz a b = (let pa = orderPriority a; pb = orderPriority b in
     if pa \<noteq> pb then pb - pa
     else (case (order_time tz b, order_time tz a) of (Some tb, Some ta) \<Rightarrow> tb - ta | _ \<Rightarrow> 0))"

definition orderListSorted :: "int \<Rightarrow> order list \<Rightarrow> order list" where
  "orderListSorted tz os = sort_by (order_cmp tz) os"

text \<open>\<open>loanTotals\<close> over the loan orders of the filtered list: their number and sum.\<close>

definition loanTotals :: "item list \<Rightarrow> order list \<Rightarrow> int \<times> money" where
  "loanTotals items os = (int (length (loanOrders os)),
     foldl (\<lambda>s od. s + orderTotal items od) 0 (loanOrders os))"

section \<open>Staff and item searches\<close>

definition staffFiltered :: "string \<Rightarrow> user list \<Rightarrow> user list" where
  "staffFiltered waiterSearch users = filter (\<lambda>u.
     js_includes (js_lower (tmpl (u_name u) @ '' '' @ tmpl (u_phone u))) (js_lower (js_trim waiterSearch)))
     users"

text \<open>\<open>item.name.toLowerCase()\<close> throws on an item stored without a name.\<close>

definition itemsFiltered :: "string \<Rightarrow> item list \<Rightarrow> item list option" where
  "itemsFiltered itemManageSearch items = filter_throwing (\<lambda>i.
     map_option (\<lambda>n. js_includes (js_lower n) (js_lower (js_trim itemManageSearch))) (i_name i)) items"

section \<open>Charts\<close>

record waiter_chart =
  wc_waiter :: user
  wc_orders :: int
  wc_loan :: int
  wc_paid :: int

definition chart_of :: "order list \<Rightarrow> user \<Rightarrow> waiter_chart" where
  "chart_of orders w = (let l = filter (\<lambda>od. o_waiterId od = Some (u_id w)) orders in
     \<lparr>wc_waiter = w, wc_orders = int (length l),
      wc_loan = int (length (filter (\<lambda>od. o_status od = ''loan'') l)),
      wc_paid = int (length (filter (\<lambda>od. o_status od \<noteq> ''loan'') l))\<rparr>)"

definition waiterCharts :: "user list \<Rightarrow> order list \<Rightarrow> waiter_chart list" where
  "waiterCharts users orders = map (chart_of orders) (filter (\<lambda>u. u_role u = ''waiter'') users)"

record status_stats =
  st_paid :: int
  st_loan :: int
  st_pending :: int
  st_total :: int

definition status_stats_of :: "order list \<Rightarrow> status_stats" where
  "status_stats_of os = \<lparr>st_paid = int (length (paidOrders os)), st_loan = int (length (loanOrders os)),
     st_pending = int (length (activeOrders os)), st_total = int (length os)\<rparr>"

text \<open>\<open>waiterStatusStats\<close>: the doughnut shown to every user who is not an admin.\<close>

definition waiterStatusStats :: "order list \<Rightarrow> status_stats" where
  "waiterStatusStats orders = status_stats_of orders"

section \<open>Activity log and status chip\<close>

record log_entry =
  lg_userId :: string
  lg_time :: string
  lg_type :: string
  lg_detail :: "string option"

definition renderLogMessage :: "user list \<Rightarrow> log_entry \<Rightarrow> string" where
  "renderLogMessage users lg =
     (let actor = coalesce (Option.bind (usersById users (lg_userId lg)) u_name) (lg_userId lg);
          d = coalesce (lg_detail lg) ''''; t = lg_type lg in
      if t = ''login'' then actor @ '' login''
      else if t = ''waiter_add'' then js_trim (actor @ '' added staff '' @ d)
      else if t = ''waiter_update'' then js_trim (actor @ '' updated staff '' @ d)
      else if t = ''waiter_reset_pin'' then js_trim (actor @ '' reset staff PIN '' @ d)
      else if t = ''waiter_delete'' then js_trim (actor @ '' deleted staff '' @ d)
      else if t = ''item_add'' then js_trim (actor @ '' added item '' @ d)
      else if t = ''item_update'' then js_trim (actor @ '' updated item '' @ d)
      else if t = ''item_delete'' then js_trim (actor @ '' deleted item '' @ d)
      else actor @ '' '' @ t)"

definition statusLabel :: "lang \<Rightarrow> string \<Rightarrow> string \<times> string" where
  "statusLabel l st = (if st = [] \<or> st = ''pending'' then (tr l ''statusActive'', ''pending'')
     else (tr l ''statusDone'', ''done''))"

section \<open>Loan customer searches\<close>

text \<open>\<open>loanCustomersFiltered\<close> (the loan book) and \<open>loanCustomersModalFiltered\<close>
  (the loan dialog): the same filter on the name and phone, each with its own search box.\<close>

definition loanCustomersFiltered :: "string \<Rightarrow> loan_customer list \<Rightarrow> loan_customer list" where
  "loanCustomersFiltered q cs = filter (\<lambda>c.
     js_includes (js_lower (tmpl (lc_name c) @ '' '' @ tmpl (lc_phone c))) (js_lower (js_trim q))) cs"

section \<open>Examples\<close>

definition ex_waiter :: user where
  "ex_waiter = \<lparr>u_id = ''A'', u_dbId = Some ''kA'', u_name = Some ''Ali'', u_role = ''waiter'',
     u_phone = Some ''61234'', u_pin = Some ''4321''\<rparr>"

definition ex_order :: "string \<Rightarrow> string \<Rightarrow> string \<Rightarrow> order" where
  "ex_order oid w st = \<lparr>o_id = oid, o_waiterId = Some w, o_time = Some ''2024-01-05T10:00:00.000Z'',
     o_items = [], o_status = st, o_collector = ''''\<rparr>"

section \<open>Lemmas\<close>

lemma set_ins_by [simp]: "set (ins_by cmp x ys) = insert x (set ys)"
  by (induction ys) auto

lemma mset_ins_by [simp]: "mset (ins_by cmp x ys) = add_mset x (mset ys)"
  by (induction ys) auto

lemma mset_sort_by_aux: "mset (foldl (\<lambda>acc x. ins_by cmp x acc) acc xs) = mset acc + mset xs"
  by (induction xs arbitrary: acc) auto

lemma mset_sort_by [simp]: "mset (sort_by cmp xs) = mset xs"
  by (simp add: sort_by_def mset_sort_by_aux)

text \<open>
  A comparator that decides by a priority whenever the priorities differ keeps the
  list sorted by that priority, whatever it does on equal priorities.
\<close>

lemma ins_by_sorted:
  fixes pr :: "'a \<Rightarrow> int"
  assumes cmp: "\<And>a b. pr a \<noteq> pr b \<Longrightarrow> (cmp a b < 0 \<longleftrightarrow> pr b < pr a)"
    and "sorted_wrt (\<lambda>a b. pr b \<le> pr a) ys"
  shows "sorted_wrt (\<lambda>a b. pr b \<le> pr a) (ins_by cmp x ys)"
  using assms(2)
proof (induction ys)
  case (Cons y ys)
  then have y: "\<forall>z \<in> set ys. pr z \<le> pr y" and s: "sorted_wrt (\<lambda>a b. pr b \<le> pr a) ys" by auto
  show ?case
  proof (cases "cmp x y < 0")
    case True
    then have "pr y \<le> pr x" using cmp [of x y] by (cases "pr x = pr y") auto
    then show ?thesis using True y s by auto
  next
    case False
    then have "pr x \<le> pr y" using cmp [of x y] by (cases "pr x = pr y") auto
    then show ?thesis using False y Cons.IH s by auto
  qed
qed simp

lemma sort_by_sorted:
  fixes pr :: "'a \<Rightarrow> int"
  assumes "\<And>a b. pr a \<noteq> pr b \<Longrightarrow> (cmp a b < 0 \<longleftrightarrow> pr b < pr a)"
  shows "sorted_wrt (\<lambda>a b. pr b \<le> pr a) (sort_by cmp xs)"
proof -
  have "sorted_wrt (\<lambda>a b. pr b \<le> pr a) acc \<Longrightarrow>
        sorted_wrt (\<lambda>a b. pr b \<le> pr a) (foldl (\<lambda>acc x. ins_by cmp x acc) acc xs)" for acc
    by (induction xs arbitrary: acc) (simp_all add: ins_by_sorted [OF assms])
  then show ?thesis by (simp add: sort_by_def)
qed

lemma order_cmp_priority: "orderPriority a \<noteq> orderPriority b \<Longrightarrow> (order_cmp tz a b < 0 \<longleftrightarrow> orderPriority b < orderPriority a)"
  by (simp add: order_cmp_def Let_def)

lemma metrics_scope_waiter:
  "u_role w = ''waiter'' \<Longrightarrow> metrics_scope (Some w) orders = filter (\<lambda>od. o_waiterId od = Some (u_id w)) orders"
  by (simp add: metrics_scope_def)

lemma translations_same_keys: "set (map fst TRANSLATIONS_en) = set (map fst TRANSLATIONS_so)"
  by (simp add: TRANSLATIONS_en_def TRANSLATIONS_so_def insert_commute)

lemma translations_distinct: "distinct (map fst TRANSLATIONS_en) \<and> distinct (map fst TRANSLATIONS_so)"
  by (simp add: TRANSLATIONS_en_def TRANSLATIONS_so_def)

text \<open>C40. orderListSorted lists the orders by priority: every active order before every
  loan order before every paid one, whatever their times; and it keeps every order.\<close>

theorem orderListSorted_priority:
  "sorted_wrt (\<lambda>a b. orderPriority b \<le> orderPriority a) (orderListSorted tz os)
   \<and> mset (orderListSorted tz os) = mset os"
  unfolding orderListSorted_def by (simp add: sort_by_sorted order_cmp_priority)

text \<open>C39. A signed-in waiter's status doughnut counts the orders of every waiter: as soon as
  some other waiter has an order, its total exceeds the waiter's own order count the
  dashboard metrics show.\<close>

theorem waiterStatusStats_unscoped:
  assumes "u_role w = ''waiter''" and "od \<in> set orders" and "o_waiterId od \<noteq> Some (u_id w)"
  shows "mt_totalOrders (metrics (Some w) users items orders) < st_total (waiterStatusStats orders)"
  using assms length_filter_less [of od orders "\<lambda>od. o_waiterId od = Some (u_id w)"]
  by (simp add: metrics_def metrics_scope_waiter waiterStatusStats_def status_stats_of_def Let_def)

theorem waiterStatusStats_unscoped_witness:
  "u_role ex_waiter = ''waiter'' \<and> ex_order ''o1'' ''B'' ''paid'' \<in> set [ex_order ''o1'' ''B'' ''paid'']
   \<and> o_waiterId (ex_order ''o1'' ''B'' ''paid'') \<noteq> Some (u_id ex_waiter)
   \<and> mt_totalOrders (metrics (Some ex_waiter) [] [] [ex_order ''o1'' ''B'' ''paid''])
     < st_total (waiterStatusStats [ex_order ''o1'' ''B'' ''paid''])"
  using waiterStatusStats_unscoped [of ex_waiter "ex_order ''o1'' ''B'' ''paid''" "[ex_order ''o1'' ''B'' ''paid'']"]
  by (simp add: ex_waiter_def ex_order_def)

end
