(* ===== verification/Revision2.thy ===== *)
theory Revision2
  imports Views Staff
begin

text \<open>
  The second revision of the client kept in \<open>src/src/App.tsx\<close> (its lines 1 to 1755):
  roles admin and waiter only, orders with a \<open>pending\<close> status and a collector, no
  loan customers, no stock, no order numbers. Its client records are those of the
  current client (\<open>Store\<close>) with \<open>dbId\<close> absent and the stock 0. The definitions
  follow the file's order and carry the suffix \<open>_v2\<close>. The lemmas show where this
  revision differs from the current one: an order's id is its store key, so a status
  change reaches the stored order; the report has no guard against an order without a
  valid time, and the daily report then throws; on valid times it is the current report
  with every status.
\<close>

section \<open>Reading the store\<close>

text \<open>\<open>({ id, ...user })\<close>: a stored \<open>id\<close> field wins over the key; an absent role
  stays undefined, which no comparison with \<open>'admin'\<close> or \<open>'waiter'\<close> matches.\<close>

definition read_user_v2 :: "key \<times> stored_user \<Rightarrow> user" where
  "read_user_v2 p = (case p of (k, u) \<Rightarrow>
     \<lparr>u_id = coalesce (su_id u) k, u_dbId = None, u_name = su_name u,
      u_role = tmpl (su_role u), u_phone = su_phone u, u_pin = su_pin u\<rparr>)"

text \<open>The rest of the users handler: preset the first waiter for new orders, and sign
  out a user whose account has gone.\<close>

definition users_effect_v2 :: "user list \<Rightarrow> string \<Rightarrow> user option \<Rightarrow> string \<times> user option" where
  "users_effect_v2 list draftWaiter cur =
     (if draftWaiter = [] then (case find (\<lambda>u. u_role u = ''waiter'') list of
                                  Some f \<Rightarrow> u_id f | None \<Rightarrow> draftWaiter)
      else draftWaiter,
      case cur of None \<Rightarrow> None
      | Some c \<Rightarrow> if find (\<lambda>u. u_id u = u_id c) list = None then None else cur)"

definition read_item_v2 :: "key \<times> stored_item \<Rightarrow> item" where
  "read_item_v2 p = (case p of (k, i) \<Rightarrow>
     \<lparr>i_id = k, i_name = si_name i, i_price = coalesce (si_price i) 0, i_stock = 0\<rparr>)"

definition read_order_v2 :: "key \<times> stored_order \<Rightarrow> order" where
  "read_order_v2 p = (case p of (k, so) \<Rightarrow>
     \<lparr>o_id = coalesce (so_id so) k,
      o_waiterId = (case so_waiterId so of None \<Rightarrow> so_waiter_id so | Some w \<Rightarrow> Some w),
      o_time = so_time so,
      o_items = map (\<lambda>(i, q). \<lparr>oi_itemId = i, oi_qty = coalesce q 0\<rparr>) (so_items so),
      o_status = coalesce (so_status so) ''pending'',
      o_collector = coalesce (so_collector so) ''''\<rparr>)"

section \<open>Dashboard\<close>

record dash_metrics_v2 =
  m2_totalOrders :: int
  m2_totalItems :: int
  m2_topWaiterId :: string
  m2_totalSales :: money
  m2_waiterCount :: int

text \<open>The fallback of \<open>topWaiterId\<close>: an em dash, in UTF-8.\<close>

definition dash_v2 :: string where
  "dash_v2 = map char_of [0xE2, 0x80, 0x94 :: nat]"

definition metrics_v2 :: "user option \<Rightarrow> user list \<Rightarrow> item list \<Rightarrow> order list \<Rightarrow> dash_metrics_v2" where
  "metrics_v2 cur users items orders =
     (let sc = (case cur of
                  Some c \<Rightarrow> if u_role c = ''waiter'' then filter (\<lambda>od. o_waiterId od = Some (u_id c)) orders
                            else orders
                | None \<Rightarrow> orders) in
      \<lparr>m2_totalOrders = int (length sc), m2_totalItems = foldl (\<lambda>s od. s + item_count od) 0 sc,
       m2_topWaiterId = topWaiterId dash_v2 sc,
       m2_totalSales = foldl (\<lambda>s od. s + orderTotal items od) 0 sc,
       m2_waiterCount = int (length (filter (\<lambda>u. u_role u = ''waiter'') users))\<rparr>)"

section \<open>The order list\<close>

definition orderTotal_v2 :: "item list \<Rightarrow> order \<Rightarrow> money" where
  "orderTotal_v2 items od = foldl (\<lambda>s e. s + oi_qty e * price_of items (oi_itemId e)) 0 (o_items od)"

definition orderTitle_v2 :: "item list \<Rightarrow> order \<Rightarrow> string" where
  "orderTitle_v2 items od =
     (let name = (case o_items od of [] \<Rightarrow> Some [] | e # _ \<Rightarrow> Option.bind (itemsById items (oi_itemId e)) i_name) in
      case name of Some n \<Rightarrow> if n = [] then o_id od else n @ '' - '' @ o_id od | None \<Rightarrow> o_id od)"

definition draftTotal_v2 :: "item list \<Rightarrow> draft \<Rightarrow> money" where
  "draftTotal_v2 items d = foldl (\<lambda>s p. s + snd p * price_of items (fst p)) 0 d"

definition scopedOrders_v2 :: "user option \<Rightarrow> order list \<Rightarrow> order list" where
  "scopedOrders_v2 cur orders = (case cur of
       Some c \<Rightarrow> if u_role c = ''waiter'' then filter (\<lambda>od. o_waiterId od = Some (u_id c)) orders
                 else orders
     | None \<Rightarrow> orders)"

definition ordersFiltered_v2 :: "user list \<Rightarrow> string \<Rightarrow> order list \<Rightarrow> order list" where
  "ordersFiltered_v2 users search os =
     filter (\<lambda>od. js_includes (order_text users od) (js_lower (js_trim search))) os"

definition activeOrders_v2 :: "order list \<Rightarrow> order list" where
  "activeOrders_v2 os = filter (\<lambda>od. o_status od = [] \<or> o_status od = ''pending'') os"

definition doneOrders_v2 :: "order list \<Rightarrow> order list" where
  "doneOrders_v2 os = filter (\<lambda>od. o_status od = ''paid'' \<or> o_status od = ''loan'') os"

datatype order_filter_v2 = AllOrders | ActiveOrders | DoneOrders

definition orderList_v2 :: "order_filter_v2 \<Rightarrow> order list \<Rightarrow> order list" where
  "orderList_v2 f os = (case f of AllOrders \<Rightarrow> os | ActiveOrders \<Rightarrow> activeOrders_v2 os
     | DoneOrders \<Rightarrow> doneOrders_v2 os)"

section \<open>Reports\<close>

definition getWeekId_v2 :: "int \<Rightarrow> int \<Rightarrow> string" where
  "getWeekId_v2 tz d =
     (case Date_UTC (getFullYear tz d) (getMonth tz d) (getDate tz d) of
        None \<Rightarrow> ''NaN-WNaN''
      | Some date \<Rightarrow>
          (let dayNum = (if getUTCDay date = 0 then 7 else getUTCDay date) in
           case setUTCDate date (getUTCDate date + 4 - dayNum) of
             None \<Rightarrow> ''NaN-WNaN''
           | Some date' \<Rightarrow>
               (case Date_UTC (getUTCFullYear date') 0 1 of
                  None \<Rightarrow> show_int (getUTCFullYear date') @ ''-WNaN''
                | Some yearStart \<Rightarrow>
                    show_int (getUTCFullYear date') @ ''-W'' @ show_int (week_no (date' - yearStart)))))"

text \<open>
  No order is skipped for its time: a comparison with \<open>NaN\<close> is false, so an order
  without a valid time passes both bounds.
\<close>

definition in_report_v2 :: "int \<Rightarrow> int option option \<Rightarrow> int option option \<Rightarrow> order \<Rightarrow> bool" where
  "in_report_v2 tz start endd od = (case order_time tz od of
       None \<Rightarrow> True
     | Some t \<Rightarrow> (case start of Some (Some s) \<Rightarrow> \<not> t < s | _ \<Rightarrow> True)
                 \<and> (case endd of Some (Some e) \<Rightarrow> \<not> e < t | _ \<Rightarrow> True))"

text \<open>
  The key of an order on an invalid date: \<open>toISOString\<close> throws a \<open>RangeError\<close>
  (\<open>None\<close>), \<open>getWeekId\<close> prints \<open>NaN-WNaN\<close> (\<open>NaN || 7\<close> is 7 and every
  step stays \<open>NaN\<close>), the month and year keys print \<open>NaN\<close>.
\<close>

definition report_key_v2 :: "int \<Rightarrow> report_tab \<Rightarrow> int option \<Rightarrow> string option" where
  "report_key_v2 tz tab t = (case t of
       Some t \<Rightarrow> Some (case tab of
            Daily \<Rightarrow> take 10 (toISOString t)
          | Weekly \<Rightarrow> getWeekId_v2 tz t
          | Monthly \<Rightarrow> show_int (getFullYear tz t) @ ''-'' @ pad_start 2 CHR ''0'' (show_int (getMonth tz t + 1))
          | Yearly \<Rightarrow> show_int (getFullYear tz t))
     | None \<Rightarrow> (case tab of Daily \<Rightarrow> None | Weekly \<Rightarrow> Some ''NaN-WNaN'' | Monthly \<Rightarrow> Some ''NaN-NaN''
                | Yearly \<Rightarrow> Some ''NaN''))"

text \<open>The \<open>forEach\<close> over the filtered orders; \<open>None\<close> when a key throws.\<close>

fun buckets_v2 :: "int \<Rightarrow> report_tab \<Rightarrow> item list \<Rightarrow> report_row list \<Rightarrow> order list \<Rightarrow> report_row list option" where
  "buckets_v2 tz tab items b [] = Some b"
| "buckets_v2 tz tab items b (od # os) = (case report_key_v2 tz tab (order_time tz od) of
       None \<Rightarrow> None
     | Some k \<Rightarrow> buckets_v2 tz tab items (aupd k (bump items od) empty_stats b) os)"

definition reportRows_v2 ::
  "int \<Rightarrow> item list \<Rightarrow> order list \<Rightarrow> string \<Rightarrow> string \<Rightarrow> report_tab \<Rightarrow> report_row list option" where
  "reportRows_v2 tz items orders reportStart reportEnd reportTab =
     (let start = range_start tz reportStart;
          endd = range_end tz reportEnd;
          filtered = filter (in_report_v2 tz start endd) orders in
      map_option sort_desc (buckets_v2 tz reportTab items [] filtered))"

section \<open>Searches, charts and the log\<close>

definition waitersFiltered_v2 :: "string \<Rightarrow> user list \<Rightarrow> user list" where
  "waitersFiltered_v2 waiterSearch users = filter (\<lambda>u.
     js_includes (js_lower (tmpl (u_name u) @ '' '' @ tmpl (u_phone u))) (js_lower (js_trim waiterSearch)))
     (filter (\<lambda>u. u_role u = ''waiter'') users)"

definition itemsFiltered_v2 :: "string \<Rightarrow> item list \<Rightarrow> item list option" where
  "itemsFiltered_v2 itemManageSearch items = filter_throwing (\<lambda>i.
     map_option (\<lambda>n. js_includes (js_lower n) (js_lower (js_trim itemManageSearch))) (i_name i)) items"

definition waiterCharts_v2 :: "user list \<Rightarrow> order list \<Rightarrow> waiter_chart list" where
  "waiterCharts_v2 users orders = map (\<lambda>w.
     (let l = filter (\<lambda>od. o_waiterId od = Some (u_id w)) orders in
      \<lparr>wc_waiter = w, wc_orders = int (length l),
       wc_loan = int (length (filter (\<lambda>od. o_status od = ''loan'') l)),
       wc_paid = int (length (filter (\<lambda>od. o_status od \<noteq> ''loan'') l))\<rparr>))
     (filter (\<lambda>u. u_role u = ''waiter'') users)"

text \<open>In this revision the doughnut of a waiter counts their own orders only.\<close>

definition waiterStatusStats_v2 :: "user option \<Rightarrow> order list \<Rightarrow> status_stats" where
  "waiterStatusStats_v2 cur orders =
     (let scoped = (case cur of
                      Some c \<Rightarrow> if u_role c = ''waiter'' then filter (\<lambda>od. o_waiterId od = Some (u_id c)) orders
                                else orders
                    | None \<Rightarrow> orders) in
      \<lparr>st_paid = int (length (filter (\<lambda>od. o_status od = ''paid'') scoped)),
       st_loan = int (length (filter (\<lambda>od. o_status od = ''loan'') scoped)),
       st_pending = int (length (filter (\<lambda>od. o_status od = [] \<or> o_status od = ''pending'') scoped)),
       st_total = int (length scoped)\<rparr>)"

definition renderLogMessage_v2 :: "user list \<Rightarrow> log_entry \<Rightarrow> string" where
  "renderLogMessage_v2 users lg =
     (let actor = coalesce (Option.bind (usersById users (lg_userId lg)) u_name) (lg_userId lg);
          d = coalesce (lg_detail lg) ''''; t = lg_type lg in
      if t = ''login'' then actor @ '' login''
      else if t = ''waiter_add'' then js_trim (actor @ '' added waiter '' @ d)
      else if t = ''waiter_update'' then js_trim (actor @ '' updated waiter '' @ d)
      else if t = ''waiter_reset_pin'' then js_trim (actor @ '' reset waiter PIN '' @ d)
      else if t = ''waiter_delete'' then js_trim (actor @ '' deleted waiter '' @ d)
      else if t = ''item_add'' then js_trim (actor @ '' added item '' @ d)
      else if t = ''item_update'' then js_trim (actor @ '' updated item '' @ d)
      else if t = ''item_delete'' then js_trim (actor @ '' deleted item '' @ d)
      else actor @ '' '' @ t)"

section \<open>Export and print\<close>

definition exportReportCSV_v2 :: "report_row list \<Rightarrow> string" where
  "exportReportCSV_v2 rows = js_join [CHR 0x0A] (map (js_join '','') (csv_header #
     map (\<lambda>r. fst r # stats_fields (snd r)) rows @ [''Total'' # stats_fields (report_total rows)]))"

definition printReport_v2 :: "report_row list \<Rightarrow> string" where
  "printReport_v2 rows = (let tableRows = concat (map print_row rows); total = report_total rows in
     nl 6 @ ''<html>'' @ nl 6 @ ''<head><title>Reports</title></head>'' @ nl 6 @ ''<body>''
     @ nl 8 @ ''<h2>Reports</h2>''
     @ nl 8 @ ''<table border='' @ dq ''1'' @ '' cellspacing='' @ dq ''0'' @ '' cellpadding='' @ dq ''6'' @ ''>''
     @ nl 10 @ ''<tr><th>Period</th><th>Orders</th><th>Items</th><th>Sales</th><th>Paid</th><th>Loan</th><th>Pending</th></tr>''
     @ nl 10 @ tableRows
     @ nl 10 @ ''<tr>'' @ td ''<strong>Total</strong>'' @ td (show_int (rs_ordersCount total))
       @ td (show_int (rs_itemsCount total)) @ td (''$'' @ toFixed2 (rs_sales total))
       @ td (show_int (rs_paid total)) @ td (show_int (rs_loan total)) @ td (show_int (rs_pending total))
       @ ''</tr>''
     @ nl 8 @ ''</table>'' @ nl 6 @ ''</body>'' @ nl 6 @ ''</html>'' @ nl 4)"

section \<open>Handlers\<close>

text \<open>The one write of this revision that the current client does not issue:
  \<open>update(items/id, {name, price})\<close>; and \<open>update(orders/id, {status})\<close> of the first
  revision.\<close>

datatype rev_write = UpdateItemNamePrice key string money | UpdateStatusOnly key string

fun apply_rev_write :: "db \<Rightarrow> rev_write \<Rightarrow> db" where
  "apply_rev_write s (UpdateItemNamePrice k n p) =
     s\<lparr>db_items := aupd k (\<lambda>i. i\<lparr>si_name := Some n, si_price := Some p\<rparr>) no_item (db_items s)\<rparr>"
| "apply_rev_write s (UpdateStatusOnly k st) =
     s\<lparr>db_orders := aupd k (\<lambda>so. so\<lparr>so_status := Some st\<rparr>) no_order (db_orders s)\<rparr>"

definition updateDraftQty_v2 :: "draft \<Rightarrow> key \<Rightarrow> int \<Rightarrow> draft" where
  "updateDraftQty_v2 d itemId qty =
     (if qty \<le> 0 then filter (\<lambda>p. fst p \<noteq> itemId) d else aset itemId qty d)"

text \<open>
  \<open>handleCreateOrder\<close>: the order's id is \<open>orderRef.key\<close>, the key \<open>push\<close> returns
  (\<open>k\<close>, never null for a child of a path); \<open>now\<close> is the ISO time of submission.
\<close>

definition handleCreateOrder_v2 :: "string \<Rightarrow> draft \<Rightarrow> key \<Rightarrow> string \<Rightarrow> error + store_write list" where
  "handleCreateOrder_v2 draftWaiter d k now =
     (let selected = selected_items d in
      if draftWaiter = [] then Inl (ValidationError ''Pick a waiter to assign the order.'')
      else if selected = [] then Inl (ValidationError ''Add at least one item before submitting.'')
      else Inr [SetOrder k
        \<lparr>so_id = Some k, so_waiterId = None, so_waiter_id = Some draftWaiter,
         so_time = Some now, so_status = Some ''pending'', so_collector = Some '''',
         so_items = items_map selected\<rparr>])"

definition addWaiter_v2 :: "string \<Rightarrow> string \<Rightarrow> key \<Rightarrow> nat \<Rightarrow> error + staff_write list" where
  "addWaiter_v2 name phone k now =
     (if js_trim name = [] \<or> js_trim phone = []
      then Inl (ValidationError ''Fill name and phone for the new waiter.'')
      else Inr [PushUser k \<lparr>su_id = Some (''waiter-'' @ show_nat now), su_name = Some (js_trim name),
                 su_role = Some ''waiter'', su_phone = Some (js_trim phone), su_pin = Some ''4321''\<rparr>])"

definition addItem_v2 :: "string \<Rightarrow> money option \<Rightarrow> key \<Rightarrow> error + staff_write list" where
  "addItem_v2 name price k =
     (if js_trim name = [] then Inl (ValidationError ''Provide an item name.'')
      else (case price of
              None \<Rightarrow> Inl (ValidationError ''Provide a valid price above 0.'')
            | Some p \<Rightarrow>
                if p \<le> 0 then Inl (ValidationError ''Provide a valid price above 0.'')
                else Inr [PushItem k \<lparr>si_name = Some (js_trim name), si_price = Some p, si_stock = None\<rparr>]))"

text \<open>\<open>updateItem\<close> on the item of the open action menu; none open, nothing happens.\<close>

definition updateItem_v2 :: "item option \<Rightarrow> string \<Rightarrow> money option \<Rightarrow> error + rev_write list" where
  "updateItem_v2 itemActionItem itemActionName price = (case itemActionItem of
       None \<Rightarrow> Inr []
     | Some it \<Rightarrow>
         (let name = js_trim itemActionName in
          if name = [] then Inl (ValidationError ''Provide an item name.'')
          else (case price of
                  None \<Rightarrow> Inl (ValidationError ''Provide a valid price above 0.'')
                | Some p \<Rightarrow> if p \<le> 0 then Inl (ValidationError ''Provide a valid price above 0.'')
                            else Inr [UpdateItemNamePrice (i_id it) name p])))"

definition deleteItem_v2 :: "key \<Rightarrow> staff_write list" where
  "deleteItem_v2 k = [RemoveItem k]"

text \<open>The staff handlers write \<open>users/<id>\<close> with the client's id: in this revision
  the id of an account is its key unless the node stores an \<open>id\<close> of its own.\<close>

definition resetWaiterPin_v2 :: "string \<Rightarrow> staff_write list" where
  "resetWaiterPin_v2 uid = [UpdateUser uid \<lparr>up_name = None, up_phone = None, up_role = None, up_pin = Some ''0000''\<rparr>]"

definition updateWaiterProfile_v2 :: "string \<Rightarrow> string \<Rightarrow> string \<Rightarrow> error + staff_write list" where
  "updateWaiterProfile_v2 uid name phone =
     (let nextName = js_trim name; nextPhone = js_trim phone in
      if nextName = [] \<or> nextPhone = [] then Inl (ValidationError ''Provide both name and phone.'')
      else Inr [UpdateUser uid \<lparr>up_name = Some nextName, up_phone = Some nextPhone, up_role = None,
                                up_pin = None\<rparr>])"

definition deleteWaiter_v2 :: "user option \<Rightarrow> string \<Rightarrow> error + staff_write list" where
  "deleteWaiter_v2 cur uid =
     (if is_current cur uid then Inl (ValidationError ''Cannot delete the signed-in user.'')
      else Inr [RemoveUser uid])"

text \<open>The status select of an order row calls \<open>updateOrderStatus(order.id, value)\<close>.\<close>

definition updateOrderStatus_v2 :: "user option \<Rightarrow> string \<Rightarrow> status_arg \<Rightarrow> store_write" where
  "updateOrderStatus_v2 cur oid st =
     UpdateOrder oid (status_str st)
       (if st = Paid \<or> st = Loan then coalesce (Option.bind cur u_name) ''Unknown'' else '''')"

definition statusLabel_v2 :: "string \<Rightarrow> string \<times> string" where
  "statusLabel_v2 st = (if st = [] \<or> st = ''pending'' then (''Active'', ''pending'') else (''Done'', ''done''))"

text \<open>\<open>handleLogin\<close>: the same search as the current client (\<open>normalizePhone\<close> and
  the callback are the same code), every user landing on the dashboard.\<close>

definition handleLogin_v2 :: "user list \<Rightarrow> string \<Rightarrow> string \<Rightarrow> int \<Rightarrow> login_error + session" where
  "handleLogin_v2 users authPhone authPin now =
     (if users = [] then Inl (AuthError ''Data is still loading. Try again in a moment.'')
      else (let phone = js_trim authPhone; normalized = normalizePhone phone; pin = js_trim authPin in
        case find_throwing (login_match phone normalized pin) users of
          None \<Rightarrow> Inl LoginCrash
        | Some None \<Rightarrow> Inl (AuthError ''Invalid phone or PIN. Try again.'')
        | Some (Some m) \<Rightarrow> Inr
            \<lparr>ss_user = m, ss_tab = ''dash'',
             ss_draftWaiter = (if u_role m = ''waiter'' then Some (u_id m) else None),
             ss_expiresAt = now + 60 * 60 * 1000,
             ss_banner = ''Welcome, '' @ coalesce (u_name m) ''undefined'' @ ''!''\<rparr>))"

section \<open>Example\<close>

text \<open>An order stored without a time.\<close>

definition ex_untimed :: order where
  "ex_untimed = \<lparr>o_id = ''o1'', o_waiterId = Some ''A'', o_time = None, o_items = [],
     o_status = ''paid'', o_collector = ''''\<rparr>"

section \<open>Lemmas\<close>

lemma getWeekId_v2_eq: "getWeekId_v2 = getWeekId"
  by (intro ext) (simp only: getWeekId_v2_def getWeekId_def)

lemma report_key_v2_Some: "report_key_v2 tz tab (Some t) = Some (report_key tz tab t)"
  by (simp add: report_key_v2_def report_key_def getWeekId_v2_eq split: report_tab.split)

lemma in_report_v2_valid:
  "order_time tz od \<noteq> None \<Longrightarrow> in_report_v2 tz s e od = in_report tz s e StatusAll od"
  by (auto simp: in_report_v2_def in_report_def)

lemma buckets_v2_valid:
  "\<forall>od \<in> set os. order_time tz od \<noteq> None \<Longrightarrow>
   buckets_v2 tz tab items b os = Some (foldl (add_to_bucket tz tab items) b os)"
  by (induction os arbitrary: b) (auto simp: report_key_v2_Some add_to_bucket_def)

lemma buckets_v2_throws:
  "od \<in> set os \<Longrightarrow> report_key_v2 tz tab (order_time tz od) = None \<Longrightarrow> buckets_v2 tz tab items b os = None"
  by (induction os arbitrary: b) (auto split: option.splits)

text \<open>On orders with valid times this revision's report is the current one with the
  status filter at \<open>all\<close>.\<close>

lemma reportRows_v2_refines:
  assumes "\<forall>od \<in> set orders. order_time tz od \<noteq> None"
  shows "reportRows_v2 tz items orders reportStart reportEnd tab =
           Some (reportRows tz items orders reportStart reportEnd tab StatusAll)"
proof -
  let ?s = "range_start tz reportStart" and ?e = "range_end tz reportEnd"
  have f: "filter (in_report_v2 tz ?s ?e) orders = filter (in_report tz ?s ?e StatusAll) orders"
    using assms by (intro filter_cong) (simp_all add: in_report_v2_valid)
  have "\<forall>od \<in> set (filter (in_report tz ?s ?e StatusAll) orders). order_time tz od \<noteq> None"
    using assms by auto
  then show ?thesis
    by (simp add: reportRows_v2_def reportRows_def f buckets_v2_valid buckets_def Let_def)
qed

lemma handleCreateOrder_v2_Inr:
  "handleCreateOrder_v2 w d k now = Inr ws \<Longrightarrow>
   ws = [SetOrder k \<lparr>so_id = Some k, so_waiterId = None, so_waiter_id = Some w,
         so_time = Some now, so_status = Some ''pending'', so_collector = Some '''',
         so_items = items_map (selected_items d)\<rparr>]"
  by (auto simp: handleCreateOrder_v2_def Let_def split: if_splits)

text \<open>
  C37. In this revision the id of a new order is the key it is stored under. After an
  order is created, it is in the list every client reads, its id is its key, and a status
  change made on it from the list (\<open>updateOrderStatus(order.id, ...)\<close>) sets the status
  of that stored order.
\<close>

theorem status_change_reaches_created_order_v2:
  assumes "handleCreateOrder_v2 w d k now = Inr ws"
  shows "\<exists>so. map_of (db_orders (apply_writes s ws)) k = Some so
     \<and> read_order_v2 (k, so) \<in> set (map read_order_v2 (db_orders (apply_writes s ws)))
     \<and> o_id (read_order_v2 (k, so)) = k
     \<and> (\<forall>cur st. map_option so_status (map_of (db_orders (apply_writes (apply_writes s ws)
          [updateOrderStatus_v2 cur (o_id (read_order_v2 (k, so))) st])) k) = Some (Some (status_str st)))"
proof -
  let ?so = "\<lparr>so_id = Some k, so_waiterId = None, so_waiter_id = Some w,
     so_time = Some now, so_status = Some ''pending'', so_collector = Some '''',
     so_items = items_map (selected_items d)\<rparr>"
  have ws: "ws = [SetOrder k ?so]" using assms by (rule handleCreateOrder_v2_Inr)
  have look: "map_of (db_orders (apply_writes s ws)) k = Some ?so"
    by (simp add: ws map_of_aupd)
  have "read_order_v2 (k, ?so) \<in> set (map read_order_v2 (db_orders (apply_writes s ws)))"
    using map_of_SomeD [OF look] by simp
  moreover have "o_id (read_order_v2 (k, ?so)) = k" by (simp add: read_order_v2_def)
  moreover have "map_option so_status (map_of (db_orders (apply_writes (apply_writes s ws)
          [updateOrderStatus_v2 cur k st])) k) = Some (Some (status_str st))" for cur st
    using look by (simp add: updateOrderStatus_v2_def map_of_aupd)
  ultimately show ?thesis using look by auto
qed

text \<open>
  C38. This revision's report has no guard against an order without a valid time: the
  order passes the date filter, and on the daily tab \<open>toISOString\<close> throws on it,
  so the whole report throws, whatever the date range.
\<close>

theorem reportRows_v2_daily_throws:
  assumes "od \<in> set orders" and "order_time tz od = None"
  shows "reportRows_v2 tz items orders reportStart reportEnd Daily = None"
proof -
  let ?f = "filter (in_report_v2 tz (range_start tz reportStart) (range_end tz reportEnd)) orders"
  have "od \<in> set ?f" using assms by (simp add: in_report_v2_def)
  moreover have "report_key_v2 tz Daily (order_time tz od) = None"
    using assms(2) by (simp add: report_key_v2_def)
  ultimately have "buckets_v2 tz Daily items [] ?f = None" by (rule buckets_v2_throws)
  then show ?thesis by (simp add: reportRows_v2_def Let_def)
qed

theorem reportRows_v2_daily_throws_witness:
  "ex_untimed \<in> set [ex_untimed] \<and> order_time 0 ex_untimed = None
   \<and> reportRows_v2 0 [] [ex_untimed] [] [] Daily = None
   \<and> reportRows 0 [] [ex_untimed] [] [] Daily StatusAll = []"
proof -
  have t: "order_time 0 ex_untimed = None" by (simp add: order_time_def ex_untimed_def)
  have "reportRows_v2 0 [] [ex_untimed] [] [] Daily = None"
    using reportRows_v2_daily_throws [of ex_untimed "[ex_untimed]" 0] t by simp
  moreover have "reportRows 0 [] [ex_untimed] [] [] Daily StatusAll = []"
    by (simp add: reportRows_def in_report_def t buckets_def sort_desc_def)
  ultimately show ?thesis using t by simp
qed

theorem status_change_reaches_created_order_v2_witness:
  "\<exists>ws. handleCreateOrder_v2 ''w1'' [(''A'', 2)] ''-k1'' ''2024-01-05T10:00:00.000Z'' = Inr ws
     \<and> (\<exists>so. map_of (db_orders (apply_writes empty_db ws)) ''-k1'' = Some so
        \<and> o_id (read_order_v2 (''-k1'', so)) = ''-k1''
        \<and> map_option so_status (map_of (db_orders (apply_writes (apply_writes empty_db ws)
             [updateOrderStatus_v2 None (o_id (read_order_v2 (''-k1'', so))) Paid])) ''-k1'') = Some (Some ''paid''))"
proof -
  have "\<exists>ws. handleCreateOrder_v2 ''w1'' [(''A'', 2)] ''-k1'' ''2024-01-05T10:00:00.000Z'' = Inr ws"
    by (simp add: handleCreateOrder_v2_def selected_items_def)
  then obtain ws where h: "handleCreateOrder_v2 ''w1'' [(''A'', 2)] ''-k1'' ''2024-01-05T10:00:00.000Z'' = Inr ws"
    by blast
  from status_change_reaches_created_order_v2 [OF h, where s = empty_db] h show ?thesis
    by fastforce
qed

end
