(* ===== verification/Revision1.thy ===== *)
theory Revision1
  imports Revision2
begin

text \<open>
  The first revision of the client kept in \<open>src/src/App.tsx\<close> (its lines 1756 to
  3067): orders are \<open>paid\<close> or \<open>loan\<close> only, a new order is stored as paid, there is no
  collector, no pending count in the reports, no activity log and no session in local
  storage. The definitions follow the file's order and carry the suffix \<open>_v1\<close>; the
  client records are those of the current client with \<open>dbId\<close> absent, the stock 0 and
  the collector empty. The lemmas show that every report row of this revision counts
  each order once as paid or as loan, and that a new order is stored as already paid.
\<close>

section \<open>Reading the store\<close>

definition read_user_v1 :: "key \<times> stored_user \<Rightarrow> user" where
  "read_user_v1 p = (case p of (k, u) \<Rightarrow>
     \<lparr>u_id = coalesce (su_id u) k, u_dbId = None, u_name = su_name u,
      u_role = tmpl (su_role u), u_phone = su_phone u, u_pin = su_pin u\<rparr>)"

definition users_effect_v1 :: "user list \<Rightarrow> string \<Rightarrow> user option \<Rightarrow> string \<times> user option" where
  "users_effect_v1 list draftWaiter cur =
     (if draftWaiter = [] then (case find (\<lambda>u. u_role u = ''waiter'') list of
                                  Some f \<Rightarrow> u_id f | None \<Rightarrow> draftWaiter)
      else draftWaiter,
      case cur of None \<Rightarrow> None
      | Some c \<Rightarrow> if find (\<lambda>u. u_id u = u_id c) list = None then None else cur)"

definition read_item_v1 :: "key \<times> stored_item \<Rightarrow> item" where
  "read_item_v1 p = (case p of (k, i) \<Rightarrow>
     \<lparr>i_id = k, i_name = si_name i, i_price = coalesce (si_price i) 0, i_stock = 0\<rparr>)"

text \<open>An order without a status reads as paid.\<close>

definition read_order_v1 :: "key \<times> stored_order \<Rightarrow> order" where
  "read_order_v1 p = (case p of (k, so) \<Rightarrow>
     \<lparr>o_id = coalesce (so_id so) k,
      o_waiterId = (case so_waiterId so of None \<Rightarrow> so_waiter_id so | Some w \<Rightarrow> Some w),
      o_time = so_time so,
      o_items = map (\<lambda>(i, q). \<lparr>oi_itemId = i, oi_qty = coalesce q 0\<rparr>) (so_items so),
      o_status = coalesce (so_status so) ''paid'',
      o_collector = ''''\<rparr>)"

section \<open>Dashboard and order list\<close>

record dash_metrics_v1 =
  m1_totalOrders :: int
  m1_totalItems :: int
  m1_topWaiterId :: string
  m1_totalSales :: money

definition metrics_v1 :: "user option \<Rightarrow> item list \<Rightarrow> order list \<Rightarrow> dash_metrics_v1" where
  "metrics_v1 cur items orders =
     (let sc = (case cur of
                  Some c \<Rightarrow> if u_role c = ''waiter'' then filter (\<lambda>od. o_waiterId od = Some (u_id c)) orders
                            else orders
                | None \<Rightarrow> orders) in
      \<lparr>m1_totalOrders = int (length sc), m1_totalItems = foldl (\<lambda>s od. s + item_count od) 0 sc,
       m1_topWaiterId = topWaiterId dash_v2 sc,
       m1_totalSales = foldl (\<lambda>s od. s + orderTotal items od) 0 sc\<rparr>)"

definition orderTotal_v1 :: "item list \<Rightarrow> order \<Rightarrow> money" where
  "orderTotal_v1 items od = foldl (\<lambda>s e. s + oi_qty e * price_of items (oi_itemId e)) 0 (o_items od)"

definition draftTotal_v1 :: "item list \<Rightarrow> draft \<Rightarrow> money" where
  "draftTotal_v1 items d = foldl (\<lambda>s p. s + snd p * price_of items (fst p)) 0 d"

definition scopedOrders_v1 :: "user option \<Rightarrow> order list \<Rightarrow> order list" where
  "scopedOrders_v1 cur orders = (case cur of
       Some c \<Rightarrow> if u_role c = ''waiter'' then filter (\<lambda>od. o_waiterId od = Some (u_id c)) orders
                 else orders
     | None \<Rightarrow> orders)"

definition ordersFiltered_v1 :: "user list \<Rightarrow> string \<Rightarrow> order list \<Rightarrow> order list" where
  "ordersFiltered_v1 users search os =
     filter (\<lambda>od. js_includes (order_text users od) (js_lower (js_trim search))) os"

section \<open>Reports\<close>

definition getWeekId_v1 :: "int \<Rightarrow> int \<Rightarrow> string" where
  "getWeekId_v1 tz d =
     (case Date_UTC (getFullYear tz d) (getMonth tz d) (getDate tz d) of
        None \<Rightarrow> ''NaN-WNaN''
      | Some date \<Rightarrow>
          (let dayNum = (if getUTCDay date = 0 then 7 else getUTCDay date) in
           case setUTCDate date (getUTCDate date + 4 - dayNum) of
             None \<Rightarrow> ''NaN-WNaN''
           | Some date' \<Rightarrow>
               (case Date_UTC (getUTCFullYear date') 0 1 of
                  None \<Rightarrow> show_int (getUTCFullYear date') @ ''-WNaN''
                | Some yearStart \<Rightarrow>
                    show_int (getUTCFullYear date') @ ''-W'' @ show_int (week_no (date' - yearStart)))))"

record report_stats_v1 =
  r1_ordersCount :: int
  r1_itemsCount :: int
  r1_sales :: money
  r1_paid :: int
  r1_loan :: int

type_synonym report_row_v1 = "string \<times> report_stats_v1"

definition empty_stats_v1 :: report_stats_v1 where
  "empty_stats_v1 = \<lparr>r1_ordersCount = 0, r1_itemsCount = 0, r1_sales = 0, r1_paid = 0, r1_loan = 0\<rparr>"

text \<open>Every order that is not on loan counts as paid.\<close>

definition bump_v1 :: "item list \<Rightarrow> order \<Rightarrow> report_stats_v1 \<Rightarrow> report_stats_v1" where
  "bump_v1 items od cur =
     (let c = cur\<lparr>r1_ordersCount := r1_ordersCount cur + 1,
                  r1_itemsCount := r1_itemsCount cur + item_count od,
                  r1_sales := r1_sales cur + orderTotal items od\<rparr> in
      if o_status od = ''loan'' then c\<lparr>r1_loan := r1_loan c + 1\<rparr> else c\<lparr>r1_paid := r1_paid c + 1\<rparr>)"

text \<open>The key of an order is that of the second revision (the same code).\<close>

fun buckets_v1 :: "int \<Rightarrow> report_tab \<Rightarrow> item list \<Rightarrow> report_row_v1 list \<Rightarrow> order list \<Rightarrow> report_row_v1 list option" where
  "buckets_v1 tz tab items b [] = Some b"
| "buckets_v1 tz tab items b (od # os) = (case report_key_v2 tz tab (order_time tz od) of
       None \<Rightarrow> None
     | Some k \<Rightarrow> buckets_v1 tz tab items (aupd k (bump_v1 items od) empty_stats_v1 b) os)"

fun insort_desc_v1 :: "report_row_v1 \<Rightarrow> report_row_v1 list \<Rightarrow> report_row_v1 list" where
  "insort_desc_v1 x [] = [x]"
| "insort_desc_v1 x (y # ys) = (if fst y < fst x then x # y # ys else y # insort_desc_v1 x ys)"

definition sort_desc_v1 :: "report_row_v1 list \<Rightarrow> report_row_v1 list" where
  "sort_desc_v1 rs = foldr insort_desc_v1 rs []"

definition reportRows_v1 ::
  "int \<Rightarrow> item list \<Rightarrow> order list \<Rightarrow> string \<Rightarrow> string \<Rightarrow> report_tab \<Rightarrow> report_row_v1 list option" where
  "reportRows_v1 tz items orders reportStart reportEnd reportTab =
     (let start = range_start tz reportStart;
          endd = range_end tz reportEnd;
          filtered = filter (in_report_v2 tz start endd) orders in
      map_option sort_desc_v1 (buckets_v1 tz reportTab items [] filtered))"

section \<open>Searches\<close>

definition waitersFiltered_v1 :: "string \<Rightarrow> user list \<Rightarrow> user list" where
  "waitersFiltered_v1 waiterSearch users = filter (\<lambda>u.
     js_includes (js_lower (tmpl (u_name u) @ '' '' @ tmpl (u_phone u))) (js_lower (js_trim waiterSearch)))
     (filter (\<lambda>u. u_role u = ''waiter'') users)"

definition itemsFiltered_v1 :: "string \<Rightarrow> item list \<Rightarrow> item list option" where
  "itemsFiltered_v1 itemManageSearch items = filter_throwing (\<lambda>i.
     map_option (\<lambda>n. js_includes (js_lower n) (js_lower (js_trim itemManageSearch))) (i_name i)) items"

section \<open>Export and print\<close>

definition add_stats_v1 :: "report_stats_v1 \<Rightarrow> report_stats_v1 \<Rightarrow> report_stats_v1" where
  "add_stats_v1 acc r = \<lparr>r1_ordersCount = r1_ordersCount acc + r1_ordersCount r,
     r1_itemsCount = r1_itemsCount acc + r1_itemsCount r, r1_sales = r1_sales acc + r1_sales r,
     r1_paid = r1_paid acc + r1_paid r, r1_loan = r1_loan acc + r1_loan r\<rparr>"

definition report_total_v1 :: "report_row_v1 list \<Rightarrow> report_stats_v1" where
  "report_total_v1 rows = foldl (\<lambda>acc r. add_stats_v1 acc (snd r)) empty_stats_v1 rows"

definition stats_fields_v1 :: "report_stats_v1 \<Rightarrow> string list" where
  "stats_fields_v1 s = [show_int (r1_ordersCount s), show_int (r1_itemsCount s), toFixed2 (r1_sales s),
     show_int (r1_paid s), show_int (r1_loan s)]"

definition exportReportCSV_v1 :: "report_row_v1 list \<Rightarrow> string" where
  "exportReportCSV_v1 rows = js_join [CHR 0x0A] (map (js_join '','')
     ([''Period'', ''Orders'', ''Items'', ''Sales'', ''Paid'', ''Loan''] #
      map (\<lambda>r. fst r # stats_fields_v1 (snd r)) rows @ [''Total'' # stats_fields_v1 (report_total_v1 rows)]))"

definition print_row_v1 :: "report_row_v1 \<Rightarrow> string" where
  "print_row_v1 r = ''<tr>'' @ td (fst r) @ td (show_int (r1_ordersCount (snd r)))
     @ td (show_int (r1_itemsCount (snd r))) @ td (''$'' @ toFixed2 (r1_sales (snd r)))
     @ td (show_int (r1_paid (snd r))) @ td (show_int (r1_loan (snd r))) @ ''</tr>''"

definition printReport_v1 :: "report_row_v1 list \<Rightarrow> string" where
  "printReport_v1 rows = (let tableRows = concat (map print_row_v1 rows); total = report_total_v1 rows in
     nl 6 @ ''<html>'' @ nl 6 @ ''<head><title>Reports</title></head>'' @ nl 6 @ ''<body>''
     @ nl 8 @ ''<h2>Reports</h2>''
     @ nl 8 @ ''<table border='' @ dq ''1'' @ '' cellspacing='' @ dq ''0'' @ '' cellpadding='' @ dq ''6'' @ ''>''
     @ nl 10 @ ''<tr><th>Period</th><th>Orders</th><th>Items</th><th>Sales</th><th>Paid</th><th>Loan</th></tr>''
     @ nl 10 @ tableRows
     @ nl 10 @ ''<tr>'' @ td ''<strong>Total</strong>'' @ td (show_int (r1_ordersCount total))
       @ td (show_int (r1_itemsCount total)) @ td (''$'' @ toFixed2 (r1_sales total))
       @ td (show_int (r1_paid total)) @ td (show_int (r1_loan total))
       @ ''</tr>''
     @ nl 8 @ ''</table>'' @ nl 6 @ ''</body>'' @ nl 6 @ ''</html>'' @ nl 4)"

section \<open>Handlers\<close>

definition updateDraftQty_v1 :: "draft \<Rightarrow> key \<Rightarrow> int \<Rightarrow> draft" where
  "updateDraftQty_v1 d itemId qty =
     (if qty \<le> 0 then filter (\<lambda>p. fst p \<noteq> itemId) d else aset itemId qty d)"

text \<open>A new order is stored as paid, with no collector field.\<close>

definition handleCreateOrder_v1 :: "string \<Rightarrow> draft \<Rightarrow> key \<Rightarrow> string \<Rightarrow> error + store_write list" where
  "handleCreateOrder_v1 draftWaiter d k now =
     (let selected = selected_items d in
      if draftWaiter = [] then Inl (ValidationError ''Pick a waiter to assign the order.'')
      else if selected = [] then Inl (ValidationError ''Add at least one item before submitting.'')
      else Inr [SetOrder k
        \<lparr>so_id = Some k, so_waiterId = None, so_waiter_id = Some draftWaiter,
         so_time = Some now, so_status = Some ''paid'', so_collector = None,
         so_items = items_map selected\<rparr>])"

definition addWaiter_v1 :: "string \<Rightarrow> string \<Rightarrow> key \<Rightarrow> nat \<Rightarrow> error + staff_write list" where
  "addWaiter_v1 name phone k now =
     (if js_trim name = [] \<or> js_trim phone = []
      then Inl (ValidationError ''Fill name and phone for the new waiter.'')
      else Inr [PushUser k \<lparr>su_id = Some (''waiter-'' @ show_nat now), su_name = Some (js_trim name),
                 su_role = Some ''waiter'', su_phone = Some (js_trim phone), su_pin = Some ''4321''\<rparr>])"

definition addItem_v1 :: "string \<Rightarrow> money option \<Rightarrow> key \<Rightarrow> error + staff_write list" where
  "addItem_v1 name price k =
     (if js_trim name = [] then Inl (ValidationError ''Provide an item name.'')
      else (case price of
              None \<Rightarrow> Inl (ValidationError ''Provide a valid price above 0.'')
            | Some p \<Rightarrow>
                if p \<le> 0 then Inl (ValidationError ''Provide a valid price above 0.'')
                else Inr [PushItem k \<lparr>si_name = Some (js_trim name), si_price = Some p, si_stock = None\<rparr>]))"

definition updateItem_v1 :: "item option \<Rightarrow> string \<Rightarrow> money option \<Rightarrow> error + rev_write list" where
  "updateItem_v1 itemActionItem itemActionName price = (case itemActionItem of
       None \<Rightarrow> Inr []
     | Some it \<Rightarrow>
         (let name = js_trim itemActionName in
          if name = [] then Inl (ValidationError ''Provide an item name.'')
          else (case price of
                  None \<Rightarrow> Inl (ValidationError ''Provide a valid price above 0.'')
                | Some p \<Rightarrow> if p \<le> 0 then Inl (ValidationError ''Provide a valid price above 0.'')
                            else Inr [UpdateItemNamePrice (i_id it) name p])))"

definition deleteItem_v1 :: "key \<Rightarrow> staff_write list" where
  "deleteItem_v1 k = [RemoveItem k]"

definition resetWaiterPin_v1 :: "string \<Rightarrow> staff_write list" where
  "resetWaiterPin_v1 uid = [UpdateUser uid \<lparr>up_name = None, up_phone = None, up_role = None, up_pin = Some ''0000''\<rparr>]"

definition updateWaiterProfile_v1 :: "string \<Rightarrow> string \<Rightarrow> string \<Rightarrow> error + staff_write list" where
  "updateWaiterProfile_v1 uid name phone =
     (let nextName = js_trim name; nextPhone = js_trim phone in
      if nextName = [] \<or> nextPhone = [] then Inl (ValidationError ''Provide both name and phone.'')
      else Inr [UpdateUser uid \<lparr>up_name = Some nextName, up_phone = Some nextPhone, up_role = None,
                                up_pin = None\<rparr>])"

definition deleteWaiter_v1 :: "user option \<Rightarrow> string \<Rightarrow> error + staff_write list" where
  "deleteWaiter_v1 cur uid =
     (if is_current cur uid then Inl (ValidationError ''Cannot delete the signed-in user.'')
      else Inr [RemoveUser uid])"

text \<open>\<open>update(orders/id, { status })\<close>, for \<open>paid\<close> or \<open>loan\<close>.\<close>

definition updateOrderStatus_v1 :: "string \<Rightarrow> status_arg \<Rightarrow> rev_write" where
  "updateOrderStatus_v1 oid st = UpdateStatusOnly oid (status_str st)"

text \<open>The outcome of this revision's \<open>handleLogin\<close>: no session is stored.\<close>

record session_v1 =
  s1_user :: user
  s1_tab :: string
  s1_draftWaiter :: "string option"
  s1_banner :: string

definition handleLogin_v1 :: "user list \<Rightarrow> string \<Rightarrow> string \<Rightarrow> login_error + session_v1" where
  "handleLogin_v1 users authPhone authPin =
     (if users = [] then Inl (AuthError ''Data is still loading. Try again in a moment.'')
      else (let phone = js_trim authPhone; normalized = normalizePhone phone; pin = js_trim authPin in
        case find_throwing (login_match phone normalized pin) users of
          None \<Rightarrow> Inl LoginCrash
        | Some None \<Rightarrow> Inl (AuthError ''Invalid phone or PIN. Try again.'')
        | Some (Some m) \<Rightarrow> Inr
            \<lparr>s1_user = m, s1_tab = ''dash'',
             s1_draftWaiter = (if u_role m = ''waiter'' then Some (u_id m) else None),
             s1_banner = ''Welcome, '' @ coalesce (u_name m) ''undefined'' @ ''!''\<rparr>))"

text \<open>The report invariant of this revision.\<close>

definition paid_loan_total :: "report_stats_v1 \<Rightarrow> bool" where
  "paid_loan_total r \<longleftrightarrow> r1_paid r + r1_loan r = r1_ordersCount r"

section \<open>Lemmas\<close>

lemma set_insort_desc_v1: "set (insort_desc_v1 x ys) = insert x (set ys)"
  by (induction ys) auto

lemma set_sort_desc_v1: "set (sort_desc_v1 rs) = set rs"
  by (induction rs) (simp_all add: sort_desc_v1_def set_insort_desc_v1)

lemma bump_v1_total: "paid_loan_total r \<Longrightarrow> paid_loan_total (bump_v1 items od r)"
  by (simp add: paid_loan_total_def bump_v1_def Let_def)

lemma buckets_v1_total:
  "\<forall>r \<in> set b. paid_loan_total (snd r) \<Longrightarrow> buckets_v1 tz tab items b os = Some rows \<Longrightarrow>
   \<forall>r \<in> set rows. paid_loan_total (snd r)"
proof (induction os arbitrary: b)
  case (Cons od os)
  then obtain k where k: "report_key_v2 tz tab (order_time tz od) = Some k"
    and rest: "buckets_v1 tz tab items (aupd k (bump_v1 items od) empty_stats_v1 b) os = Some rows"
    by (auto split: option.splits)
  have "\<forall>r \<in> set (aupd k (bump_v1 items od) empty_stats_v1 b). paid_loan_total (snd r)"
  proof
    fix r assume "r \<in> set (aupd k (bump_v1 items od) empty_stats_v1 b)"
    then have "r \<in> insert (k, bump_v1 items od (case map_of b k of None \<Rightarrow> empty_stats_v1 | Some v \<Rightarrow> v)) (set b)"
      using set_aupd_sub by fast
    moreover have "paid_loan_total (case map_of b k of None \<Rightarrow> empty_stats_v1 | Some v \<Rightarrow> v)"
    proof (cases "map_of b k")
      case None
      then show ?thesis by (simp add: paid_loan_total_def empty_stats_v1_def)
    next
      case (Some v)
      then have "(k, v) \<in> set b" by (rule map_of_SomeD)
      with Cons.prems(1) Some show ?thesis by fastforce
    qed
    ultimately show "paid_loan_total (snd r)" using Cons.prems(1) bump_v1_total by auto
  qed
  then show ?case using Cons.IH rest by blast
qed simp

text \<open>In this revision every report row counts each of its orders once, as paid or as
  loan: there is no third status.\<close>

lemma reportRows_v1_paid_loan:
  "reportRows_v1 tz items orders s e tab = Some rows \<Longrightarrow> r \<in> set rows \<Longrightarrow>
   r1_paid (snd r) + r1_loan (snd r) = r1_ordersCount (snd r)"
  using buckets_v1_total [of "[]"]
  by (auto simp: reportRows_v1_def Let_def set_sort_desc_v1 paid_loan_total_def)

lemma handleCreateOrder_v1_paid:
  "handleCreateOrder_v1 w d k now = Inr ws \<Longrightarrow>
   map_option so_status (map_of (db_orders (apply_writes s ws)) k) = Some (Some ''paid'')"
  by (auto simp: handleCreateOrder_v1_def Let_def map_of_aupd split: if_splits)

end
