(* ===== verification/Session.thy ===== *)
theory Session
  imports Revision2
begin

text \<open>
  The client state that lives outside the store: the session kept in local storage
  under \<open>rms_session\<close> and restored when the page loads, the activity log the second
  revision of \<open>src/src/App.tsx\<close> subscribes to, and \<open>closeOverlays\<close>, which resets
  every dialog of a screen, in its three versions. The lemma shows that a session written
  by \<open>handleLogin\<close> restores the same account, tab and preset waiter on a reload
  within its hour.
\<close>

section \<open>The stored session\<close>

text \<open>\<open>JSON.parse(raw) as { userId, expiresAt }\<close>: a field can be missing.\<close>

record stored_session =
  sess_userId :: "string option"
  sess_expiresAt :: "int option"

text \<open>\<open>localStorage.getItem(SESSION_KEY)\<close>: nothing (or the empty string, which
  \<open>!raw\<close> rejects the same way), a text \<open>JSON.parse\<close> rejects, or a session.\<close>

datatype session_raw = NoSession | Unparsable | Stored stored_session

text \<open>What \<open>handleLogin\<close> stores: \<open>{ userId: match.id, expiresAt }\<close>.\<close>

definition session_json :: "session \<Rightarrow> stored_session" where
  "session_json s = \<lparr>sess_userId = Some (u_id (ss_user s)), sess_expiresAt = Some (ss_expiresAt s)\<rparr>"

text \<open>The outcome of the restore effect: the user signed in, the waiter preset for new
  orders and the tab (\<open>None\<close>: left as it was), and whether the stored session is
  removed.\<close>

record restore_out =
  rst_user :: "user option"
  rst_draftWaiter :: "string option"
  rst_tab :: "string option"
  rst_clear :: bool

definition no_restore :: restore_out where
  "no_restore = \<lparr>rst_user = None, rst_draftWaiter = None, rst_tab = None, rst_clear = False\<rparr>"

definition clear_session :: restore_out where
  "clear_session = no_restore\<lparr>rst_clear := True\<rparr>"

text \<open>
  The effect on \<open>[users, currentUser]\<close>; \<open>now\<close> is \<open>Date.now()\<close>. A missing
  \<open>expiresAt\<close> compares false, so such a session never expires.
\<close>

definition restoreSession :: "user option \<Rightarrow> session_raw \<Rightarrow> user list \<Rightarrow> int \<Rightarrow> restore_out" where
  "restoreSession cur raw users now =
     (if cur \<noteq> None then no_restore
      else (case raw of
              NoSession \<Rightarrow> no_restore
            | Unparsable \<Rightarrow> if users = [] then no_restore else clear_session
            | Stored p \<Rightarrow>
                if users = [] then no_restore
                else if (case sess_expiresAt p of None \<Rightarrow> False | Some e \<Rightarrow> e < now) then clear_session
                else (case find (\<lambda>u. sess_userId p = Some (u_id u)) users of
                        None \<Rightarrow> no_restore
                      | Some f \<Rightarrow> \<lparr>rst_user = Some f,
                                   rst_draftWaiter = (if u_role f = ''waiter'' then Some (u_id f) else None),
                                   rst_tab = Some (if u_role f = ''waiter'' \<or> u_role f = ''collector''
                                                   then ''orders'' else ''dash''),
                                   rst_clear = False\<rparr>)))"

text \<open>The second revision restores the user and the preset waiter, not the tab.\<close>

definition restoreSession_v2 :: "user option \<Rightarrow> session_raw \<Rightarrow> user list \<Rightarrow> int \<Rightarrow> restore_out" where
  "restoreSession_v2 cur raw users now =
     (if cur \<noteq> None then no_restore
      else (case raw of
              NoSession \<Rightarrow> no_restore
            | Unparsable \<Rightarrow> if users = [] then no_restore else clear_session
            | Stored p \<Rightarrow>
                if users = [] then no_restore
                else if (case sess_expiresAt p of None \<Rightarrow> False | Some e \<Rightarrow> e < now) then clear_session
                else (case find (\<lambda>u. sess_userId p = Some (u_id u)) users of
                        None \<Rightarrow> no_restore
                      | Some f \<Rightarrow> \<lparr>rst_user = Some f,
                                   rst_draftWaiter = (if u_role f = ''waiter'' then Some (u_id f) else None),
                                   rst_tab = None, rst_clear = False\<rparr>)))"

section \<open>The activity log of the second revision\<close>

record stored_log =
  sl_userId :: "string option"
  sl_time :: "string option"
  sl_type :: "string option"
  sl_detail :: "string option"

text \<open>An absent field prints, and is looked up, as \<open>undefined\<close>.\<close>

definition read_log_v2 :: "key \<times> stored_log \<Rightarrow> log_entry" where
  "read_log_v2 p = (case p of (k, l) \<Rightarrow>
     \<lparr>lg_userId = tmpl (sl_userId l), lg_time = tmpl (sl_time l), lg_type = tmpl (sl_type l),
      lg_detail = sl_detail l\<rparr>)"

text \<open>Newest first (\<open>NaN\<close> compares as 0), the first ten.\<close>

definition logs_v2 :: "int \<Rightarrow> (key \<times> stored_log) list \<Rightarrow> log_entry list" where
  "logs_v2 tz val = take 10 (sort_by (\<lambda>a b. case (parse_date tz (lg_time b), parse_date tz (lg_time a)) of
       (Some tb, Some ta) \<Rightarrow> tb - ta | _ \<Rightarrow> 0) (map read_log_v2 val))"

section \<open>Closing the dialogs\<close>

text \<open>The dialog state of the current client; \<open>None\<close> is \<open>null\<close>.\<close>

record overlays =
  ov_waiterModalOpen :: bool
  ov_pendingDelete :: "user option"
  ov_openAction :: "string option"
  ov_actionWaiter :: "user option"
  ov_actionType :: "string option"
  ov_actionRole :: string
  ov_actionPin :: string
  ov_itemModalOpen :: bool
  ov_pendingItemDelete :: "item option"
  ov_itemActionItem :: "item option"
  ov_openItemAction :: "string option"
  ov_viewItem :: "item option"
  ov_viewOrder :: "order option"
  ov_newWaiterRole :: string
  ov_loanCustomerModalOpen :: bool
  ov_loanEntryModalOpen :: bool
  ov_loanEntryCustomerId :: string
  ov_loanEntryOrderId :: string
  ov_viewLoanCustomer :: "loan_customer option"
  ov_loanStatus :: loan_ui
  ov_stockModalItem :: "item option"
  ov_stockModalValue :: string

definition closeOverlays :: "overlays \<Rightarrow> overlays" where
  "closeOverlays s = s\<lparr>ov_waiterModalOpen := False, ov_pendingDelete := None, ov_openAction := None,
     ov_actionWaiter := None, ov_actionType := None, ov_actionRole := ''waiter'', ov_actionPin := [],
     ov_itemModalOpen := False, ov_pendingItemDelete := None, ov_itemActionItem := None,
     ov_openItemAction := None, ov_viewItem := None, ov_viewOrder := None,
     ov_newWaiterRole := ''waiter'', ov_loanCustomerModalOpen := False, ov_loanEntryModalOpen := False,
     ov_loanEntryCustomerId := [], ov_loanEntryOrderId := [], ov_viewLoanCustomer := None,
     ov_loanStatus := (ov_loanStatus s)\<lparr>ui_open := False, ui_orderId := [], ui_customerId := [],
                                          ui_search := []\<rparr>,
     ov_stockModalItem := None, ov_stockModalValue := ''0''\<rparr>"

text \<open>The dialog state of the second revision; the first has the same without the
  item and order views.\<close>

record overlays_v2 =
  o2_waiterModalOpen :: bool
  o2_pendingDelete :: "user option"
  o2_openAction :: "string option"
  o2_actionWaiter :: "user option"
  o2_actionType :: "string option"
  o2_itemModalOpen :: bool
  o2_pendingItemDelete :: "item option"
  o2_itemActionItem :: "item option"
  o2_openItemAction :: "string option"
  o2_viewItem :: "item option"
  o2_viewOrder :: "order option"

definition closeOverlays_v2 :: "overlays_v2 \<Rightarrow> overlays_v2" where
  "closeOverlays_v2 s = s\<lparr>o2_waiterModalOpen := False, o2_pendingDelete := None, o2_openAction := None,
     o2_actionWaiter := None, o2_actionType := None, o2_itemModalOpen := False,
     o2_pendingItemDelete := None, o2_itemActionItem := None, o2_openItemAction := None,
     o2_viewItem := None, o2_viewOrder := None\<rparr>"

definition closeOverlays_v1 :: "overlays_v2 \<Rightarrow> overlays_v2" where
  "closeOverlays_v1 s = s\<lparr>o2_waiterModalOpen := False, o2_pendingDelete := None, o2_openAction := None,
     o2_actionWaiter := None, o2_actionType := None, o2_itemModalOpen := False,
     o2_pendingItemDelete := None, o2_itemActionItem := None, o2_openItemAction := None\<rparr>"

section \<open>Lemmas\<close>

lemma find_throwing_in: "find_throwing p xs = Some (Some m) \<Longrightarrow> m \<in> set xs"
  by (induction xs) (auto split: option.splits bool.splits)

lemma find_distinct_key:
  "distinct (map f xs) \<Longrightarrow> x \<in> set xs \<Longrightarrow> find (\<lambda>u. f x = f u) xs = Some x"
  by (induction xs) (auto simp: image_iff)

lemma handleLogin_Inr:
  assumes "handleLogin users ph pin now = Inr s"
  shows "ss_user s \<in> set users \<and> users \<noteq> [] \<and> ss_expiresAt s = now + 3600000
    \<and> ss_tab s = (if u_role (ss_user s) = ''waiter'' \<or> u_role (ss_user s) = ''collector'' then ''orders'' else ''dash'')
    \<and> ss_draftWaiter s = (if u_role (ss_user s) = ''waiter'' then Some (u_id (ss_user s)) else None)"
proof -
  let ?f = "find_throwing (login_match (js_trim ph) (normalizePhone (js_trim ph)) (js_trim pin)) users"
  have ne: "users \<noteq> []" using assms by (auto simp: handleLogin_def)
  then obtain m where fm: "?f = Some (Some m)" and s: "s = \<lparr>ss_user = m,
             ss_tab = (if u_role m = ''waiter'' \<or> u_role m = ''collector'' then ''orders'' else ''dash''),
             ss_draftWaiter = (if u_role m = ''waiter'' then Some (u_id m) else None),
             ss_expiresAt = now + 60 * 60 * 1000,
             ss_banner = ''Welcome, '' @ coalesce (u_name m) ''undefined'' @ ''!''\<rparr>"
    using assms unfolding handleLogin_def Let_def by (auto split: option.splits)
  show ?thesis using find_throwing_in [OF fm] ne by (simp add: s)
qed

text \<open>Signing in and reloading the page within the hour signs the same account in
  again, on the same tab and with the same preset waiter, when account ids are unique.\<close>

lemma login_restore_roundtrip:
  assumes login: "handleLogin users ph pin now = Inr s"
    and ids: "distinct (map u_id users)" and within: "now' \<le> ss_expiresAt s"
  shows "restoreSession None (Stored (session_json s)) users now' =
           \<lparr>rst_user = Some (ss_user s), rst_draftWaiter = ss_draftWaiter s, rst_tab = Some (ss_tab s),
            rst_clear = False\<rparr>"
proof -
  have h: "ss_user s \<in> set users" "users \<noteq> []"
    and tab: "ss_tab s = (if u_role (ss_user s) = ''waiter'' \<or> u_role (ss_user s) = ''collector'' then ''orders'' else ''dash'')"
    and dw: "ss_draftWaiter s = (if u_role (ss_user s) = ''waiter'' then Some (u_id (ss_user s)) else None)"
    using handleLogin_Inr [OF login] by auto
  have f: "find (\<lambda>u. u_id (ss_user s) = u_id u) users = Some (ss_user s)"
    using find_distinct_key [OF ids h(1)] .
  show ?thesis
    using h within f tab dw by (simp add: restoreSession_def session_json_def)
qed

end
