(* ===== verification/Spec2Isabelle.thy ===== *)
theory Spec2Isabelle
  imports Staff Reports Revision1 Session
begin

text \<open>
  \<^bold>\<open>A verification development of the restaurant management client.\<close>

  \<^bold>\<open>The program.\<close> The application is a single React component. Its current
  version is \<open>src/unnamed/part_000\<close>; two earlier versions are kept one after the
  other in \<open>src/src/App.tsx\<close> (lines 1 to 1755 and 1756 to 3067). Each client
  subscribes to a Firebase Realtime Database under \<open>rms/\<close> (collections
  \<open>users\<close>, \<open>items\<close>, \<open>orders\<close>, \<open>loanCustomers\<close>, \<open>log\<close>). It reads the
  snapshots into lists, derives everything it shows from them (metrics, order list,
  reports), and writes through handlers that issue \<open>push\<close>, \<open>set\<close>,
  \<open>update\<close> and \<open>remove\<close> on single paths. Clients share the store and act on
  possibly stale snapshots; nothing is transactional.

  \<^bold>\<open>Theories and their correspondence to the code.\<close>
  \<^item> \<open>Prelude\<close>: the model's types (\<open>key\<close>, \<open>money\<close> in whole cents), the
    number printing and parsing the code does (\<open>String(n)\<close>, \<open>padStart\<close>,
    \<open>Number(s)\<close>, \<open>trim\<close>, \<open>join\<close>), and JavaScript objects and \<open>Map\<close>s as
    association lists updated in place (\<open>aupd\<close>, \<open>lookup_last\<close>), with their lemmas.
  \<^item> \<open>Store\<close>: the stored nodes and the client records (\<open>User\<close>, \<open>Item\<close>,
    \<open>Order\<close>, \<open>LoanCustomer\<close>). It has the snapshot handlers of the
    \<open>useEffect\<close> at lines 616 to 713 (\<open>read_user\<close>, \<open>read_item\<close>,
    \<open>read_order\<close>, \<open>read_customer\<close>, \<open>read_db\<close>) and the store's writes
    (\<open>store_write\<close>, \<open>apply_write\<close>). The store semantics are taken from the
    specification, the Firebase library being outside \<open>src/\<close>.
  \<^item> \<open>Orders\<close>: \<open>itemsById\<close>, \<open>orderTotal\<close>, \<open>nextOrderId\<close>,
    \<open>updateDraftQty\<close> and \<open>handleCreateOrder\<close>.
  \<^item> \<open>Settlement\<close>: \<open>updateOrderStatus\<close>, \<open>handleStatusChange\<close>, the loan
    dialog and \<open>confirmLoanStatus\<close>, \<open>addLoanEntryForOrder\<close>,
    \<open>addLoanEntry\<close>, \<open>addLoanCustomer\<close> and \<open>updateItem\<close>, with the store
    invariants (\<open>wf_db\<close>, \<open>customer_unique\<close>).
  \<^item> \<open>System\<close>: every writing handler as a constructor of \<open>op\<close>, dispatched by
    \<open>handle\<close>. The inductive set \<open>reachable\<close> holds the stores produced by any
    interleaving of any clients' writes computed from stale views, with lost writes.
  \<^item> \<open>Staff\<close>: \<open>ROLE_LABEL\<close>, \<open>normalizePhone\<close>, the staff handlers
    (\<open>addWaiter\<close>, \<open>resetWaiterPin\<close>, \<open>updateWaiterProfile\<close>,
    \<open>deleteWaiter\<close>), the catalogue handlers (\<open>addItem\<close>, \<open>updateItemStock\<close>,
    \<open>deleteItem\<close>), \<open>handleLogin\<close> with its throwing \<open>find\<close>, and
    \<open>handleLogout\<close>.
  \<^item> \<open>Calendar\<close>: the ECMAScript date algorithms the runtime applies (ECMA-262
    21.4.1). These are spec-modelled, being the engine's and not the repository's code.
    The theory also has \<open>getWeekId\<close>, \<open>toISOString\<close> and the Date Time String
    Format parser behind \<open>new Date(s)\<close>.
  \<^item> \<open>Reports\<close>: \<open>reportRows\<close> (filter, date range, bucket key per tab,
    accumulation, descending sort), its abstract contract (\<open>stats_of\<close>,
    \<open>report_group\<close>), and \<open>exportReportCSV\<close> and \<open>printReport\<close> as the text they
    produce.
  \<^item> \<open>Localisation\<close>: \<open>TRANSLATIONS\<close> (English and Somali) and \<open>tr\<close>.
  \<^item> \<open>Views\<close>: everything part_000 derives for display (lines 317 to 506 and
    1094 to 1101): \<open>metrics\<close>, \<open>orderTitle\<close>, \<open>orderPriority\<close>, the order
    filters and \<open>orderListSorted\<close>, \<open>loanTotals\<close>, the staff, item and customer
    searches, \<open>waiterCharts\<close>, \<open>waiterStatusStats\<close>, \<open>renderLogMessage\<close> and
    \<open>statusLabel\<close>. \<open>Array.prototype.sort\<close> is modelled as a stable insertion sort
    (\<open>sort_by\<close>), and \<open>Object.entries\<close> with its ordering of array-index keys.
  \<^item> \<open>Revision2\<close> and \<open>Revision1\<close>: the two earlier versions in App.tsx, with
    definitions suffixed \<open>_v2\<close> and \<open>_v1\<close>. They cover every writing handler,
    the snapshot handlers, the metrics, the order lists, the reports and their
    renderers.
  \<^item> \<open>Session\<close>: the session in local storage restored on load
    (\<open>restoreSession\<close>, \<open>restoreSession_v2\<close>), the log subscription of the
    second version, and \<open>closeOverlays\<close> in the three versions.

  Handlers are functions from their inputs (the client's view, the form fields, the
  key \<open>push\<close> returns, \<open>Date.now()\<close>) to \<open>error + writes\<close>. \<open>Inl\<close> is the
  error banner; \<open>Inr\<close> is the list of writes in the order the code issues them.
  \<open>None\<close> stands for \<open>NaN\<close>, \<open>undefined\<close>, or a thrown exception, as each
  definition's comment says.

  \<^bold>\<open>What the lemmas show.\<close> The properties are claims C1 to C40, each stated right
  after a \<open>text\<close> block naming it.
  \<^item> Ledger (C1 to C10): the duplicate check of the loan dialog is per customer, and
    races duplicate entries. Confirmation from a current snapshot keeps each
    customer's ledger unique. Status changes miss orders created since the business
    id was introduced. Under every interleaving, statuses stay valid and ledger
    entries are stable.
  \<^item> Orders (C11 to C16): the next id is fresh for its snapshot and reads back, but it
    races. The effects and errors of submission and of the draft.
  \<^item> Calendar (C17 to C20): \<open>getWeekId\<close> is the ISO-8601 week of the local day,
    and has the label shape.
  \<^item> Reports (C21 to C28): invariant I4, refinement to the abstract contract,
    sortedness, permutation invariance, the grand total, the CSV round trip, the
    specification's example, and the misordered weekly labels.
  \<^item> Staff (C29 to C36): the login matches the wrong accounts, the added staff can sign
    in, phone normalisation, the guards of profile edits and deletion, \<open>addItem\<close>'s
    errors, and the store invariants under every staff write.
  \<^item> Revisions and views (C37 to C40): in the second version, a status change reaches
    a new order, and the daily report throws on an order without a time. In
    part_000, a waiter's status chart counts every waiter's orders, and the order list
    is sorted by priority.

  Further lemmas, not claims, include: the second version's report equals the current
  one on valid times (\<open>reportRows_v2_refines\<close>); each first-version report row
  counts every order as paid or loan (\<open>reportRows_v1_paid_loan\<close>); and a login
  restores the same account after a reload within the hour
  (\<open>login_restore_roundtrip\<close>).

  \<^bold>\<open>Bounds and termination.\<close> Money is exact whole cents. JavaScript numbers are
  doubles; the model is exact while amounts stay below \<open>2^53\<close> cents, which every
  realistic order does. \<open>toFixed(2)\<close> is printed from cents. \<open>YearFromDay\<close> is a
  \<open>function\<close> that searches upward from a year known to be early enough. Its
  termination is proved with a measure (days left to the searched day), so every date
  computation is total. The week-label lemmas cover days 0 to 99999990 from the epoch:
  every day from 1970 to within ten days of the end of the time-value range. No
  definition uses fuel. Every loop of the code is a structural fold, or \<open>find\<close>/\<open>filter\<close> over a list.

  \<^bold>\<open>Not modelled.\<close>
  \<^item> The JSX rendering, the Chart.js charts and the palette, because they are
    presentation.
  \<^item> The activity-log writes (\<open>addLog\<close>), because they are fire-and-forget pushes
    that the core never reads.
  \<^item> The banner timer and the click-outside handler, because they are UI effects.
  \<^item> The order of \<open>setOrders(list.sort(...))\<close>, because every property that reads
    the order list holds for any order.
  \<^item> \<open>formatDateTime\<close> (\<open>toLocaleString\<close>), because its output is
    implementation-defined.
  \<^item> Daylight saving time, because a fixed local offset \<open>tz\<close> is used.
  \<^item> Unicode case mapping beyond ASCII in the searches.
  \<^item> The Firebase client library and the server, which are outside \<open>src/\<close>. They
    appear only through the store semantics of the specification's section 6.
\<close>

end
